theory Spec2Isabelle
  imports Complex_Main "HOL-Library.Char_ord" "HOL-Library.List_Lexorder" "HOL-Library.Sublist"
    "HOL-Library.Multiset"
begin

section \<open>Strings and timestamps\<close>

text \<open>
  Python strings are modelled as \<open>string\<close> (lists of 8-bit characters, UTF-8). The order
  \<open><\<close> on them is the lexicographic order on character codes, which is the order Python
  uses for \<open>str\<close>. Every timestamp the program handles (the cutoff, \<open>DateCreated\<close>,
  \<open>DateLastPlayed\<close>, \<open>LastPlayedDate\<close>) is such a string and is compared as a string.
  The methods \<open>str.lower\<close> and \<open>str.strip\<close> belong to the interpreter and work from the
  Unicode tables; the program is modelled for whatever these two functions are, as
  components \<open>str_lower\<close> and \<open>str_strip\<close> of the environment below.
\<close>

text \<open>Truth value of an optional string: \<open>None\<close> and the empty string are false.\<close>

fun truthy :: "string option \<Rightarrow> bool" where
  "truthy None = False"
| "truthy (Some s) = (s \<noteq> [])"

text \<open>\<open>str.rstrip('/')\<close>\<close>

definition rstrip_slash :: "string \<Rightarrow> string" where
  "rstrip_slash s = rev (dropWhile (\<lambda>c. c = CHR ''/'') (rev s))"

text \<open>How an f-string renders an optional string.\<close>

fun fmt :: "string option \<Rightarrow> string" where
  "fmt None = ''None''"
| "fmt (Some s) = s"

subsection \<open>The standard library's \<open>datetime\<close>\<close>

text \<open>
  A naive \<open>datetime\<close> value, the proleptic Gregorian ordinal of its date as the standard
  library computes it, subtraction of a \<open>timedelta(days=d)\<close>, and \<open>isoformat()\<close>.
\<close>

datatype exn = OverflowError | EOFError | UnboundLocalError | IndexError

record datetime =
  year :: int
  month :: int
  day :: int
  hour :: int
  minute :: int
  second :: int
  microsecond :: int

definition is_leap :: "int \<Rightarrow> bool" where
  "is_leap y = (y mod 4 = 0 \<and> (y mod 100 \<noteq> 0 \<or> y mod 400 = 0))"

definition days_before_year :: "int \<Rightarrow> int" where
  "days_before_year y = (y - 1) * 365 + (y - 1) div 4 - (y - 1) div 100 + (y - 1) div 400"

definition DAYS_IN_MONTH :: "int list" where
  "DAYS_IN_MONTH = [-1, 31, 28, 31, 30, 31, 30, 31, 31, 30, 31, 30, 31]"

definition DAYS_BEFORE_MONTH :: "int list" where
  "DAYS_BEFORE_MONTH = [-1, 0, 31, 59, 90, 120, 151, 181, 212, 243, 273, 304, 334]"

definition days_before_month :: "int \<Rightarrow> int \<Rightarrow> int" where
  "days_before_month y m =
     DAYS_BEFORE_MONTH ! nat m + (if m > 2 \<and> is_leap y then 1 else 0)"

definition ymd2ord :: "int \<Rightarrow> int \<Rightarrow> int \<Rightarrow> int" where
  "ymd2ord y m d = days_before_year y + days_before_month y m + d"

definition ord2ymd :: "int \<Rightarrow> int \<times> int \<times> int" where
  "ord2ymd n0 =
     (let n = n0 - 1;
          n400 = n div 146097; n = n mod 146097;
          y = n400 * 400 + 1;
          n100 = n div 36524; n = n mod 36524;
          n4 = n div 1461; n = n mod 1461;
          n1 = n div 365; n = n mod 365;
          y = y + n100 * 100 + n4 * 4 + n1
      in if n1 = 4 \<or> n100 = 4 then (y - 1, 12, 31)
         else
           let leapyear = (n1 = 3 \<and> (n4 \<noteq> 24 \<or> n100 = 3));
               m = (n + 50) div 32;
               preceding = DAYS_BEFORE_MONTH ! nat m + (if m > 2 \<and> leapyear then 1 else 0)
           in if preceding > n
              then let m' = m - 1;
                       preceding' = preceding
                         - (DAYS_IN_MONTH ! nat m' + (if m' = 2 \<and> leapyear then 1 else 0))
                   in (y, m', n - preceding' + 1)
              else (y, m, n - preceding + 1))"

definition MAXORDINAL :: int where
  "MAXORDINAL = 3652059"

text \<open>
  \<open>dt - datetime.timedelta(days=d)\<close>: the constructor of \<open>timedelta\<close> refuses more than
  999999999 days, and the difference must be a date of the years 1 to 9999.
\<close>

definition minus_days :: "datetime \<Rightarrow> int \<Rightarrow> exn + datetime" where
  "minus_days dt d =
     (if \<bar>d\<bar> > 999999999 then Inl OverflowError
      else let n = ymd2ord (year dt) (month dt) (day dt) - d
           in if 0 < n \<and> n \<le> MAXORDINAL
              then (case ord2ymd n of (y, m, dd) \<Rightarrow> Inr (dt\<lparr>year := y, month := m, day := dd\<rparr>))
              else Inl OverflowError)"

definition digit :: "int \<Rightarrow> char" where
  "digit n = ''0123456789'' ! nat (n mod 10)"

definition pad2 :: "int \<Rightarrow> string" where
  "pad2 n = [digit (n div 10), digit n]"

definition pad4 :: "int \<Rightarrow> string" where
  "pad4 n = [digit (n div 1000), digit (n div 100), digit (n div 10), digit n]"

definition pad6 :: "int \<Rightarrow> string" where
  "pad6 n = [digit (n div 100000), digit (n div 10000), digit (n div 1000),
             digit (n div 100), digit (n div 10), digit n]"

definition isoformat :: "datetime \<Rightarrow> string" where
  "isoformat dt =
     pad4 (year dt) @ ''-'' @ pad2 (month dt) @ ''-'' @ pad2 (day dt) @ ''T''
       @ pad2 (hour dt) @ '':'' @ pad2 (minute dt) @ '':'' @ pad2 (second dt)
       @ (if microsecond dt \<noteq> 0 then ''.'' @ pad6 (microsecond dt) else [])"

text \<open>
  \<open>(datetime.datetime.now() - datetime.timedelta(days=days)).isoformat()\<close>, given what
  \<open>now()\<close> returned.
\<close>

definition cutoff_date :: "datetime \<Rightarrow> int \<Rightarrow> exn + string" where
  "cutoff_date now days =
     (case minus_days now days of Inl e \<Rightarrow> Inl e | Inr dt \<Rightarrow> Inr (isoformat dt))"

section \<open>Data model\<close>

text \<open>
  The JSON objects the media server returns, with the keys the program reads. A key that
  may be missing is an option, and \<open>None\<close> is what \<open>dict.get\<close> returns for it.
  \<open>UserData\<close> holds \<open>LastPlayedDate\<close>, \<open>Played\<close> and \<open>PlayedPercentage\<close>; a played
  percentage is a JSON number, modelled as a rational.
\<close>

record user_data =
  last_played_date :: "string option"
  played :: "bool option"
  played_percentage :: "rat option"

text \<open>
  A movie, a series or an episode: keys \<open>Id\<close>, \<open>Name\<close>, \<open>Type\<close>, \<open>DateCreated\<close>,
  \<open>DateLastPlayed\<close>, \<open>UserData\<close>, \<open>Path\<close>, \<open>Overview\<close>, and the key \<open>LibraryName\<close>
  that the resolver adds.
\<close>

record item =
  item_id :: "string option"
  item_name :: "string option"
  item_type :: "string option"
  date_created :: "string option"
  date_last_played :: "string option"
  user_data :: "user_data option"
  item_path :: "string option"
  overview :: "string option"
  library_name :: "string option"

text \<open>A user: keys \<open>Name\<close> and \<open>Id\<close>.\<close>

record user =
  user_name :: "string option"
  user_id :: "string option"

text \<open>
  A library: keys \<open>Name\<close> and \<open>ItemId\<close>, and the list under
  \<open>LibraryOptions.TypeOptions\<close> (each entry its \<open>Type\<close>), \<open>None\<close> when either key is missing.
\<close>

record library =
  lib_name :: "string option"
  lib_item_id :: "string option"
  type_options :: "string option list option"

text \<open>
  An entry of the Radarr or Sonarr catalog: keys \<open>title\<close>, \<open>id\<close>, \<open>sizeOnDisk\<close> (read for
  a movie) and \<open>statistics.sizeOnDisk\<close> (read for a series, \<open>None\<close> when either key is
  missing). An entry is a JSON object with at least one key, so it counts as true where the
  program tests it (lines 844 and 866).
\<close>

record arr_entry =
  title :: "string option"
  arr_id :: "int option"
  size_on_disk :: "int option"
  statistics_size_on_disk :: "int option"

section \<open>The media server gateway\<close>

datatype http_method = GET | DELETE

record request =
  verb :: http_method
  url :: string
  req_headers :: "(string \<times> string) list"
  params :: "(string \<times> string option) list"

text \<open>
  The remote services, as the answers they give: for each request either the decoded
  payload or \<open>None\<close> when the call fails with a \<open>RequestException\<close>; the answer to a
  request is the same each time it is issued. For the item endpoints the payload is the
  list under the key \<open>Items\<close>. \<open>clock n\<close> is what the
  \<open>n\<close>-th call of \<open>datetime.datetime.now()\<close> returns, and \<open>signals n\<close> is the signal
  that arrives while the scheduler sleeps for the \<open>n\<close>-th time, if one does. The last two
  components are the interpreter's \<open>str.lower\<close> and \<open>str.strip\<close>.
\<close>

datatype signal = SIGINT | SIGTERM

record services =
  users_response :: "request \<Rightarrow> user list option"
  libraries_response :: "request \<Rightarrow> library list option"
  items_response :: "request \<Rightarrow> item list option"
  catalog_response :: "request \<Rightarrow> arr_entry list option"
  delete_response :: "request \<Rightarrow> bool"
  clock :: "nat \<Rightarrow> datetime"
  signals :: "nat \<Rightarrow> signal option"
  str_lower :: "string \<Rightarrow> string"
  str_strip :: "string \<Rightarrow> string"

text \<open>
  A method of the client returns its value together with the requests it issued, in order.
  The client object is a record of its attributes and of its methods; the methods are fields
  because \<open>process_unwatched_media\<close> replaces some of them on the object.
\<close>

type_synonym 'a io = "'a \<times> request list"

record emby_client =
  server_url :: string
  headers :: "(string \<times> string) list"
  whitelisted_users :: "string list"
  get_libraries :: "library list io"
  get_items_by_library :: "string \<Rightarrow> item list io"
  get_users :: "user list io"
  get_user_items_by_library :: "string option \<Rightarrow> string \<Rightarrow> item list io"
  get_episodes_by_series :: "string option \<Rightarrow> item list io"
  get_user_episodes_by_series :: "string option \<Rightarrow> string option \<Rightarrow> item list io"

text \<open>\<open>try: requests.get(...) ... except RequestException: return []\<close>\<close>

definition fetch :: "(request \<Rightarrow> 'b list option) \<Rightarrow> request \<Rightarrow> 'b list io" where
  "fetch respond req = (case respond req of None \<Rightarrow> ([], [req]) | Some xs \<Rightarrow> (xs, [req]))"

definition emby_get_libraries :: "services \<Rightarrow> string \<Rightarrow> (string \<times> string) list \<Rightarrow> library list io" where
  "emby_get_libraries env base hdrs =
     fetch (libraries_response env)
       \<lparr>verb = GET, url = base @ ''/emby/Library/VirtualFolders'', req_headers = hdrs,
        params = []\<rparr>"

definition emby_get_items_by_library ::
  "services \<Rightarrow> string \<Rightarrow> (string \<times> string) list \<Rightarrow> string \<Rightarrow> item list io" where
  "emby_get_items_by_library env base hdrs library_id =
     fetch (items_response env)
       \<lparr>verb = GET, url = base @ ''/emby/Items'', req_headers = hdrs,
        params = [(''ParentId'', Some library_id), (''Recursive'', Some ''True''),
                  (''IncludeItemTypes'', Some ''Movie,Series''),
                  (''Fields'', Some ''DateLastPlayed,Path,MediaStreams,Overview,DateCreated''),
                  (''SortBy'', Some ''DateCreated,SortName''),
                  (''SortOrder'', Some ''Descending'')]\<rparr>"

definition emby_get_users :: "services \<Rightarrow> string \<Rightarrow> (string \<times> string) list \<Rightarrow> user list io" where
  "emby_get_users env base hdrs =
     fetch (users_response env)
       \<lparr>verb = GET, url = base @ ''/emby/Users'', req_headers = hdrs, params = []\<rparr>"

definition emby_get_user_items_by_library ::
  "services \<Rightarrow> string \<Rightarrow> (string \<times> string) list \<Rightarrow> string option \<Rightarrow> string \<Rightarrow> item list io" where
  "emby_get_user_items_by_library env base hdrs uid library_id =
     fetch (items_response env)
       \<lparr>verb = GET, url = base @ ''/emby/Users/'' @ fmt uid @ ''/Items'', req_headers = hdrs,
        params = [(''ParentId'', Some library_id), (''Recursive'', Some ''True''),
                  (''IncludeItemTypes'', Some ''Movie,Series''),
                  (''Fields'', Some ''DateLastPlayed,Path,MediaStreams,Overview,UserData''),
                  (''SortBy'', Some ''DateCreated,SortName''),
                  (''SortOrder'', Some ''Descending'')]\<rparr>"

definition emby_get_episodes_by_series ::
  "services \<Rightarrow> string \<Rightarrow> (string \<times> string) list \<Rightarrow> string option \<Rightarrow> item list io" where
  "emby_get_episodes_by_series env base hdrs series_id =
     fetch (items_response env)
       \<lparr>verb = GET, url = base @ ''/emby/Items'', req_headers = hdrs,
        params = [(''ParentId'', series_id), (''Recursive'', Some ''True''),
                  (''IncludeItemTypes'', Some ''Episode''),
                  (''Fields'',
                   Some ''DateLastPlayed,Path,MediaStreams,Overview,UserData,DateCreated''),
                  (''SortBy'', Some ''DateCreated''),
                  (''SortOrder'', Some ''Descending'')]\<rparr>"

definition emby_get_user_episodes_by_series ::
  "services \<Rightarrow> string \<Rightarrow> (string \<times> string) list \<Rightarrow> string option \<Rightarrow> string option
     \<Rightarrow> item list io" where
  "emby_get_user_episodes_by_series env base hdrs uid series_id =
     fetch (items_response env)
       \<lparr>verb = GET, url = base @ ''/emby/Users/'' @ fmt uid @ ''/Items'', req_headers = hdrs,
        params = [(''ParentId'', series_id), (''Recursive'', Some ''True''),
                  (''IncludeItemTypes'', Some ''Episode''),
                  (''Fields'', Some ''DateLastPlayed,Path,MediaStreams,Overview,UserData''),
                  (''SortBy'', Some ''SortName''),
                  (''SortOrder'', Some ''Ascending'')]\<rparr>"

text \<open>\<open>EmbyClient.__init__\<close>, with the methods of the class bound to the new object.\<close>

definition EmbyClient :: "services \<Rightarrow> string \<Rightarrow> string \<Rightarrow> string list \<Rightarrow> emby_client" where
  "EmbyClient env server api_key whitelist =
     (let base = rstrip_slash server;
          hdrs = [(''X-Emby-Token'', api_key), (''Content-Type'', ''application/json'')]
      in \<lparr>server_url = base, headers = hdrs, whitelisted_users = whitelist,
          get_libraries = emby_get_libraries env base hdrs,
          get_items_by_library = emby_get_items_by_library env base hdrs,
          get_users = emby_get_users env base hdrs,
          get_user_items_by_library = emby_get_user_items_by_library env base hdrs,
          get_episodes_by_series = emby_get_episodes_by_series env base hdrs,
          get_user_episodes_by_series = emby_get_user_episodes_by_series env base hdrs\<rparr>)"

section \<open>The watch-state resolver: \<open>EmbyClient.get_unwatched_items\<close>\<close>

text \<open>\<open>x and x > cutoff_date\<close>\<close>

fun after :: "string option \<Rightarrow> string \<Rightarrow> bool" where
  "after None cutoff = False"
| "after (Some s) cutoff = (s \<noteq> [] \<and> s > cutoff)"

text \<open>\<open>not x or x < cutoff_date\<close>\<close>

fun stale :: "string option \<Rightarrow> string \<Rightarrow> bool" where
  "stale None cutoff = True"
| "stale (Some s) cutoff = (s = [] \<or> s < cutoff)"

text \<open>
  The test of lines 262-264 (and 285-287 for an episode) on the \<open>UserData\<close> of an item:
  \<open>(last_played and last_played > cutoff_date) or played or played_percentage > 75\<close>.
\<close>

definition watched :: "string \<Rightarrow> user_data option \<Rightarrow> bool" where
  "watched cutoff ud =
     (let last_played = (case ud of None \<Rightarrow> None | Some d \<Rightarrow> last_played_date d);
          percentage =
            (case ud of None \<Rightarrow> 0
             | Some d \<Rightarrow> (case played_percentage d of None \<Rightarrow> 0 | Some p \<Rightarrow> p));
          played_flag =
            (case ud of None \<Rightarrow> False
             | Some d \<Rightarrow> (case played d of None \<Rightarrow> False | Some b \<Rightarrow> b))
      in after last_played cutoff \<or> played_flag \<or> percentage > 75)"

text \<open>Lines 279-291: whether the loop over a user's episodes reaches its \<open>add\<close> and \<open>break\<close>.\<close>

fun user_episodes_loop :: "string \<Rightarrow> item list \<Rightarrow> bool" where
  "user_episodes_loop cutoff [] = False"
| "user_episodes_loop cutoff (episode # episodes) =
     (if watched cutoff (user_data episode) then True
      else user_episodes_loop cutoff episodes)"

text \<open>Lines 251-291: the loop over one user's items of one library.\<close>

fun user_items_loop ::
  "emby_client \<Rightarrow> string \<Rightarrow> string option \<Rightarrow> item list \<Rightarrow> string option set
     \<Rightarrow> string option set io" where
  "user_items_loop self cutoff uid [] watched_by_whitelisted = (watched_by_whitelisted, [])"
| "user_items_loop self cutoff uid (item # items) watched_by_whitelisted =
     (if watched cutoff (user_data item) then
        (if item_type item = Some ''Series'' then
           (case get_user_episodes_by_series self uid (item_id item) of (episodes, rs) \<Rightarrow>
              (case user_items_loop self cutoff uid items
                      (if user_episodes_loop cutoff episodes
                       then insert (item_id item) (insert (item_id item) watched_by_whitelisted)
                       else insert (item_id item) watched_by_whitelisted)
               of (s, rs') \<Rightarrow> (s, rs @ rs')))
         else user_items_loop self cutoff uid items
                (insert (item_id item) watched_by_whitelisted))
      else user_items_loop self cutoff uid items watched_by_whitelisted)"

text \<open>Lines 249-291: the loop over the whitelisted users, for one library.\<close>

fun users_loop ::
  "emby_client \<Rightarrow> string \<Rightarrow> string \<Rightarrow> string option list \<Rightarrow> string option set
     \<Rightarrow> string option set io" where
  "users_loop self cutoff library_id [] watched_by_whitelisted = (watched_by_whitelisted, [])"
| "users_loop self cutoff library_id (uid # uids) watched_by_whitelisted =
     (case get_user_items_by_library self uid library_id of (user_items, rs) \<Rightarrow>
        (case user_items_loop self cutoff uid user_items watched_by_whitelisted of (s1, rs1) \<Rightarrow>
           (case users_loop self cutoff library_id uids s1 of (s2, rs2) \<Rightarrow>
              (s2, rs @ rs1 @ rs2))))"

text \<open>Lines 244-291: the whitelisted-watch pass over the libraries.\<close>

fun whitelist_pass ::
  "emby_client \<Rightarrow> string \<Rightarrow> string option list \<Rightarrow> library list \<Rightarrow> string option set
     \<Rightarrow> string option set io" where
  "whitelist_pass self cutoff uids [] watched_by_whitelisted = (watched_by_whitelisted, [])"
| "whitelist_pass self cutoff uids (lib # libs) watched_by_whitelisted =
     (if \<not> truthy (lib_item_id lib)
      then whitelist_pass self cutoff uids libs watched_by_whitelisted
      else (case users_loop self cutoff (the (lib_item_id lib)) uids watched_by_whitelisted
            of (s1, rs1) \<Rightarrow>
              (case whitelist_pass self cutoff uids libs s1 of (s2, rs2) \<Rightarrow> (s2, rs1 @ rs2))))"

text \<open>Lines 321-326: whether some episode of the series was played after the cutoff.\<close>

fun episodes_loop :: "string \<Rightarrow> item list \<Rightarrow> bool" where
  "episodes_loop cutoff [] = False"
| "episodes_loop cutoff (episode # episodes) =
     (if after (date_last_played episode) cutoff then True
      else episodes_loop cutoff episodes)"

text \<open>\<open>item['LibraryName'] = library_name\<close>\<close>

definition set_library_name :: "string option \<Rightarrow> item \<Rightarrow> item" where
  "set_library_name name item = item\<lparr>library_name := name\<rparr>"

text \<open>Lines 306-340: the loop over the items of one library; the result is what it appends.\<close>

fun items_loop ::
  "emby_client \<Rightarrow> string \<Rightarrow> string option set \<Rightarrow> string option \<Rightarrow> item list
     \<Rightarrow> item list io" where
  "items_loop self cutoff watched_by_whitelisted name [] = ([], [])"
| "items_loop self cutoff watched_by_whitelisted name (item # items) =
     (if item_id item \<in> watched_by_whitelisted
      then items_loop self cutoff watched_by_whitelisted name items
      else
        (case (if item_type item = Some ''Series'' \<and> item_id item \<notin> watched_by_whitelisted
               then (case get_episodes_by_series self (item_id item) of (episodes, rs) \<Rightarrow>
                       (episodes_loop cutoff episodes, rs))
               else (False, []))
         of (recently_watched, rs) \<Rightarrow>
           (case items_loop self cutoff watched_by_whitelisted name items of (rest, rs') \<Rightarrow>
              (if recently_watched then (rest, rs @ rs')
               else if after (date_created item) cutoff then (rest, rs @ rs')
               else if stale (date_last_played item) cutoff
                    then (set_library_name name item # rest, rs @ rs')
                    else (rest, rs @ rs')))))"

text \<open>Lines 296-340: the global pass over the libraries.\<close>

fun unwatched_pass ::
  "emby_client \<Rightarrow> string \<Rightarrow> string option set \<Rightarrow> library list \<Rightarrow> item list io" where
  "unwatched_pass self cutoff watched_by_whitelisted [] = ([], [])"
| "unwatched_pass self cutoff watched_by_whitelisted (lib # libs) =
     (if \<not> truthy (lib_item_id lib)
      then unwatched_pass self cutoff watched_by_whitelisted libs
      else (case get_items_by_library self (the (lib_item_id lib)) of (items, rs) \<Rightarrow>
             (case items_loop self cutoff watched_by_whitelisted (lib_name lib) items
              of (found, rs1) \<Rightarrow>
                (case unwatched_pass self cutoff watched_by_whitelisted libs of (rest, rs2) \<Rightarrow>
                   (found @ rest, rs @ rs1 @ rs2)))))"

text \<open>
  Lines 206-211: the identifiers of the users whose name is whitelisted, each once. The
  program keeps them in a set and line 249 visits them in the order of that set; here it
  is the order of the list of users. The set of watched items does not depend on the
  order, the order of the requests does.
\<close>

definition is_whitelisted :: "services \<Rightarrow> emby_client \<Rightarrow> user \<Rightarrow> bool" where
  "is_whitelisted env self u =
     (str_lower env (case user_name u of None \<Rightarrow> [] | Some n \<Rightarrow> n)
        \<in> set (map (str_lower env) (whitelisted_users self)))"

definition whitelisted_user_ids ::
  "services \<Rightarrow> emby_client \<Rightarrow> user list \<Rightarrow> string option list" where
  "whitelisted_user_ids env self users =
     remdups (map user_id (filter (is_whitelisted env self) users))"

text \<open>Lines 223-236: the libraries whose name is in the filter.\<close>

definition filtered_libraries :: "string list \<Rightarrow> library list \<Rightarrow> library list" where
  "filtered_libraries library_names libraries =
     filter (\<lambda>lib. truthy (lib_name lib) \<and> the (lib_name lib) \<in> set library_names) libraries"

text \<open>
  Lines 202-343, for a given cutoff. \<open>library_names\<close> is the set of names of the filter, empty
  when the caller passes \<open>None\<close>.
\<close>

definition unwatched_since ::
  "services \<Rightarrow> emby_client \<Rightarrow> string \<Rightarrow> string list \<Rightarrow> item list io" where
  "unwatched_since env self cutoff library_names =
     (case get_users self of (users, rs1) \<Rightarrow>
        (case get_libraries self of (libraries, rs2) \<Rightarrow>
           (if library_names \<noteq> [] \<and> filtered_libraries library_names libraries = []
            then ([], rs1 @ rs2)
            else
              (let libraries = (if library_names \<noteq> []
                                then filtered_libraries library_names libraries
                                else libraries);
                   uids = whitelisted_user_ids env self users
               in (case (if uids \<noteq> []
                         then whitelist_pass self cutoff uids libraries {}
                         else ({}, []))
                   of (watched_by_whitelisted, rs3) \<Rightarrow>
                     (case unwatched_pass self cutoff watched_by_whitelisted libraries
                      of (unwatched_items, rs4) \<Rightarrow>
                        (unwatched_items, rs1 @ rs2 @ rs3 @ rs4)))))))"

text \<open>
  The state of the process that a run changes: the requests issued so far, the number of
  times the clock was read, the lines still to be read from standard input, and the
  attributes \<open>_movies_cache\<close> and \<open>_series_cache\<close> of the two catalog clients.
\<close>

record world =
  http_log :: "request list"
  clock_reads :: nat
  stdin :: "string list"
  movies_cache :: "arr_entry list option"
  series_cache :: "arr_entry list option"

definition issue :: "request list \<Rightarrow> world \<Rightarrow> world" where
  "issue rs w = w\<lparr>http_log := http_log w @ rs\<rparr>"

text \<open>\<open>datetime.datetime.now()\<close>\<close>

definition datetime_now :: "services \<Rightarrow> world \<Rightarrow> datetime \<times> world" where
  "datetime_now env w = (clock env (clock_reads w), w\<lparr>clock_reads := Suc (clock_reads w)\<rparr>)"

text \<open>
  \<open>get_unwatched_items\<close>: line 200 computes the cutoff from the clock, the rest of the
  method works from that string.
\<close>

definition get_unwatched_items ::
  "services \<Rightarrow> emby_client \<Rightarrow> int \<Rightarrow> string list \<Rightarrow> world \<Rightarrow> (exn + item list) \<times> world" where
  "get_unwatched_items env self days library_names w =
     (case datetime_now env w of (now, w1) \<Rightarrow>
        (case cutoff_date now days of
           Inl e \<Rightarrow> (Inl e, w1)
         | Inr cutoff \<Rightarrow>
             (case unwatched_since env self cutoff library_names of (unwatched_items, rs) \<Rightarrow>
                (Inr unwatched_items, issue rs w1))))"

section \<open>The catalog gateways: \<open>RadarrClient\<close> and \<open>SonarrClient\<close>\<close>

text \<open>
  The two classes have the same attributes; the cache attribute of each lives in the
  \<open>world\<close>. \<open>ArrClient\<close> is the constructor of either class, without the reset of the cache.
\<close>

record arr_client =
  arr_url :: string
  arr_headers :: "(string \<times> string) list"

definition ArrClient :: "string \<Rightarrow> string \<Rightarrow> arr_client" where
  "ArrClient server key = \<lparr>arr_url = rstrip_slash server, arr_headers = [(''X-Api-Key'', key)]\<rparr>"

text \<open>How an f-string renders an integer.\<close>

function str_nat :: "nat \<Rightarrow> string" where
  "str_nat n = (if n < 10 then [digit (int n)] else str_nat (n div 10) @ [digit (int n)])"
  by pat_completeness auto
termination
  by (relation "measure id") auto

definition str_int :: "int \<Rightarrow> string" where
  "str_int i = (if i < 0 then ''-'' @ str_nat (nat (- i)) else str_nat (nat i))"

definition get_all_movies :: "services \<Rightarrow> arr_client \<Rightarrow> world \<Rightarrow> arr_entry list \<times> world" where
  "get_all_movies env self w =
     (case movies_cache w of
        Some cache \<Rightarrow> (cache, w)
      | None \<Rightarrow>
          (let req = \<lparr>verb = GET, url = arr_url self @ ''/api/v3/movie'',
                      req_headers = arr_headers self, params = []\<rparr>
           in (case catalog_response env req of
                 None \<Rightarrow> ([], issue [req] w)
               | Some movie_list \<Rightarrow>
                   (movie_list, (issue [req] w)\<lparr>movies_cache := Some movie_list\<rparr>))))"

definition get_all_series :: "services \<Rightarrow> arr_client \<Rightarrow> world \<Rightarrow> arr_entry list \<times> world" where
  "get_all_series env self w =
     (case series_cache w of
        Some cache \<Rightarrow> (cache, w)
      | None \<Rightarrow>
          (let req = \<lparr>verb = GET, url = arr_url self @ ''/api/v3/series'',
                      req_headers = arr_headers self, params = []\<rparr>
           in (case catalog_response env req of
                 None \<Rightarrow> ([], issue [req] w)
               | Some series_list \<Rightarrow>
                   (series_list, (issue [req] w)\<lparr>series_cache := Some series_list\<rparr>))))"

text \<open>\<open>entry.get('title', '')\<close>\<close>

definition title_of :: "arr_entry \<Rightarrow> string" where
  "title_of entry = (case title entry of None \<Rightarrow> [] | Some t \<Rightarrow> t)"

text \<open>The test of the first loop of the two finders, and the test of the second.\<close>

definition exact_match :: "services \<Rightarrow> string \<Rightarrow> arr_entry \<Rightarrow> bool" where
  "exact_match env name entry = (str_lower env (title_of entry) = str_lower env name)"

definition fuzzy_match :: "services \<Rightarrow> string \<Rightarrow> arr_entry \<Rightarrow> bool" where
  "fuzzy_match env name entry =
     (sublist (str_lower env name) (str_lower env (title_of entry))
      \<or> sublist (str_lower env (title_of entry)) (str_lower env name))"

text \<open>
  Each of the two loops returns the first entry that passes its test; \<open>find\<close> is that loop.
\<close>

definition find_movie_by_title ::
  "services \<Rightarrow> arr_client \<Rightarrow> string \<Rightarrow> world \<Rightarrow> arr_entry option \<times> world" where
  "find_movie_by_title env self name w =
     (case get_all_movies env self w of (all_movies, w1) \<Rightarrow>
        (case find (exact_match env name) all_movies of
           Some movie \<Rightarrow> (Some movie, w1)
         | None \<Rightarrow> (find (fuzzy_match env name) all_movies, w1)))"

definition find_series_by_title ::
  "services \<Rightarrow> arr_client \<Rightarrow> string \<Rightarrow> world \<Rightarrow> arr_entry option \<times> world" where
  "find_series_by_title env self name w =
     (case get_all_series env self w of (all_series, w1) \<Rightarrow>
        (case find (exact_match env name) all_series of
           Some series \<Rightarrow> (Some series, w1)
         | None \<Rightarrow> (find (fuzzy_match env name) all_series, w1)))"

text \<open>
  What a call returns, raises, or the exit code it ends the process with (\<open>sys.exit\<close>,
  which no \<open>except Exception\<close> handler catches).
\<close>

datatype 'a result = Return 'a | Raise exn | SysExit int

definition delete_request :: "arr_client \<Rightarrow> string \<Rightarrow> int \<Rightarrow> bool \<Rightarrow> request" where
  "delete_request self path entry_id delete_files =
     \<lparr>verb = DELETE, url = arr_url self @ path @ str_int entry_id,
      req_headers = arr_headers self,
      params = [(''deleteFiles'', Some (if delete_files then ''true'' else ''false''))]\<rparr>"

text \<open>
  \<open>RadarrClient.delete_movie\<close>. After a successful call with no cache the name
  \<open>movie_name\<close> is unbound when the method logs it.
\<close>

definition delete_movie ::
  "services \<Rightarrow> arr_client \<Rightarrow> int \<Rightarrow> bool \<Rightarrow> world \<Rightarrow> bool result \<times> world" where
  "delete_movie env self movie_id delete_files w =
     (let req = delete_request self ''/api/v3/movie/'' movie_id delete_files;
          w1 = issue [req] w
      in if delete_response env req
         then (case movies_cache w1 of
                 None \<Rightarrow> (Raise UnboundLocalError, w1)
               | Some cache \<Rightarrow>
                   (Return True,
                    w1\<lparr>movies_cache := Some (filter (\<lambda>m. arr_id m \<noteq> Some movie_id) cache)\<rparr>))
         else (case get_all_movies env self w1 of (all_movies, w2) \<Rightarrow> (Return False, w2)))"

text \<open>\<open>SonarrClient.delete_series\<close>, which looks the name up before the call.\<close>

definition delete_series ::
  "services \<Rightarrow> arr_client \<Rightarrow> int \<Rightarrow> bool \<Rightarrow> world \<Rightarrow> bool result \<times> world" where
  "delete_series env self series_id delete_files w =
     (case get_all_series env self w of (all_series, w0) \<Rightarrow>
        (let req = delete_request self ''/api/v3/series/'' series_id delete_files;
             w1 = issue [req] w0
         in if delete_response env req
            then (case series_cache w1 of
                    None \<Rightarrow> (Return True, w1)
                  | Some cache \<Rightarrow>
                      (Return True,
                       w1\<lparr>series_cache :=
                            Some (filter (\<lambda>s. arr_id s \<noteq> Some series_id) cache)\<rparr>))
            else (Return False, w1)))"

section \<open>The deletion orchestrator: \<open>process_unwatched_media\<close>\<close>

datatype delete_mode = Interactive | DeleteAll | DeleteNone

text \<open>The parsed command line, with the options the run reads.\<close>

record args =
  server :: string
  api_key :: string
  days :: int
  whitelist :: string
  include_recent :: bool
  ignore_episodes :: bool
  ignore_recent_episodes :: bool
  sonarr_url :: "string option"
  sonarr_api_key :: "string option"
  radarr_url :: "string option"
  radarr_api_key :: "string option"
  sort_by_size :: bool
  delete_mode :: delete_mode
  delete_files :: bool
  dry_run :: bool
  libraries :: "string option"
  list_libraries :: bool
  interval :: "int option"
  run_at_start :: bool

text \<open>Truth value of \<open>args.interval\<close>: \<open>None\<close> and 0 are false.\<close>

fun truthy_int :: "int option \<Rightarrow> bool" where
  "truthy_int None = False"
| "truthy_int (Some n) = (n \<noteq> 0)"

text \<open>\<open>s.split(',')\<close>\<close>

fun split_comma :: "string \<Rightarrow> string list" where
  "split_comma [] = [[]]"
| "split_comma (c # cs) =
     (if c = CHR '','' then [] # split_comma cs
      else (case split_comma cs of [] \<Rightarrow> [[c]] | p # ps \<Rightarrow> (c # p) # ps))"

text \<open>\<open>{x.strip() for x in s.split(',') if x.strip()}\<close>, each name once.\<close>

definition comma_separated :: "services \<Rightarrow> string \<Rightarrow> string list" where
  "comma_separated env s =
     remdups (filter (\<lambda>x. x \<noteq> []) (map (str_strip env) (split_comma s)))"

text \<open>Lines 760-781: the local function \<open>updated_get_items\<close>.\<close>

definition updated_get_items :: "services \<Rightarrow> emby_client \<Rightarrow> string \<Rightarrow> item list io" where
  "updated_get_items env client library_id =
     fetch (items_response env)
       \<lparr>verb = GET, url = server_url client @ ''/emby/Items'', req_headers = headers client,
        params = [(''ParentId'', Some library_id), (''Recursive'', Some ''True''),
                  (''IncludeItemTypes'', Some ''Movie,Series''),
                  (''Fields'', Some ''DateLastPlayed,Path,MediaStreams,Overview,DateCreated''),
                  (''SortBy'', Some ''DateCreated,SortName''),
                  (''SortOrder'', Some ''Descending'')]\<rparr>"

text \<open>
  Lines 727-730 and 748-786: the client of the run, with the methods that the options
  replace.
\<close>

definition configure_client :: "services \<Rightarrow> args \<Rightarrow> emby_client" where
  "configure_client env args =
     (let client = EmbyClient env (server args) (api_key args) (comma_separated env (whitelist args));
          client = (if ignore_episodes args
                    then client\<lparr>get_episodes_by_series := (\<lambda>series_id. ([], [])),
                                get_user_episodes_by_series := (\<lambda>uid series_id. ([], []))\<rparr>
                    else client)
      in if \<not> include_recent args
         then client\<lparr>get_items_by_library := updated_get_items env client\<rparr>
         else client)"

text \<open>Lines 815-820: whether some episode was created after the cutoff.\<close>

fun recent_episode_loop :: "string \<Rightarrow> item list \<Rightarrow> bool" where
  "recent_episode_loop cutoff [] = False"
| "recent_episode_loop cutoff (episode # episodes) =
     (if after (date_created episode) cutoff then True
      else recent_episode_loop cutoff episodes)"

text \<open>Lines 799-820: the series of the unwatched list with a recently added episode.\<close>

fun recently_updated_loop ::
  "emby_client \<Rightarrow> string \<Rightarrow> item list \<Rightarrow> string option set io" where
  "recently_updated_loop client cutoff [] = ({}, [])"
| "recently_updated_loop client cutoff (item # items) =
     (if item_type item = Some ''Series'' then
        (case get_episodes_by_series client (item_id item) of (episodes, rs) \<Rightarrow>
           (case recently_updated_loop client cutoff items of (s, rs') \<Rightarrow>
              (if recent_episode_loop cutoff episodes then (insert (item_id item) s, rs @ rs')
               else (s, rs @ rs'))))
      else recently_updated_loop client cutoff items)"

text \<open>An entry of the lists \<open>movies\<close> and \<open>shows\<close>: keys \<open>Name\<close>, \<open>Path\<close>, \<open>Library\<close>,
  \<open>Overview\<close>, \<open>Size\<close>, \<open>Id\<close> and \<open>ArrData\<close>.\<close>

record media_data =
  m_name :: string
  m_path :: string
  m_library :: "string option"
  m_overview :: string
  m_size :: int
  m_id :: "int option"
  m_arr_data :: "arr_entry option"

definition name_of :: "item \<Rightarrow> string" where
  "name_of item = (case item_name item of None \<Rightarrow> ''Unknown'' | Some n \<Rightarrow> n)"

definition media_entry :: "item \<Rightarrow> int \<Rightarrow> arr_entry option \<Rightarrow> media_data" where
  "media_entry item item_size found =
     \<lparr>m_name = name_of item,
      m_path = (case item_path item of None \<Rightarrow> [] | Some p \<Rightarrow> p),
      m_library = library_name item,
      m_overview = (if truthy (overview item) then take 100 (the (overview item)) @ ''...''
                    else ''No overview''),
      m_size = item_size,
      m_id = (case found of None \<Rightarrow> None | Some entry \<Rightarrow> arr_id entry),
      m_arr_data = found\<rparr>"

text \<open>Lines 842-848 and 864-870: the lookup in the catalog, when its client exists.\<close>

definition lookup_movie ::
  "services \<Rightarrow> arr_client option \<Rightarrow> string \<Rightarrow> world \<Rightarrow> arr_entry option \<times> world" where
  "lookup_movie env radarr_client name w =
     (case radarr_client of None \<Rightarrow> (None, w)
      | Some client \<Rightarrow> find_movie_by_title env client name w)"

definition lookup_series ::
  "services \<Rightarrow> arr_client option \<Rightarrow> string \<Rightarrow> world \<Rightarrow> arr_entry option \<times> world" where
  "lookup_series env sonarr_client name w =
     (case sonarr_client of None \<Rightarrow> (None, w)
      | Some client \<Rightarrow> find_series_by_title env client name w)"

definition movie_size :: "arr_entry option \<Rightarrow> int" where
  "movie_size found =
     (case found of None \<Rightarrow> 0
      | Some entry \<Rightarrow> (case size_on_disk entry of None \<Rightarrow> 0 | Some n \<Rightarrow> n))"

definition series_size :: "arr_entry option \<Rightarrow> int" where
  "series_size found =
     (case found of None \<Rightarrow> 0
      | Some entry \<Rightarrow> (case statistics_size_on_disk entry of None \<Rightarrow> 0 | Some n \<Rightarrow> n))"

text \<open>Lines 828-882: the lists \<open>movies\<close> and \<open>shows\<close>, in the order of the appends.\<close>

fun correlate_loop ::
  "services \<Rightarrow> arr_client option \<Rightarrow> arr_client option \<Rightarrow> string option set \<Rightarrow> item list
     \<Rightarrow> world \<Rightarrow> (media_data list \<times> media_data list) \<times> world" where
  "correlate_loop env radarr_client sonarr_client recent [] w = (([], []), w)"
| "correlate_loop env radarr_client sonarr_client recent (item # items) w =
     (if item_type item = Some ''Series'' \<and> item_id item \<in> recent
      then correlate_loop env radarr_client sonarr_client recent items w
      else if item_type item = Some ''Movie'' then
        (case lookup_movie env radarr_client (name_of item) w of (found, w1) \<Rightarrow>
           (case correlate_loop env radarr_client sonarr_client recent items w1
            of ((movies, shows), w2) \<Rightarrow>
              ((media_entry item (movie_size found) found # movies, shows), w2)))
      else if item_type item = Some ''Series'' then
        (case lookup_series env sonarr_client (name_of item) w of (found, w1) \<Rightarrow>
           (case correlate_loop env radarr_client sonarr_client recent items w1
            of ((movies, shows), w2) \<Rightarrow>
              ((movies, media_entry item (series_size found) found # shows), w2)))
      else correlate_loop env radarr_client sonarr_client recent items w)"

text \<open>
  \<open>prompt_for_deletion\<close>: reads lines until one is an answer. At the end of the input
  \<open>input()\<close> raises \<open>EOFError\<close>.
\<close>

fun prompt_loop :: "services \<Rightarrow> string list \<Rightarrow> bool result \<times> string list" where
  "prompt_loop env [] = (Raise EOFError, [])"
| "prompt_loop env (line # rest) =
     (let response = str_lower env line
      in if response = ''y'' \<or> response = ''yes'' then (Return True, rest)
         else if response = ''n'' \<or> response = ''no'' then (Return False, rest)
         else if response = ''q'' \<or> response = ''quit'' then (SysExit 0, rest)
         else prompt_loop env rest)"

definition prompt_for_deletion :: "services \<Rightarrow> world \<Rightarrow> bool result \<times> world" where
  "prompt_for_deletion env w =
     (case prompt_loop env (stdin w) of (r, rest) \<Rightarrow> (r, w\<lparr>stdin := rest\<rparr>))"

text \<open>
  Lines 937-947 (and 971-981): the value of \<open>should_delete\<close> for an item that has a catalog
  identifier, or \<open>None\<close> where the loop goes on to the next item.
\<close>

definition should_delete ::
  "services \<Rightarrow> args \<Rightarrow> world \<Rightarrow> bool option result \<times> world" where
  "should_delete env args w =
     (case delete_mode args of
        DeleteAll \<Rightarrow> (Return (Some True), w)
      | Interactive \<Rightarrow>
          (if truthy_int (interval args) then (Return None, w)
           else (case prompt_for_deletion env w of
                   (Return b, w1) \<Rightarrow> (Return (Some b), w1)
                 | (Raise e, w1) \<Rightarrow> (Raise e, w1)
                 | (SysExit c, w1) \<Rightarrow> (SysExit c, w1)))
      | DeleteNone \<Rightarrow> (Return (Some False), w))"

text \<open>
  Lines 949-962 (and 983-996): what the loop does with an item once \<open>should_delete\<close> is
  true. The tally is the pair of the freed size and the count of deleted items.
\<close>

definition delete_confirmed ::
  "(int \<Rightarrow> bool \<Rightarrow> world \<Rightarrow> bool result \<times> world) \<Rightarrow> args \<Rightarrow> media_data \<Rightarrow> int \<times> int \<Rightarrow> world
     \<Rightarrow> (int \<times> int) result \<times> world" where
  "delete_confirmed delete args entry tally w =
     (case tally of (deleted_size, deleted_count) \<Rightarrow>
        (if dry_run args then (Return (deleted_size + m_size entry, deleted_count + 1), w)
         else (case delete (the (m_id entry)) (delete_files args) w of
                 (Return success, w1) \<Rightarrow>
                   (if success then (Return (deleted_size + m_size entry, deleted_count + 1), w1)
                    else (Return (deleted_size, deleted_count), w1))
               | (Raise e, w1) \<Rightarrow> (Raise e, w1)
               | (SysExit c, w1) \<Rightarrow> (SysExit c, w1))))"

text \<open>
  Lines 933-962 for the movies and 967-996 for the shows; \<open>delete\<close> is
  \<open>radarr_client.delete_movie\<close> or \<open>sonarr_client.delete_series\<close>.
\<close>

fun deletion_loop ::
  "services \<Rightarrow> (int \<Rightarrow> bool \<Rightarrow> world \<Rightarrow> bool result \<times> world) \<Rightarrow> args \<Rightarrow> media_data list
     \<Rightarrow> int \<times> int \<Rightarrow> world \<Rightarrow> (int \<times> int) result \<times> world" where
  "deletion_loop env delete args [] tally w = (Return tally, w)"
| "deletion_loop env delete args (entry # entries) tally w =
     (if m_id entry = None then deletion_loop env delete args entries tally w
      else (case should_delete env args w of
              (Return None, w1) \<Rightarrow> deletion_loop env delete args entries tally w1
            | (Return (Some False), w1) \<Rightarrow> deletion_loop env delete args entries tally w1
            | (Return (Some True), w1) \<Rightarrow>
                (case delete_confirmed delete args entry tally w1 of
                   (Return tally', w2) \<Rightarrow> deletion_loop env delete args entries tally' w2
                 | (Raise e, w2) \<Rightarrow> (Raise e, w2)
                 | (SysExit c, w2) \<Rightarrow> (SysExit c, w2))
            | (Raise e, w1) \<Rightarrow> (Raise e, w1)
            | (SysExit c, w1) \<Rightarrow> (SysExit c, w1)))"

text \<open>The numbers of the deletion summary (lines 1005-1007).\<close>

record summary =
  deleted_movie_count :: int
  deleted_movie_size :: int
  deleted_show_count :: int
  deleted_show_size :: int

text \<open>Lines 917-1007: the deletion phase; no summary when the mode is \<open>none\<close>.\<close>

definition deletion_phase ::
  "services \<Rightarrow> args \<Rightarrow> arr_client option \<Rightarrow> arr_client option \<Rightarrow> media_data list
     \<Rightarrow> media_data list \<Rightarrow> world \<Rightarrow> summary option result \<times> world" where
  "deletion_phase env args radarr_client sonarr_client movies shows w =
     (if delete_mode args = DeleteNone then (Return None, w)
      else
        (case (case radarr_client of
                 None \<Rightarrow> (Return (0, 0), w)
               | Some client \<Rightarrow> deletion_loop env (delete_movie env client) args movies (0, 0) w)
         of (Raise e, w1) \<Rightarrow> (Raise e, w1)
          | (SysExit c, w1) \<Rightarrow> (SysExit c, w1)
          | (Return (movie_bytes, movie_count), w1) \<Rightarrow>
              (case (case sonarr_client of
                       None \<Rightarrow> (Return (0, 0), w1)
                     | Some client \<Rightarrow>
                         deletion_loop env (delete_series env client) args shows (0, 0) w1)
               of (Raise e, w2) \<Rightarrow> (Raise e, w2)
                | (SysExit c, w2) \<Rightarrow> (SysExit c, w2)
                | (Return (show_bytes, show_count), w2) \<Rightarrow>
                    (Return (Some \<lparr>deleted_movie_count = movie_count,
                                   deleted_movie_size = movie_bytes,
                                   deleted_show_count = show_count,
                                   deleted_show_size = show_bytes\<rparr>), w2))))"

text \<open>
  What a run prints: the time in the header of the report (line 894, the value of
  \<open>datetime.datetime.now()\<close> that \<open>strftime\<close> renders), the two lists, their total
  sizes, the deletion summary, and in scheduled mode the time of the line
  \<open>END OF RUN\<close> (line 1014).
\<close>

record report =
  report_time :: datetime
  report_movies :: "media_data list"
  report_shows :: "media_data list"
  total_movie_size :: int
  total_show_size :: int
  deletion_summary :: "summary option"
  end_of_run :: "datetime option"

text \<open>\<open>xs.sort(key=lambda x: x['Size'], reverse=True)\<close>: stable, largest first.\<close>

definition sort_by_size_desc :: "media_data list \<Rightarrow> media_data list" where
  "sort_by_size_desc xs = sort_key (\<lambda>x. - m_size x) xs"

text \<open>
  Lines 795-1019: from the check for recently added episodes to the end of the \<open>try\<close>,
  given the unwatched items and the cutoff of line 793. The totals of lines 860 and 882 are
  the sums of the sizes appended. The clock is read at line 894 for the header of the
  report, and at line 1014 in scheduled mode.
\<close>

definition report_phase ::
  "services \<Rightarrow> args \<Rightarrow> emby_client \<Rightarrow> arr_client option \<Rightarrow> arr_client option \<Rightarrow> string
     \<Rightarrow> item list \<Rightarrow> world \<Rightarrow> report result \<times> world" where
  "report_phase env args client radarr_client sonarr_client cutoff unwatched_items w2 =
     (case (if \<not> ignore_recent_episodes args
            then recently_updated_loop client cutoff unwatched_items
            else ({}, []))
      of (recently_updated_series_ids, rs) \<Rightarrow>
        (case correlate_loop env radarr_client sonarr_client
                recently_updated_series_ids unwatched_items (issue rs w2)
         of ((movies0, shows0), w3) \<Rightarrow>
           (let movies1 = (if sort_by_size args then sort_by_size_desc movies0 else movies0);
                shows1 = (if sort_by_size args then sort_by_size_desc shows0 else shows0);
                timestamp = fst (datetime_now env w3);
                w4 = snd (datetime_now env w3)
            in (case deletion_phase env args radarr_client sonarr_client movies1 shows1 w4
                of (Raise e, w5) \<Rightarrow> (Raise e, w5)
                 | (SysExit c, w5) \<Rightarrow> (SysExit c, w5)
                 | (Return s, w5) \<Rightarrow>
                     (Return \<lparr>report_time = timestamp,
                              report_movies = movies1, report_shows = shows1,
                              total_movie_size = sum_list (map m_size movies0),
                              total_show_size = sum_list (map m_size shows0),
                              deletion_summary = s,
                              end_of_run = (if truthy_int (interval args)
                                            then Some (fst (datetime_now env w5)) else None)\<rparr>,
                      if truthy_int (interval args)
                      then snd (datetime_now env w5) else w5)))))"

text \<open>Lines 733-736: the names of the library filter, none when the option is absent.\<close>

definition libraries_to_check :: "services \<Rightarrow> args \<Rightarrow> string list" where
  "libraries_to_check env args =
     (if truthy (libraries args) then comma_separated env (the (libraries args)) else [])"

text \<open>Lines 739-746: the two catalog clients, each made when its URL and key are given.\<close>

definition sonarr_client_of :: "args \<Rightarrow> arr_client option" where
  "sonarr_client_of args =
     (if truthy (sonarr_url args) \<and> truthy (sonarr_api_key args)
      then Some (ArrClient (the (sonarr_url args)) (the (sonarr_api_key args)))
      else None)"

definition radarr_client_of :: "args \<Rightarrow> arr_client option" where
  "radarr_client_of args =
     (if truthy (radarr_url args) \<and> truthy (radarr_api_key args)
      then Some (ArrClient (the (radarr_url args)) (the (radarr_api_key args)))
      else None)"

text \<open>
  The body of the \<open>try\<close> of \<open>process_unwatched_media\<close> (lines 721-1019): the clients
  (with empty caches), the resolver (which reads the clock at line 200), the cutoff of
  line 793 from a new reading of the clock, and the rest of the run.
\<close>

definition process_body :: "services \<Rightarrow> args \<Rightarrow> world \<Rightarrow> report result \<times> world" where
  "process_body env args w =
     (case get_unwatched_items env (configure_client env args) (days args)
             (libraries_to_check env args) (w\<lparr>movies_cache := None, series_cache := None\<rparr>)
      of (Inl e, w1) \<Rightarrow> (Raise e, w1)
       | (Inr unwatched_items, w1) \<Rightarrow>
           (case datetime_now env w1 of (now, w2) \<Rightarrow>
              (case cutoff_date now (days args) of
                 Inl e \<Rightarrow> (Raise e, w2)
               | Inr cutoff \<Rightarrow>
                   report_phase env args (configure_client env args)
                     (radarr_client_of args) (sonarr_client_of args) cutoff
                     unwatched_items w2)))"

text \<open>
  \<open>process_unwatched_media\<close>: the handler of line 1021 logs any exception of the body and
  the function returns. The value is the report when the body completed, \<open>None\<close> when the
  run was abandoned.
\<close>

definition process_unwatched_media ::
  "services \<Rightarrow> args \<Rightarrow> world \<Rightarrow> report option result \<times> world" where
  "process_unwatched_media env args w =
     (case process_body env args w of
        (Return r, w1) \<Rightarrow> (Return (Some r), w1)
      | (Raise e, w1) \<Rightarrow> (Return None, w1)
      | (SysExit c, w1) \<Rightarrow> (SysExit c, w1))"

section \<open>The scheduler: \<open>run_scheduled\<close>\<close>

text \<open>
  The instant of a \<open>datetime\<close> in microseconds, and \<open>dt + timedelta(hours=h)\<close> as such an
  instant: the \<open>timedelta\<close> must have at most 999999999 days and the sum must be a date of
  the years 1 to 9999.
\<close>

definition to_microseconds :: "datetime \<Rightarrow> int" where
  "to_microseconds dt =
     ymd2ord (year dt) (month dt) (day dt) * 86400000000
       + ((hour dt * 60 + minute dt) * 60 + second dt) * 1000000 + microsecond dt"

definition plus_hours :: "datetime \<Rightarrow> int \<Rightarrow> exn + int" where
  "plus_hours dt h =
     (if \<bar>h div 24\<bar> > 999999999 then Inl OverflowError
      else let t = to_microseconds dt + h * 3600000000
           in if 0 < t div 86400000000 \<and> t div 86400000000 \<le> MAXORDINAL
              then Inr t else Inl OverflowError)"

text \<open>
  The local variable \<open>last_run\<close>, and the number of times the scheduler has called
  \<open>process_unwatched_media\<close> (kept to state what the scheduler did).
\<close>

record scheduler =
  last_run :: "datetime option"
  runs :: nat

text \<open>
  Lines 674-696: one pass of the body of the \<open>while\<close> loop before the sleep, given what
  \<open>now()\<close> returned at line 674.
\<close>

definition tick ::
  "services \<Rightarrow> args \<Rightarrow> int \<Rightarrow> datetime \<Rightarrow> scheduler \<Rightarrow> world \<Rightarrow> unit result \<times> scheduler \<times> world" where
  "tick env args interval_hours now st w =
     (case last_run st of
        None \<Rightarrow> (Return (), st, w)
      | Some previous \<Rightarrow>
          (case plus_hours previous interval_hours of
             Inl e \<Rightarrow> (Raise e, st, w)
           | Inr next_run \<Rightarrow>
               (if next_run - to_microseconds now \<le> 0
                then (case process_unwatched_media env args w of
                        (SysExit c, w1) \<Rightarrow> (SysExit c, st\<lparr>runs := Suc (runs st)\<rparr>, w1)
                      | (r, w1) \<Rightarrow>
                          (case plus_hours now interval_hours of
                             Inl e \<Rightarrow>
                               (Raise e, st\<lparr>last_run := Some now, runs := Suc (runs st)\<rparr>, w1)
                           | Inr t \<Rightarrow>
                               (Return (),
                                st\<lparr>last_run := Some now, runs := Suc (runs st)\<rparr>, w1)))
                else (Return (), st, w))))"

text \<open>
  Lines 672-714: the loop, for at most \<open>fuel\<close> passes. The result is \<open>None\<close> while the loop
  is still running, and the way the function ends otherwise: an exception of a pass is
  logged by the handler of line 709 and the function ends with \<open>sys.exit(0)\<close>, as it does
  when a signal arrives during the sleep. \<open>i\<close> counts the sleeps.
\<close>

fun scheduler_loop ::
  "services \<Rightarrow> args \<Rightarrow> int \<Rightarrow> nat \<Rightarrow> nat \<Rightarrow> scheduler \<Rightarrow> world
     \<Rightarrow> unit result option \<times> scheduler \<times> world" where
  "scheduler_loop env args interval_hours 0 i st w = (None, st, w)"
| "scheduler_loop env args interval_hours (Suc fuel) i st w =
     (case datetime_now env w of (now, w1) \<Rightarrow>
        (case tick env args interval_hours now st w1 of
           (SysExit c, st1, w2) \<Rightarrow> (Some (SysExit c), st1, w2)
         | (Raise e, st1, w2) \<Rightarrow> (Some (SysExit 0), st1, w2)
         | (Return u, st1, w2) \<Rightarrow>
             (case signals env i of
                Some sig \<Rightarrow> (Some (SysExit 0), st1, w2)
              | None \<Rightarrow> scheduler_loop env args interval_hours fuel (Suc i) st1 w2)))"

text \<open>
  \<open>run_scheduled\<close>: lines 658-670 run once at the start when \<open>--run-at-start\<close> is given
  (the sum of line 668 is outside the \<open>try\<close>), then the loop.
\<close>

definition run_scheduled ::
  "services \<Rightarrow> args \<Rightarrow> int \<Rightarrow> nat \<Rightarrow> world \<Rightarrow> unit result option \<times> scheduler \<times> world" where
  "run_scheduled env args interval_hours fuel w =
     (if run_at_start args
      then (case process_unwatched_media env args w of
              (SysExit c, w1) \<Rightarrow> (Some (SysExit c), \<lparr>last_run = None, runs = 1\<rparr>, w1)
            | (r, w1) \<Rightarrow>
                (case datetime_now env w1 of (now, w2) \<Rightarrow>
                   (case plus_hours now interval_hours of
                      Inl e \<Rightarrow> (Some (Raise e), \<lparr>last_run = Some now, runs = 1\<rparr>, w2)
                    | Inr t \<Rightarrow>
                        scheduler_loop env args interval_hours fuel 0
                          \<lparr>last_run = Some now, runs = 1\<rparr> w2)))
      else scheduler_loop env args interval_hours fuel 0 \<lparr>last_run = None, runs = 0\<rparr> w)"

section \<open>\<open>main\<close>\<close>

text \<open>
  Lines 1061-1064: \<open>.get('TypeOptions', [{}])[0]\<close> raises \<open>IndexError\<close> on an empty list.
\<close>

definition list_libraries_raises :: "library list \<Rightarrow> bool" where
  "list_libraries_raises libs = list_ex (\<lambda>lib. type_options lib = Some []) libs"

text \<open>
  \<open>main\<close>, from line 1054, on parsed arguments: the exit code of the process, or \<open>None\<close>
  while the scheduler is still running after \<open>fuel\<close> passes of its loop. A return of
  \<open>main\<close> ends the process with code 0, an exception that reaches the handler of line
  1099 ends it with code 1. A keyboard interrupt in the middle of a single-shot run (the
  handler of line 1096, exit code 0) is not part of the model.
\<close>

definition main :: "services \<Rightarrow> args \<Rightarrow> nat \<Rightarrow> world \<Rightarrow> int option \<times> world" where
  "main env args fuel w =
     (if list_libraries args
      then (case get_libraries (EmbyClient env (server args) (api_key args) []) of
              (libs, rs) \<Rightarrow>
                (if list_libraries_raises libs then (Some 1, issue rs w)
                 else (Some 0, issue rs w)))
      else if truthy_int (interval args)
      then (if the (interval args) \<le> 0 then (Some 0, w)
            else (case run_scheduled env
                         (if delete_mode args = Interactive
                          then args\<lparr>delete_mode := DeleteNone\<rparr> else args)
                         (the (interval args)) fuel w
                  of (None, st, w1) \<Rightarrow> (None, w1)
                   | (Some (SysExit c), st, w1) \<Rightarrow> (Some c, w1)
                   | (Some (Raise e), st, w1) \<Rightarrow> (Some 1, w1)
                   | (Some (Return u), st, w1) \<Rightarrow> (Some 0, w1)))
      else (case process_unwatched_media env args w of
              (SysExit c, w1) \<Rightarrow> (Some c, w1)
            | (Raise e, w1) \<Rightarrow> (Some 1, w1)
            | (Return r, w1) \<Rightarrow> (Some 0, w1)))"

section \<open>Stages of a run\<close>

text \<open>
  The stages of the resolver, as the values its own code computes: the libraries it scans,
  the set \<open>watched_by_whitelisted\<close> after the first pass, the veto of lines 315-329 on an
  item, and the conjunction of the four tests an item passes to be appended.
\<close>

definition active_libraries :: "emby_client \<Rightarrow> string list \<Rightarrow> library list" where
  "active_libraries self library_names =
     (if library_names \<noteq> []
      then filtered_libraries library_names (fst (get_libraries self))
      else fst (get_libraries self))"

definition exclusion_set ::
  "services \<Rightarrow> emby_client \<Rightarrow> string \<Rightarrow> string list \<Rightarrow> string option set" where
  "exclusion_set env self cutoff library_names =
     (if whitelisted_user_ids env self (fst (get_users self)) \<noteq> []
      then fst (whitelist_pass self cutoff (whitelisted_user_ids env self (fst (get_users self)))
                  (active_libraries self library_names) {})
      else {})"

definition recency_veto :: "emby_client \<Rightarrow> string \<Rightarrow> item \<Rightarrow> bool" where
  "recency_veto self cutoff item =
     (item_type item = Some ''Series''
      \<and> episodes_loop cutoff (fst (get_episodes_by_series self (item_id item))))"

definition keeps :: "emby_client \<Rightarrow> string \<Rightarrow> string option set \<Rightarrow> item \<Rightarrow> bool" where
  "keeps self cutoff s item =
     (item_id item \<notin> s \<and> \<not> recency_veto self cutoff item
      \<and> \<not> after (date_created item) cutoff \<and> stale (date_last_played item) cutoff)"

text \<open>The delete calls among the requests issued so far.\<close>

definition delete_calls :: "world \<Rightarrow> request list" where
  "delete_calls w = filter (\<lambda>r. verb r = DELETE) (http_log w)"

text \<open>A method of the client that issues nothing but \<open>GET\<close> requests.\<close>

definition only_gets :: "request list \<Rightarrow> bool" where
  "only_gets rs = (filter (\<lambda>r. verb r = DELETE) rs = [])"

definition reads_only :: "emby_client \<Rightarrow> bool" where
  "reads_only self =
     (only_gets (snd (get_libraries self)) \<and> only_gets (snd (get_users self))
      \<and> (\<forall>l. only_gets (snd (get_items_by_library self l)))
      \<and> (\<forall>u l. only_gets (snd (get_user_items_by_library self u l)))
      \<and> (\<forall>s. only_gets (snd (get_episodes_by_series self s)))
      \<and> (\<forall>u s. only_gets (snd (get_user_episodes_by_series self u s))))"

text \<open>
  The entries of a list that have a catalog identifier: those the deletion loop does not
  pass over at line 934.
\<close>

definition correlated :: "media_data list \<Rightarrow> media_data list" where
  "correlated entries = filter (\<lambda>entry. m_id entry \<noteq> None) entries"

text \<open>
  The entries that a deletion loop confirms, with the lines of input it leaves unread. An
  entry without a catalog identifier is passed over. With the policy \<open>all\<close> every other
  entry is confirmed. With the policy \<open>interactive\<close>, outside scheduled mode, the operator
  is asked about the entry and it is confirmed when the answer is yes; when the operator
  quits or the input ends, the entries from there on are not reached. With any other
  policy, and with the policy \<open>interactive\<close> in scheduled mode, no entry is confirmed.
\<close>

fun confirmed ::
  "services \<Rightarrow> args \<Rightarrow> media_data list \<Rightarrow> string list \<Rightarrow> media_data list \<times> string list" where
  "confirmed env args [] answers = ([], answers)"
| "confirmed env args (entry # entries) answers =
     (if m_id entry = None then confirmed env args entries answers
      else if delete_mode args = DeleteAll
      then (case confirmed env args entries answers of (es, unread) \<Rightarrow> (entry # es, unread))
      else if delete_mode args = Interactive \<and> \<not> truthy_int (interval args)
      then (case prompt_loop env answers of
              (Return True, rest) \<Rightarrow>
                (case confirmed env args entries rest of (es, unread) \<Rightarrow> (entry # es, unread))
            | (Return False, rest) \<Rightarrow> confirmed env args entries rest
            | (r, rest) \<Rightarrow> ([], rest))
      else confirmed env args entries answers)"

text \<open>
  The summary that the specification asks of a dry run: the confirmed movies and the
  confirmed shows, each counted with its size, the shows being decided on the input that
  the movies left. A list whose catalog client is missing is not gone through.
\<close>

definition expected_summary ::
  "services \<Rightarrow> args \<Rightarrow> arr_client option \<Rightarrow> arr_client option \<Rightarrow> media_data list
     \<Rightarrow> media_data list \<Rightarrow> string list \<Rightarrow> summary option" where
  "expected_summary env args radarr_client sonarr_client movies shows answers =
     (if delete_mode args = DeleteNone then None
      else
        (let confirmed_movies = (if radarr_client = None then ([], answers)
                                 else confirmed env args movies answers);
             confirmed_shows = (if sonarr_client = None then []
                                else fst (confirmed env args shows (snd confirmed_movies)))
         in Some \<lparr>deleted_movie_count = int (length (fst confirmed_movies)),
                  deleted_movie_size = sum_list (map m_size (fst confirmed_movies)),
                  deleted_show_count = int (length confirmed_shows),
                  deleted_show_size = sum_list (map m_size confirmed_shows)\<rparr>))"

text \<open>
  What the specification says of the two finders (matching policy, in order, first hit
  wins): first case-insensitive equality of the item's name and the entry's title, then
  case-insensitive containment in either direction. Two strings are compared
  case-insensitively by comparing their lower-case forms; \<open>first_hit P xs r\<close> says that
  \<open>r\<close> is the first entry of \<open>xs\<close> that passes the test \<open>P\<close>.
\<close>

definition equal_ignoring_case :: "services \<Rightarrow> string \<Rightarrow> string \<Rightarrow> bool" where
  "equal_ignoring_case env a b = (str_lower env a = str_lower env b)"

definition contains_ignoring_case :: "services \<Rightarrow> string \<Rightarrow> string \<Rightarrow> bool" where
  "contains_ignoring_case env a b = sublist (str_lower env b) (str_lower env a)"

definition title_equals :: "services \<Rightarrow> string \<Rightarrow> arr_entry \<Rightarrow> bool" where
  "title_equals env name entry = equal_ignoring_case env name (title_of entry)"

definition title_contains_or_contained :: "services \<Rightarrow> string \<Rightarrow> arr_entry \<Rightarrow> bool" where
  "title_contains_or_contained env name entry =
     (contains_ignoring_case env name (title_of entry)
      \<or> contains_ignoring_case env (title_of entry) name)"

definition first_hit :: "('a \<Rightarrow> bool) \<Rightarrow> 'a list \<Rightarrow> 'a option \<Rightarrow> bool" where
  "first_hit P xs r =
     (\<exists>before entry rest. xs = before @ entry # rest \<and> r = Some entry \<and> P entry
        \<and> list_all (\<lambda>x. \<not> P x) before)"

definition spec_find_by_title ::
  "services \<Rightarrow> string \<Rightarrow> arr_entry list \<Rightarrow> arr_entry option \<Rightarrow> bool" where
  "spec_find_by_title env name catalog r =
     (if list_ex (title_equals env name) catalog
      then first_hit (title_equals env name) catalog r
      else if list_ex (title_contains_or_contained env name) catalog
      then first_hit (title_contains_or_contained env name) catalog r
      else r = None)"

text \<open>
  The membership decisions of a run as the specification words them, each against a given
  cutoff. A user has watched an item when, in that user's record of it, the last-played
  timestamp is after the cutoff, or the played flag is set, or the played percentage is
  above 75.
\<close>

definition spec_watched :: "string \<Rightarrow> item \<Rightarrow> bool" where
  "spec_watched cutoff item =
     (case user_data item of
        None \<Rightarrow> False
      | Some d \<Rightarrow>
          (case last_played_date d of None \<Rightarrow> False | Some t \<Rightarrow> t \<noteq> [] \<and> cutoff < t)
          \<or> played d = Some True
          \<or> (case played_percentage d of None \<Rightarrow> False | Some p \<Rightarrow> 75 < p))"

text \<open>The identifiers of the items of the scanned libraries that a whitelisted user has
  watched.\<close>

definition spec_excluded ::
  "services \<Rightarrow> emby_client \<Rightarrow> string \<Rightarrow> string list \<Rightarrow> string option list" where
  "spec_excluded env self cutoff library_names =
     [item_id item.
        lib \<leftarrow> active_libraries self library_names, truthy (lib_item_id lib),
        uid \<leftarrow> whitelisted_user_ids env self (fst (get_users self)),
        item \<leftarrow> fst (get_user_items_by_library self uid (the (lib_item_id lib))),
        spec_watched cutoff item]"

text \<open>The recency veto: a series with an episode that was played after the cutoff.\<close>

definition spec_vetoed :: "emby_client \<Rightarrow> string \<Rightarrow> item \<Rightarrow> bool" where
  "spec_vetoed self cutoff item =
     (item_type item = Some ''Series''
      \<and> list_ex (\<lambda>episode. case date_last_played episode of
                             None \<Rightarrow> False | Some t \<Rightarrow> t \<noteq> [] \<and> cutoff < t)
           (fst (get_episodes_by_series self (item_id item))))"

text \<open>An item created after the cutoff, and an item never played or last played before it.\<close>

definition spec_recently_added :: "string \<Rightarrow> item \<Rightarrow> bool" where
  "spec_recently_added cutoff item =
     (case date_created item of None \<Rightarrow> False | Some t \<Rightarrow> t \<noteq> [] \<and> cutoff < t)"

definition spec_not_played_since :: "string \<Rightarrow> item \<Rightarrow> bool" where
  "spec_not_played_since cutoff item =
     (case date_last_played item of None \<Rightarrow> True | Some t \<Rightarrow> t = [] \<or> t < cutoff)"

text \<open>
  The unwatched items: library by library, the items that pass the four tests, each with
  the name of its library.
\<close>

definition spec_unwatched ::
  "services \<Rightarrow> emby_client \<Rightarrow> string \<Rightarrow> string list \<Rightarrow> item list" where
  "spec_unwatched env self cutoff library_names =
     [set_library_name (lib_name lib) item.
        lib \<leftarrow> active_libraries self library_names, truthy (lib_item_id lib),
        item \<leftarrow> fst (get_items_by_library self (the (lib_item_id lib))),
        item_id item \<notin> set (spec_excluded env self cutoff library_names),
        \<not> spec_vetoed self cutoff item,
        \<not> spec_recently_added cutoff item,
        spec_not_played_since cutoff item]"

text \<open>
  The exclusion of the series with recently added episodes: a series with an episode that
  was created after the cutoff, unless the option \<open>--ignore-recent-episodes\<close> is given.
\<close>

definition spec_recently_updated :: "args \<Rightarrow> emby_client \<Rightarrow> string \<Rightarrow> item \<Rightarrow> bool" where
  "spec_recently_updated args client cutoff item =
     (\<not> ignore_recent_episodes args \<and> item_type item = Some ''Series''
      \<and> list_ex (spec_recently_added cutoff)
           (fst (get_episodes_by_series client (item_id item))))"

text \<open>The names of the movies and of the shows of a report, each as often as it is listed.\<close>

definition listed_movies :: "report \<Rightarrow> string multiset" where
  "listed_movies rep = mset (map m_name (report_movies rep))"

definition listed_shows :: "report \<Rightarrow> string multiset" where
  "listed_shows rep = mset (map m_name (report_shows rep))"

section \<open>A media server with two libraries\<close>

text \<open>
  The clock reads 2024-04-01 00:00:00 when the run starts and five seconds later at every
  later call, so with 90 days the resolver's cutoff is \<open>2024-01-02T00:00:00\<close>. The library
  Movies holds a movie last played the day before the cutoff, one played ten days ago, one
  never played and created long ago, one never played and created five days ago, and one
  never played and created at the cutoff. The library TV holds the series Fargo, which the
  whitelisted user alice has not watched as a whole, with one episode that she has played
  and that was created three seconds after the resolver's cutoff.
\<close>

definition blank_item :: item where
  "blank_item = \<lparr>item_id = None, item_name = None, item_type = None, date_created = None,
     date_last_played = None, user_data = None, item_path = None, overview = None,
     library_name = None\<rparr>"

definition movie :: "string \<Rightarrow> string \<Rightarrow> string \<Rightarrow> string option \<Rightarrow> item" where
  "movie i n created last_played =
     blank_item\<lparr>item_id := Some i, item_name := Some n, item_type := Some ''Movie'',
       date_created := Some created, date_last_played := last_played\<rparr>"

definition demo_movies :: "item list" where
  "demo_movies =
     [movie ''m1'' ''Alien'' ''2023-06-01T00:00:00.0000000Z''
        (Some ''2024-01-01T00:00:00.0000000Z''),
      movie ''m2'' ''Brazil'' ''2023-06-01T00:00:00.0000000Z''
        (Some ''2024-03-22T00:00:00.0000000Z''),
      movie ''m3'' ''Charade'' ''2023-12-03T00:00:00.0000000Z'' None,
      movie ''m4'' ''Dune'' ''2024-03-27T00:00:00.0000000Z'' None,
      movie ''m5'' ''Eraserhead'' ''2024-01-02T00:00:00'' None]"

definition demo_series :: item where
  "demo_series = blank_item\<lparr>item_id := Some ''s1'', item_name := Some ''Fargo'',
     item_type := Some ''Series'', date_created := Some ''2023-05-01T00:00:00.0000000Z''\<rparr>"

definition demo_episode :: item where
  "demo_episode = blank_item\<lparr>item_id := Some ''e1'', item_name := Some ''Pilot'',
     item_type := Some ''Episode'', date_created := Some ''2024-01-02T00:00:03.0000000Z''\<rparr>"

definition alice_series :: item where
  "alice_series = demo_series\<lparr>user_data :=
     Some \<lparr>last_played_date = None, played = Some False, played_percentage = Some 10\<rparr>\<rparr>"

definition alice_episode :: item where
  "alice_episode = demo_episode\<lparr>user_data :=
     Some \<lparr>last_played_date = None, played = Some True, played_percentage = None\<rparr>\<rparr>"

definition param :: "request \<Rightarrow> string \<Rightarrow> string option" where
  "param r k = (case map_of (params r) k of None \<Rightarrow> None | Some v \<Rightarrow> v)"

definition demo_items_response :: "request \<Rightarrow> item list option" where
  "demo_items_response r =
     (if url r = ''http://emby/emby/Items'' then
        (if param r ''ParentId'' = Some ''L1'' then Some demo_movies
         else if param r ''ParentId'' = Some ''L2'' then Some [demo_series]
         else if param r ''ParentId'' = Some ''s1'' then Some [demo_episode]
         else Some [])
      else if url r = ''http://emby/emby/Users/u1/Items'' then
        (if param r ''ParentId'' = Some ''L2'' then Some [alice_series]
         else if param r ''ParentId'' = Some ''s1'' then Some [alice_episode]
         else Some [])
      else None)"

definition aliens_entry :: arr_entry where
  "aliens_entry = \<lparr>title = Some ''Aliens'', arr_id = Some 2, size_on_disk = Some 524288000,
                    statistics_size_on_disk = None\<rparr>"

definition alien_entry :: arr_entry where
  "alien_entry = \<lparr>title = Some ''Alien'', arr_id = Some 1, size_on_disk = Some 2147483648,
                   statistics_size_on_disk = None\<rparr>"

definition fargo_entry :: arr_entry where
  "fargo_entry = \<lparr>title = Some ''Fargo'', arr_id = Some 7, size_on_disk = None,
                   statistics_size_on_disk = Some 1000\<rparr>"

definition demo_catalog_response :: "request \<Rightarrow> arr_entry list option" where
  "demo_catalog_response r =
     (if url r = ''http://radarr/api/v3/movie'' then Some [aliens_entry, alien_entry]
      else if url r = ''http://sonarr/api/v3/series'' then Some [fargo_entry]
      else None)"

definition demo_clock :: "nat \<Rightarrow> datetime" where
  "demo_clock n = \<lparr>year = 2024, month = 4, day = 1, hour = 0, minute = 0,
                   second = (if n = 0 then 0 else 5), microsecond = 0\<rparr>"

definition demo_users :: "user list" where
  "demo_users = [\<lparr>user_name = Some ''alice'', user_id = Some ''u1''\<rparr>,
                 \<lparr>user_name = Some ''bob'', user_id = Some ''u2''\<rparr>]"

definition movies_library :: library where
  "movies_library = \<lparr>lib_name = Some ''Movies'', lib_item_id = Some ''L1'', type_options = None\<rparr>"

definition tv_library :: library where
  "tv_library = \<lparr>lib_name = Some ''TV'', lib_item_id = Some ''L2'', type_options = None\<rparr>"

text \<open>
  Every string of the example is made of ASCII characters, and on such a string
  \<open>str.lower\<close> replaces the letters \<open>A\<close> to \<open>Z\<close> by \<open>a\<close> to \<open>z\<close> and \<open>str.strip\<close> removes
  the leading and the trailing characters 9 to 13 and 28 to 32.
\<close>

definition ascii_lower_char :: "char \<Rightarrow> char" where
  "ascii_lower_char c =
     (if CHR ''A'' \<le> c \<and> c \<le> CHR ''Z'' then char_of (of_char c + (32::nat)) else c)"

definition ascii_lower :: "string \<Rightarrow> string" where
  "ascii_lower s = map ascii_lower_char s"

definition ascii_space :: "char \<Rightarrow> bool" where
  "ascii_space c = (of_char c \<in> set [9, 10, 11, 12, 13, 28, 29, 30, 31, 32 :: nat])"

definition ascii_strip :: "string \<Rightarrow> string" where
  "ascii_strip s = rev (dropWhile ascii_space (rev (dropWhile ascii_space s)))"

definition demo :: services where
  "demo = \<lparr>users_response = (\<lambda>r. Some demo_users),
           libraries_response = (\<lambda>r. Some [movies_library, tv_library]),
           items_response = demo_items_response,
           catalog_response = demo_catalog_response,
           delete_response = (\<lambda>r. True),
           clock = demo_clock,
           signals = (\<lambda>n. None),
           str_lower = ascii_lower,
           str_strip = ascii_strip\<rparr>"

text \<open>
  \<open>--server http://emby/ --api-key k --whitelist Alice --sonarr-url http://sonarr\<close>
  \<open>--sonarr-api-key s --radarr-url http://radarr --radarr-api-key r --delete-mode all\<close>
  \<open>--dry-run\<close>, with the default of 90 days.
\<close>

definition demo_args :: args where
  "demo_args = \<lparr>server = ''http://emby/'', api_key = ''k'', days = 90, whitelist = ''Alice'',
     include_recent = False, ignore_episodes = False, ignore_recent_episodes = False,
     sonarr_url = Some ''http://sonarr'', sonarr_api_key = Some ''s'',
     radarr_url = Some ''http://radarr'', radarr_api_key = Some ''r'',
     sort_by_size = False, delete_mode = DeleteAll, delete_files = False, dry_run = True,
     libraries = None, list_libraries = False, interval = None, run_at_start = False\<rparr>"

definition demo_client :: emby_client where
  "demo_client = configure_client demo demo_args"

definition start :: world where
  "start = \<lparr>http_log = [], clock_reads = 0, stdin = [], movies_cache = None,
            series_cache = None\<rparr>"

definition demo_unwatched :: "item list" where
  "demo_unwatched =
     [set_library_name (Some ''Movies'') (demo_movies ! 0),
      set_library_name (Some ''Movies'') (demo_movies ! 2),
      set_library_name (Some ''Movies'') (demo_movies ! 4),
      set_library_name (Some ''TV'') demo_series]"

text \<open>The names of the shows that a run reports, none when the run was abandoned.\<close>

definition reported_shows :: "report option result \<Rightarrow> string list" where
  "reported_shows r =
     (case r of Return (Some rep) \<Rightarrow> map m_name (report_shows rep) | _ \<Rightarrow> [])"

text \<open>A clock that stands still at the start of the run.\<close>

definition frozen_clock :: "nat \<Rightarrow> datetime" where
  "frozen_clock n = demo_clock 0"

section \<open>The resolver's output\<close>

lemma fst_items_loop:
  "fst (items_loop self cutoff s name items) =
     map (set_library_name name) (filter (keeps self cutoff s) items)"
  by (induction items) (auto simp: keeps_def recency_veto_def split: prod.splits)

lemma in_unwatched_pass:
  "x \<in> set (fst (unwatched_pass self cutoff s libs)) =
     (\<exists>lib it. x = set_library_name (lib_name lib) it
        \<and> lib \<in> set libs \<and> truthy (lib_item_id lib)
        \<and> it \<in> set (fst (get_items_by_library self (the (lib_item_id lib))))
        \<and> keeps self cutoff s it)"
proof (induction libs)
  case Nil
  show ?case by simp
next
  case (Cons lib libs)
  show ?case
  proof (cases "truthy (lib_item_id lib)")
    case False
    with Cons show ?thesis by auto
  next
    case True
    obtain items rs where g: "get_items_by_library self (the (lib_item_id lib)) = (items, rs)"
      by (cases "get_items_by_library self (the (lib_item_id lib))")
    obtain found rs1 where f: "items_loop self cutoff s (lib_name lib) items = (found, rs1)"
      by (cases "items_loop self cutoff s (lib_name lib) items")
    obtain rest rs2 where r: "unwatched_pass self cutoff s libs = (rest, rs2)"
      by (cases "unwatched_pass self cutoff s libs")
    have found: "x \<in> set found =
        (\<exists>it. x = set_library_name (lib_name lib) it \<and> it \<in> set items \<and> keeps self cutoff s it)"
      using fst_items_loop [of self cutoff s "lib_name lib" items] f by auto
    have split: "x \<in> set (fst (unwatched_pass self cutoff s (lib # libs)))
        = (x \<in> set found \<or> x \<in> set rest)"
      using True g f r by simp
    have rest: "x \<in> set rest = (\<exists>l it. x = set_library_name (lib_name l) it
        \<and> l \<in> set libs \<and> truthy (lib_item_id l)
        \<and> it \<in> set (fst (get_items_by_library self (the (lib_item_id l))))
        \<and> keeps self cutoff s it)"
      using Cons r by simp
    have items: "fst (get_items_by_library self (the (lib_item_id lib))) = items"
      using g by simp
    show ?thesis
      unfolding split found rest
    proof
      assume "(\<exists>it. x = set_library_name (lib_name lib) it \<and> it \<in> set items
                 \<and> keeps self cutoff s it)
            \<or> (\<exists>l it. x = set_library_name (lib_name l) it \<and> l \<in> set libs
                 \<and> truthy (lib_item_id l)
                 \<and> it \<in> set (fst (get_items_by_library self (the (lib_item_id l))))
                 \<and> keeps self cutoff s it)"
      then show "\<exists>l it. x = set_library_name (lib_name l) it \<and> l \<in> set (lib # libs)
                 \<and> truthy (lib_item_id l)
                 \<and> it \<in> set (fst (get_items_by_library self (the (lib_item_id l))))
                 \<and> keeps self cutoff s it"
      proof
        assume "\<exists>it. x = set_library_name (lib_name lib) it \<and> it \<in> set items
                 \<and> keeps self cutoff s it"
        then obtain it :: item where "x = set_library_name (lib_name lib) it"
          "it \<in> set items" "keeps self cutoff s it" by (elim exE conjE)
        then show ?thesis using True items by (intro exI [of _ lib] exI [of _ it]) simp
      next
        assume "\<exists>l it. x = set_library_name (lib_name l) it \<and> l \<in> set libs
                 \<and> truthy (lib_item_id l)
                 \<and> it \<in> set (fst (get_items_by_library self (the (lib_item_id l))))
                 \<and> keeps self cutoff s it"
        then obtain l :: library and it :: item where "x = set_library_name (lib_name l) it"
          "l \<in> set libs" "truthy (lib_item_id l)"
          "it \<in> set (fst (get_items_by_library self (the (lib_item_id l))))"
          "keeps self cutoff s it" by (elim exE conjE)
        then show ?thesis by (intro exI [of _ l] exI [of _ it]) simp
      qed
    next
      assume "\<exists>l it. x = set_library_name (lib_name l) it \<and> l \<in> set (lib # libs)
                 \<and> truthy (lib_item_id l)
                 \<and> it \<in> set (fst (get_items_by_library self (the (lib_item_id l))))
                 \<and> keeps self cutoff s it"
      then obtain l :: library and it :: item where h: "x = set_library_name (lib_name l) it"
          "l \<in> set (lib # libs)" "truthy (lib_item_id l)"
          "it \<in> set (fst (get_items_by_library self (the (lib_item_id l))))"
          "keeps self cutoff s it" by (elim exE conjE)
      show "(\<exists>it. x = set_library_name (lib_name lib) it \<and> it \<in> set items
                 \<and> keeps self cutoff s it)
            \<or> (\<exists>l it. x = set_library_name (lib_name l) it \<and> l \<in> set libs
                 \<and> truthy (lib_item_id l)
                 \<and> it \<in> set (fst (get_items_by_library self (the (lib_item_id l))))
                 \<and> keeps self cutoff s it)"
      proof (cases "l = lib")
        case True
        then have "x = set_library_name (lib_name lib) it \<and> it \<in> set items
                 \<and> keeps self cutoff s it" using h items by simp
        then show ?thesis by (intro disjI1 exI [of _ it])
      next
        case False
        then have "x = set_library_name (lib_name l) it \<and> l \<in> set libs
                 \<and> truthy (lib_item_id l)
                 \<and> it \<in> set (fst (get_items_by_library self (the (lib_item_id l))))
                 \<and> keeps self cutoff s it" using h by simp
        then show ?thesis by (intro disjI2 exI [of _ l] exI [of _ it])
      qed
    qed
  qed
qed

lemma fst_unwatched_since:
  "fst (unwatched_since env self cutoff names) =
     fst (unwatched_pass self cutoff (exclusion_set env self cutoff names)
            (active_libraries self names))"
  by (auto simp: unwatched_since_def exclusion_set_def active_libraries_def Let_def
           split: prod.splits)

lemma isoformat_nonempty: "isoformat dt \<noteq> []"
  by (simp add: isoformat_def pad4_def)

lemma cutoff_date_nonempty: "cutoff_date now d = Inr cutoff \<Longrightarrow> cutoff \<noteq> []"
  by (auto simp: cutoff_date_def isoformat_nonempty split: sum.splits)

lemma get_unwatched_items_Inr:
  assumes "get_unwatched_items env self d names w = (Inr out, w')"
    and "cutoff_date (clock env (clock_reads w)) d = Inr cutoff"
  shows "out = fst (unwatched_since env self cutoff names)"
  using assms by (auto simp: get_unwatched_items_def datetime_now_def split: prod.splits)

lemma stale_iff: "cutoff \<noteq> [] \<Longrightarrow> stale lp cutoff = (lp = None \<or> the lp < cutoff)"
  by (cases lp; cases cutoff) auto

lemma after_iff: "after dc cutoff = (dc \<noteq> None \<and> the dc > cutoff)"
  by (cases dc) auto

text \<open>The tests of the second pass read the item, not the name of its library.\<close>

lemma keeps_cong:
  assumes "set_library_name n it = set_library_name n' it'"
  shows "keeps self cutoff s it = keeps self cutoff s it'"
proof -
  have "item_id (set_library_name n it) = item_id (set_library_name n' it')"
    "item_type (set_library_name n it) = item_type (set_library_name n' it')"
    "date_created (set_library_name n it) = date_created (set_library_name n' it')"
    "date_last_played (set_library_name n it) = date_last_played (set_library_name n' it')"
    using assms by simp_all
  then show ?thesis
    by (simp add: keeps_def recency_veto_def set_library_name_def)
qed

text \<open>
  An item fetched from a scanned library is in the output, under the name of that library,
  exactly when it passes the four tests.
\<close>

lemma listed_iff_keeps:
  assumes run: "get_unwatched_items env self d names w = (Inr out, w')"
    and cutoff: "cutoff_date (clock env (clock_reads w)) d = Inr cutoff"
    and lib: "lib \<in> set (active_libraries self names)" "truthy (lib_item_id lib)"
    and item: "item \<in> set (fst (get_items_by_library self (the (lib_item_id lib))))"
  shows "(set_library_name (lib_name lib) item \<in> set out)
           = keeps self cutoff (exclusion_set env self cutoff names) item"
proof -
  let ?s = "exclusion_set env self cutoff names"
  have out: "\<And>x. x \<in> set out = (\<exists>l it. x = set_library_name (lib_name l) it
        \<and> l \<in> set (active_libraries self names) \<and> truthy (lib_item_id l)
        \<and> it \<in> set (fst (get_items_by_library self (the (lib_item_id l))))
        \<and> keeps self cutoff ?s it)"
    using get_unwatched_items_Inr [OF run cutoff] fst_unwatched_since in_unwatched_pass by simp
  show ?thesis
  proof
    assume "set_library_name (lib_name lib) item \<in> set out"
    then obtain l :: library and it :: item
      where eq: "set_library_name (lib_name lib) item = set_library_name (lib_name l) it"
        and k: "keeps self cutoff ?s it"
      unfolding out by (elim exE conjE)
    show "keeps self cutoff ?s item"
      using keeps_cong [OF eq] k by simp
  next
    assume "keeps self cutoff ?s item"
    then show "set_library_name (lib_name lib) item \<in> set out"
      unfolding out using lib item by (intro exI [of _ lib] exI [of _ item]) simp
  qed
qed

lemma demo_run:
  "get_unwatched_items demo demo_client 90 [] start
     = (Inr demo_unwatched, snd (get_unwatched_items demo demo_client 90 [] start))"
proof -
  have "fst (get_unwatched_items demo demo_client 90 [] start) = Inr demo_unwatched"
    by code_simp
  then show ?thesis by (simp add: prod_eq_iff)
qed

lemma demo_cutoff:
  "cutoff_date (clock demo (clock_reads start)) 90 = Inr ''2024-01-02T00:00:00''"
  by code_simp

lemma demo_movies_library:
  "movies_library \<in> set (active_libraries demo_client [])"
  "truthy (lib_item_id movies_library)"
  "lib_name movies_library = Some ''Movies''"
  by code_simp+

lemma demo_movies_fetched:
  "demo_movies ! 0 \<in> set (fst (get_items_by_library demo_client (the (lib_item_id movies_library))))"
  "demo_movies ! 1 \<in> set (fst (get_items_by_library demo_client (the (lib_item_id movies_library))))"
  "demo_movies ! 3 \<in> set (fst (get_items_by_library demo_client (the (lib_item_id movies_library))))"
  "demo_movies ! 4 \<in> set (fst (get_items_by_library demo_client (the (lib_item_id movies_library))))"
  by code_simp+

lemma demo_movies_not_excluded:
  "item_id (demo_movies ! 0) \<notin> exclusion_set demo demo_client ''2024-01-02T00:00:00'' []"
  "item_id (demo_movies ! 1) \<notin> exclusion_set demo demo_client ''2024-01-02T00:00:00'' []"
  "item_id (demo_movies ! 3) \<notin> exclusion_set demo demo_client ''2024-01-02T00:00:00'' []"
  "item_id (demo_movies ! 4) \<notin> exclusion_set demo demo_client ''2024-01-02T00:00:00'' []"
  by code_simp+

lemma demo_movies_not_vetoed:
  "\<not> recency_veto demo_client ''2024-01-02T00:00:00'' (demo_movies ! 0)"
  "\<not> recency_veto demo_client ''2024-01-02T00:00:00'' (demo_movies ! 1)"
  "\<not> recency_veto demo_client ''2024-01-02T00:00:00'' (demo_movies ! 3)"
  "\<not> recency_veto demo_client ''2024-01-02T00:00:00'' (demo_movies ! 4)"
  by code_simp+

text \<open>
  Claim C3. Take an item that the resolver fetched from one of the libraries it scans.
  If the whitelist pass did not put its identifier in the exclusion set, the recent-episode
  check does not veto it and it is not skipped as recently created, then it is in the
  resolver's output (with the name of its library attached) if and only if its own
  last-played timestamp is absent or strictly less than the cutoff. Timestamps are the
  strings the program holds, in the order Python gives strings.
\<close>

theorem unwatched_iff_last_played_before_cutoff:
  assumes run: "get_unwatched_items env self d names w = (Inr out, w')"
    and cutoff: "cutoff_date (clock env (clock_reads w)) d = Inr cutoff"
    and lib: "lib \<in> set (active_libraries self names)" "truthy (lib_item_id lib)"
    and item: "item \<in> set (fst (get_items_by_library self (the (lib_item_id lib))))"
    and not_excluded: "item_id item \<notin> exclusion_set env self cutoff names"
    and not_vetoed: "\<not> recency_veto self cutoff item"
    and not_recent: "\<not> after (date_created item) cutoff"
  shows "(set_library_name (lib_name lib) item \<in> set out)
           = (date_last_played item = None \<or> the (date_last_played item) < cutoff)"
proof -
  have "cutoff \<noteq> []"
    using cutoff by (rule cutoff_date_nonempty)
  then have "stale (date_last_played item) cutoff
      = (date_last_played item = None \<or> the (date_last_played item) < cutoff)"
    by (rule stale_iff)
  then show ?thesis
    using listed_iff_keeps [OF run cutoff lib item] not_excluded not_vetoed not_recent
    by (simp add: keeps_def)
qed

text \<open>
  The scenario of the specification: with a cutoff of 90 days, the movie last played 91 days
  ago is in the output and the movie played ten days ago is not.
\<close>

theorem unwatched_iff_last_played_before_cutoff_witness:
  "set_library_name (Some ''Movies'') (demo_movies ! 0) \<in> set demo_unwatched
   \<and> set_library_name (Some ''Movies'') (demo_movies ! 1) \<notin> set demo_unwatched"
proof -
  have new0: "\<not> after (date_created (demo_movies ! 0)) ''2024-01-02T00:00:00''"
    by code_simp
  have new1: "\<not> after (date_created (demo_movies ! 1)) ''2024-01-02T00:00:00''"
    by code_simp
  have played0: "date_last_played (demo_movies ! 0) = None
      \<or> the (date_last_played (demo_movies ! 0)) < ''2024-01-02T00:00:00''"
    by code_simp
  have played1: "\<not> (date_last_played (demo_movies ! 1) = None
      \<or> the (date_last_played (demo_movies ! 1)) < ''2024-01-02T00:00:00'')"
    by code_simp
  show ?thesis
    using unwatched_iff_last_played_before_cutoff
        [OF demo_run demo_cutoff demo_movies_library(1,2) demo_movies_fetched(1)
            demo_movies_not_excluded(1) demo_movies_not_vetoed(1) new0]
      unwatched_iff_last_played_before_cutoff
        [OF demo_run demo_cutoff demo_movies_library(1,2) demo_movies_fetched(2)
            demo_movies_not_excluded(2) demo_movies_not_vetoed(2) new1]
      played0 played1 demo_movies_library(3)
    by simp
qed

text \<open>
  Claim C4, as the code has it. The claim says that an item created exactly at the cutoff is
  treated as recent and left out. Line 333 skips an item only when its creation timestamp
  is strictly greater than the cutoff, so an item created at the cutoff goes on to the
  last-played test. Here the whole run is evaluated: the movie Eraserhead, never played and
  created at the resolver's cutoff \<open>2024-01-02T00:00:00\<close>, is in the output.
\<close>

theorem created_at_cutoff_is_listed:
  "cutoff_date (clock demo (clock_reads start)) 90 = Inr ''2024-01-02T00:00:00''
   \<and> date_created (demo_movies ! 4) = Some ''2024-01-02T00:00:00''
   \<and> date_last_played (demo_movies ! 4) = None
   \<and> fst (get_unwatched_items demo demo_client 90 [] start) = Inr demo_unwatched
   \<and> demo_unwatched ! 2 = set_library_name (Some ''Movies'') (demo_movies ! 4)"
  by code_simp

text \<open>
  Claim C4, amended. Take an item that the resolver fetched from one of the libraries it
  scans, that the whitelist pass did not exclude and the recent-episode check does not
  veto, and that has no last-played timestamp. It is in the output if and only if its
  creation timestamp is absent or not greater than the cutoff: created before the cutoff or
  at the cutoff it is classified unwatched, created after the cutoff it is skipped.
\<close>

theorem never_played_listed_iff_not_created_after_cutoff:
  assumes run: "get_unwatched_items env self d names w = (Inr out, w')"
    and cutoff: "cutoff_date (clock env (clock_reads w)) d = Inr cutoff"
    and lib: "lib \<in> set (active_libraries self names)" "truthy (lib_item_id lib)"
    and item: "item \<in> set (fst (get_items_by_library self (the (lib_item_id lib))))"
    and not_excluded: "item_id item \<notin> exclusion_set env self cutoff names"
    and not_vetoed: "\<not> recency_veto self cutoff item"
    and never_played: "date_last_played item = None"
  shows "(set_library_name (lib_name lib) item \<in> set out)
           = (date_created item = None \<or> the (date_created item) \<le> cutoff)"
proof -
  have "(\<not> after (date_created item) cutoff)
      = (date_created item = None \<or> the (date_created item) \<le> cutoff)"
    by (auto simp: after_iff)
  then show ?thesis
    using listed_iff_keeps [OF run cutoff lib item] not_excluded not_vetoed never_played
    by (simp add: keeps_def)
qed

text \<open>
  Of the two movies never played, the one created at the cutoff is in the output and the
  one created five days before the run is not.
\<close>

theorem never_played_listed_iff_not_created_after_cutoff_witness:
  "set_library_name (Some ''Movies'') (demo_movies ! 4) \<in> set demo_unwatched
   \<and> set_library_name (Some ''Movies'') (demo_movies ! 3) \<notin> set demo_unwatched"
proof -
  have never4: "date_last_played (demo_movies ! 4) = None"
    by code_simp
  have never3: "date_last_played (demo_movies ! 3) = None"
    by code_simp
  have created4: "date_created (demo_movies ! 4) = None
      \<or> the (date_created (demo_movies ! 4)) \<le> ''2024-01-02T00:00:00''"
    by code_simp
  have created3: "\<not> (date_created (demo_movies ! 3) = None
      \<or> the (date_created (demo_movies ! 3)) \<le> ''2024-01-02T00:00:00'')"
    by code_simp
  show ?thesis
    using never_played_listed_iff_not_created_after_cutoff
        [OF demo_run demo_cutoff demo_movies_library(1,2) demo_movies_fetched(4)
            demo_movies_not_excluded(4) demo_movies_not_vetoed(4) never4]
      never_played_listed_iff_not_created_after_cutoff
        [OF demo_run demo_cutoff demo_movies_library(1,2) demo_movies_fetched(3)
            demo_movies_not_excluded(3) demo_movies_not_vetoed(3) never3]
      created4 created3 demo_movies_library(3)
    by simp
qed

subsection \<open>The episodes of a whitelisted user\<close>

text \<open>
  The loop of lines 279-291 adds to the exclusion set the identifier that line 270 has just
  added, so what \<open>get_user_episodes_by_series\<close> returns never changes the set, nor the
  output of the resolver.
\<close>

lemma user_items_loop_episodes:
  "fst (user_items_loop (self\<lparr>get_user_episodes_by_series := f\<rparr>) cutoff uid items s)
     = fst (user_items_loop self cutoff uid items s)"
  by (induction items arbitrary: s) (simp_all add: case_prod_beta)

lemma users_loop_episodes:
  "fst (users_loop (self\<lparr>get_user_episodes_by_series := f\<rparr>) cutoff library_id uids s)
     = fst (users_loop self cutoff library_id uids s)"
  by (induction uids arbitrary: s) (simp_all add: case_prod_beta user_items_loop_episodes)

lemma whitelist_pass_episodes:
  "fst (whitelist_pass (self\<lparr>get_user_episodes_by_series := f\<rparr>) cutoff uids libs s)
     = fst (whitelist_pass self cutoff uids libs s)"
  by (induction libs arbitrary: s) (simp_all add: case_prod_beta users_loop_episodes)

lemma items_loop_episodes:
  "items_loop (self\<lparr>get_user_episodes_by_series := f\<rparr>) cutoff s name items
     = items_loop self cutoff s name items"
  by (induction items) auto

lemma unwatched_pass_episodes:
  "unwatched_pass (self\<lparr>get_user_episodes_by_series := f\<rparr>) cutoff s libs
     = unwatched_pass self cutoff s libs"
  by (induction libs) (auto simp: items_loop_episodes)

lemma is_whitelisted_episodes:
  "is_whitelisted env (self\<lparr>get_user_episodes_by_series := f\<rparr>) = is_whitelisted env self"
  by (rule ext) (simp add: is_whitelisted_def)

lemma user_episodes_never_change_output:
  "fst (unwatched_since env (self\<lparr>get_user_episodes_by_series := f\<rparr>) cutoff names)
     = fst (unwatched_since env self cutoff names)"
proof -
  have act: "active_libraries (self\<lparr>get_user_episodes_by_series := f\<rparr>) names
      = active_libraries self names"
    by (simp add: active_libraries_def)
  have ex: "exclusion_set env (self\<lparr>get_user_episodes_by_series := f\<rparr>) cutoff names
      = exclusion_set env self cutoff names"
    by (simp add: exclusion_set_def act whitelisted_user_ids_def is_whitelisted_episodes
          whitelist_pass_episodes)
  show ?thesis
    by (simp add: fst_unwatched_since ex act unwatched_pass_episodes)
qed

text \<open>
  Claim C1, on the code. The user alice is whitelisted; her record of the series Fargo does
  not pass the watched test, her record of its episode Pilot does (it is marked played).
  The claim says that Fargo is then absent from the resolver's output. The resolver lists
  it: it asks for a user's episodes only inside the branch taken when the series-level
  record already passes the test.
\<close>

theorem whitelisted_episode_watched_series_listed:
  "is_whitelisted demo demo_client (demo_users ! 0)
   \<and> alice_series \<in> set (fst (get_user_items_by_library demo_client
                                (user_id (demo_users ! 0)) ''L2''))
   \<and> \<not> watched ''2024-01-02T00:00:00'' (user_data alice_series)
   \<and> alice_episode \<in> set (fst (get_user_episodes_by_series demo_client
                                 (user_id (demo_users ! 0)) (item_id alice_series)))
   \<and> watched ''2024-01-02T00:00:00'' (user_data alice_episode)
   \<and> fst (get_unwatched_items demo demo_client 90 [] start) = Inr demo_unwatched
   \<and> demo_unwatched ! 3 = set_library_name (Some ''TV'') demo_series
   \<and> item_id demo_series = item_id alice_series"
  by code_simp

theorem whitelisted_episode_watched_series_listed_witness:
  "fst (get_unwatched_items demo demo_client 90 [] start) = Inr demo_unwatched
   \<and> demo_unwatched ! 3 = set_library_name (Some ''TV'') demo_series"
  using whitelisted_episode_watched_series_listed by (elim conjE) (intro conjI)

section \<open>The steps of a run\<close>

text \<open>What a completed report phase went through, and what its report holds.\<close>

lemma report_phase_Return:
  assumes run: "report_phase env args client radarr sonarr cutoff items w2 = (Return rep, w')"
  obtains ids rs ms ss w3 where
    "(if \<not> ignore_recent_episodes args
      then recently_updated_loop client cutoff items else ({}, [])) = (ids, rs)"
    and "correlate_loop env radarr sonarr ids items (issue rs w2) = ((ms, ss), w3)"
    and "report_movies rep = (if sort_by_size args then sort_by_size_desc ms else ms)"
    and "report_shows rep = (if sort_by_size args then sort_by_size_desc ss else ss)"
    and "fst (deletion_phase env args radarr sonarr (report_movies rep) (report_shows rep)
                (snd (datetime_now env w3))) = Return (deletion_summary rep)"
    and "report_time rep = fst (datetime_now env w3)"
proof -
  obtain ids rs where r: "(if \<not> ignore_recent_episodes args
                 then recently_updated_loop client cutoff items else ({}, [])) = (ids, rs)"
    by (cases "if \<not> ignore_recent_episodes args
                 then recently_updated_loop client cutoff items else ({}, [])")
  obtain ms ss w3 where c:
    "correlate_loop env radarr sonarr ids items (issue rs w2) = ((ms, ss), w3)"
    by (cases "correlate_loop env radarr sonarr ids items (issue rs w2)") auto
  define m1 where "m1 = (if sort_by_size args then sort_by_size_desc ms else ms)"
  define s1 where "s1 = (if sort_by_size args then sort_by_size_desc ss else ss)"
  obtain rd w5 where d:
    "deletion_phase env args radarr sonarr m1 s1 (snd (datetime_now env w3)) = (rd, w5)"
    by (cases "deletion_phase env args radarr sonarr m1 s1 (snd (datetime_now env w3))")
  have body: "report_phase env args client radarr sonarr cutoff items w2 =
      (case (rd, w5) of
         (Raise e, w5) \<Rightarrow> (Raise e, w5)
       | (SysExit c, w5) \<Rightarrow> (SysExit c, w5)
       | (Return s, w5) \<Rightarrow>
           (Return \<lparr>report_time = fst (datetime_now env w3),
                    report_movies = m1, report_shows = s1,
                    total_movie_size = sum_list (map m_size ms),
                    total_show_size = sum_list (map m_size ss),
                    deletion_summary = s,
                    end_of_run = (if truthy_int (interval args)
                                  then Some (fst (datetime_now env w5)) else None)\<rparr>,
            if truthy_int (interval args) then snd (datetime_now env w5) else w5))"
    unfolding report_phase_def r Let_def prod.case c m1_def [symmetric] s1_def [symmetric] d
    by (rule refl)
  obtain s where rd: "rd = Return s"
    and rep: "rep = \<lparr>report_time = fst (datetime_now env w3),
                    report_movies = m1, report_shows = s1,
                    total_movie_size = sum_list (map m_size ms),
                    total_show_size = sum_list (map m_size ss),
                    deletion_summary = s,
                    end_of_run = (if truthy_int (interval args)
                                  then Some (fst (datetime_now env w5)) else None)\<rparr>"
    using run unfolding body by (cases rd) simp_all
  have m: "report_movies rep = m1" and sh: "report_shows rep = s1"
    and su: "deletion_summary rep = s" and ti: "report_time rep = fst (datetime_now env w3)"
    by (simp_all add: rep)
  have del: "fst (deletion_phase env args radarr sonarr (report_movies rep) (report_shows rep)
                (snd (datetime_now env w3))) = Return (deletion_summary rep)"
    unfolding m sh su using d rd by simp
  show thesis
    using that [OF r c] m sh del ti unfolding m1_def s1_def by blast
qed

text \<open>What a completed body of \<open>process_unwatched_media\<close> went through.\<close>

lemma process_body_Return:
  assumes run: "process_body env args w = (Return rep, w')"
  obtains out w1 cutoff where
    "get_unwatched_items env (configure_client env args) (days args)
       (libraries_to_check env args) (w\<lparr>movies_cache := None, series_cache := None\<rparr>)
       = (Inr out, w1)"
    and "cutoff_date (clock env (clock_reads w1)) (days args) = Inr cutoff"
    and "report_phase env args (configure_client env args) (radarr_client_of args)
           (sonarr_client_of args) cutoff out (snd (datetime_now env w1)) = (Return rep, w')"
proof -
  let ?g = "get_unwatched_items env (configure_client env args) (days args)
       (libraries_to_check env args) (w\<lparr>movies_cache := None, series_cache := None\<rparr>)"
  obtain r w1 where g: "?g = (r, w1)"
    by (cases ?g)
  show thesis
  proof (cases r)
    case (Inl e)
    then show thesis
      using run g by (simp add: process_body_def)
  next
    case (Inr out)
    show thesis
    proof (cases "cutoff_date (clock env (clock_reads w1)) (days args)")
      case (Inl e)
      then show thesis
        using run g Inr by (simp add: process_body_def datetime_now_def)
    next
      case (Inr cutoff)
      have "report_phase env args (configure_client env args) (radarr_client_of args)
           (sonarr_client_of args) cutoff out (snd (datetime_now env w1)) = (Return rep, w')"
        using run g \<open>r = Inr out\<close> Inr by (simp add: process_body_def datetime_now_def)
      then show thesis
        using that g \<open>r = Inr out\<close> Inr by simp
    qed
  qed
qed

lemma process_unwatched_media_Return:
  assumes "process_unwatched_media env args w = (Return (Some rep), w')"
  shows "process_body env args w = (Return rep, w')"
  using assms
  by (cases "process_body env args w"; cases "fst (process_body env args w)")
     (simp_all add: process_unwatched_media_def)

section \<open>The correlator\<close>

lemma find_first_hit: "find P xs = Some e \<Longrightarrow> first_hit P xs (Some e)"
proof (induction xs)
  case Nil
  then show ?case by simp
next
  case (Cons x xs)
  show ?case
  proof (cases "P x")
    case True
    with Cons.prems have "x = e" by simp
    with True have "x # xs = [] @ e # xs \<and> Some e = Some e \<and> P e \<and> list_all (\<lambda>x. \<not> P x) []"
      by simp
    then show ?thesis unfolding first_hit_def by blast
  next
    case False
    with Cons obtain before rest where
      h: "xs = before @ e # rest" "P e" "list_all (\<lambda>x. \<not> P x) before"
      unfolding first_hit_def by auto
    with False have "x # xs = (x # before) @ e # rest \<and> Some e = Some e \<and> P e
        \<and> list_all (\<lambda>x. \<not> P x) (x # before)"
      by simp
    then show ?thesis unfolding first_hit_def by blast
  qed
qed

lemma find_None_list_ex: "(find P xs = None) = (\<not> list_ex P xs)"
  by (auto simp: find_None_iff list_ex_iff)

lemma find_Some_list_ex: "find P xs = Some e \<Longrightarrow> list_ex P xs"
  by (cases "list_ex P xs") (simp_all add: find_None_list_ex [symmetric])

text \<open>
  The tests of the two loops are the two comparisons of the specification: equality of the
  lower-case forms, and containment of one lower-case form in the other.
\<close>

lemma exact_match_spec: "exact_match env name = title_equals env name"
  by (rule ext) (auto simp: exact_match_def title_equals_def equal_ignoring_case_def)

lemma fuzzy_match_spec: "fuzzy_match env name = title_contains_or_contained env name"
  by (rule ext)
     (auto simp: fuzzy_match_def title_contains_or_contained_def contains_ignoring_case_def)

text \<open>The two loops of a finder against what the specification says of them.\<close>

lemma two_loops_spec:
  "spec_find_by_title env name catalog
     (case find (exact_match env name) catalog of
        Some entry \<Rightarrow> Some entry
      | None \<Rightarrow> find (fuzzy_match env name) catalog)"
proof (cases "find (title_equals env name) catalog")
  case (Some entry)
  then show ?thesis
    using find_first_hit [OF Some] find_Some_list_ex [OF Some]
    by (simp add: spec_find_by_title_def exact_match_spec fuzzy_match_spec)
next
  case None
  note exact = None
  then have no_exact: "\<not> list_ex (title_equals env name) catalog"
    by (simp add: find_None_list_ex)
  show ?thesis
  proof (cases "find (title_contains_or_contained env name) catalog")
    case None
    then have "\<not> list_ex (title_contains_or_contained env name) catalog"
      by (simp add: find_None_list_ex)
    then show ?thesis
      using exact None no_exact
      by (simp add: spec_find_by_title_def exact_match_spec fuzzy_match_spec)
  next
    case (Some entry)
    then show ?thesis
      using exact no_exact find_first_hit [OF Some] find_Some_list_ex [OF Some]
      by (simp add: spec_find_by_title_def exact_match_spec fuzzy_match_spec)
  qed
qed

lemma fst_find_movie_by_title:
  "fst (find_movie_by_title env self name w) =
     (case find (exact_match env name) (fst (get_all_movies env self w)) of
        Some entry \<Rightarrow> Some entry
      | None \<Rightarrow> find (fuzzy_match env name) (fst (get_all_movies env self w)))"
  by (simp add: find_movie_by_title_def case_prod_beta split: option.splits)

lemma fst_find_series_by_title:
  "fst (find_series_by_title env self name w) =
     (case find (exact_match env name) (fst (get_all_series env self w)) of
        Some entry \<Rightarrow> Some entry
      | None \<Rightarrow> find (fuzzy_match env name) (fst (get_all_series env self w)))"
  by (simp add: find_series_by_title_def case_prod_beta split: option.splits)

lemma exact_alien:
  assumes "str_lower env ''Alien'' = ''alien''" and "str_lower env ''Aliens'' = ''aliens''"
  shows "title a = Some ''Alien'' \<Longrightarrow> exact_match env ''Alien'' a"
    and "title b = Some ''Aliens'' \<Longrightarrow> \<not> exact_match env ''Alien'' b"
  using assms by (simp_all add: exact_match_def title_of_def)

text \<open>
  Claim C5. For every catalog (the list the client holds) and every item name, each of the
  two finders returns the first entry whose title equals the name case-insensitively (the
  lower-case forms of the two are equal); only when no entry does, the first entry whose
  title contains the name or is contained in it, case-insensitively (the lower-case form of
  one occurs in the lower-case form of the other); when no entry does either, nothing.
  With the titles Alien and Aliens in the catalog, in either order, the name Alien finds
  the entry Alien, given what \<open>str.lower\<close> returns for the two titles.
\<close>

theorem find_by_title_exact_before_containment:
  "spec_find_by_title env name (fst (get_all_movies env radarr w))
     (fst (find_movie_by_title env radarr name w))
   \<and> spec_find_by_title env name (fst (get_all_series env sonarr w))
       (fst (find_series_by_title env sonarr name w))
   \<and> (str_lower env ''Alien'' = ''alien'' \<longrightarrow> str_lower env ''Aliens'' = ''aliens''
        \<longrightarrow> title a = Some ''Alien'' \<longrightarrow> title b = Some ''Aliens''
        \<longrightarrow> fst (get_all_movies env radarr w) = [a, b] \<or> fst (get_all_movies env radarr w) = [b, a]
        \<longrightarrow> fst (find_movie_by_title env radarr ''Alien'' w) = Some a)
   \<and> (str_lower env ''Alien'' = ''alien'' \<longrightarrow> str_lower env ''Aliens'' = ''aliens''
        \<longrightarrow> title a = Some ''Alien'' \<longrightarrow> title b = Some ''Aliens''
        \<longrightarrow> fst (get_all_series env sonarr w) = [a, b] \<or> fst (get_all_series env sonarr w) = [b, a]
        \<longrightarrow> fst (find_series_by_title env sonarr ''Alien'' w) = Some a)"
proof (intro conjI impI)
  show "spec_find_by_title env name (fst (get_all_movies env radarr w))
     (fst (find_movie_by_title env radarr name w))"
    unfolding fst_find_movie_by_title by (rule two_loops_spec)
  show "spec_find_by_title env name (fst (get_all_series env sonarr w))
       (fst (find_series_by_title env sonarr name w))"
    unfolding fst_find_series_by_title by (rule two_loops_spec)
next
  assume "str_lower env ''Alien'' = ''alien''" "str_lower env ''Aliens'' = ''aliens''"
    "title a = Some ''Alien''" "title b = Some ''Aliens''"
    "fst (get_all_movies env radarr w) = [a, b] \<or> fst (get_all_movies env radarr w) = [b, a]"
  then show "fst (find_movie_by_title env radarr ''Alien'' w) = Some a"
    unfolding fst_find_movie_by_title using exact_alien(1) [of env a] exact_alien(2) [of env b] by auto
next
  assume "str_lower env ''Alien'' = ''alien''" "str_lower env ''Aliens'' = ''aliens''"
    "title a = Some ''Alien''" "title b = Some ''Aliens''"
    "fst (get_all_series env sonarr w) = [a, b] \<or> fst (get_all_series env sonarr w) = [b, a]"
  then show "fst (find_series_by_title env sonarr ''Alien'' w) = Some a"
    unfolding fst_find_series_by_title using exact_alien(1) [of env a] exact_alien(2) [of env b] by auto
qed

text \<open>
  The catalog of the example lists Aliens before Alien. The name Alien finds Alien, and so
  does ALIEN, which differs from the title in case only: equality goes before containment
  and before the order of the catalog. The name ALIEN 3 equals no title and contains the
  title Alien only, so it finds Alien; the name LIENS equals no title and is contained in
  the title Aliens only, so it finds Aliens; the name lien is contained in both titles and
  finds the first, Aliens; the name Zardoz finds nothing. The series finder finds Fargo
  for fargo.
\<close>

theorem find_by_title_exact_before_containment_witness:
  "fst (get_all_movies demo (ArrClient ''http://radarr'' ''r'') start) = [aliens_entry, alien_entry]
   \<and> fst (find_movie_by_title demo (ArrClient ''http://radarr'' ''r'') ''Alien'' start)
       = Some alien_entry
   \<and> spec_find_by_title demo ''Alien'' [aliens_entry, alien_entry] (Some alien_entry)
   \<and> fst (find_movie_by_title demo (ArrClient ''http://radarr'' ''r'') ''ALIEN'' start)
       = Some alien_entry
   \<and> fst (find_movie_by_title demo (ArrClient ''http://radarr'' ''r'') ''ALIEN 3'' start)
       = Some alien_entry
   \<and> fst (find_movie_by_title demo (ArrClient ''http://radarr'' ''r'') ''LIENS'' start)
       = Some aliens_entry
   \<and> fst (find_movie_by_title demo (ArrClient ''http://radarr'' ''r'') ''lien'' start)
       = Some aliens_entry
   \<and> fst (find_movie_by_title demo (ArrClient ''http://radarr'' ''r'') ''Zardoz'' start) = None
   \<and> spec_find_by_title demo ''ALIEN 3'' [aliens_entry, alien_entry] (Some alien_entry)
   \<and> spec_find_by_title demo ''LIENS'' [aliens_entry, alien_entry] (Some aliens_entry)
   \<and> spec_find_by_title demo ''Zardoz'' [aliens_entry, alien_entry] None
   \<and> fst (find_series_by_title demo (ArrClient ''http://sonarr'' ''s'') ''fargo'' start)
       = Some fargo_entry
   \<and> spec_find_by_title demo ''fargo'' [fargo_entry] (Some fargo_entry)"
proof -
  let ?radarr = "ArrClient ''http://radarr'' ''r''"
  let ?sonarr = "ArrClient ''http://sonarr'' ''s''"
  have catalog: "fst (get_all_movies demo ?radarr start) = [aliens_entry, alien_entry]"
    by code_simp
  have series: "fst (get_all_series demo ?sonarr start) = [fargo_entry]"
    by code_simp
  have a: "title alien_entry = Some ''Alien''"
    by code_simp
  have b: "title aliens_entry = Some ''Aliens''"
    by code_simp
  have la: "str_lower demo ''Alien'' = ''alien''"
    by code_simp
  have lb: "str_lower demo ''Aliens'' = ''aliens''"
    by code_simp
  have found: "fst (find_movie_by_title demo ?radarr ''Alien'' start) = Some alien_entry"
    using find_by_title_exact_before_containment
      [where env = demo and name = "''Alien''" and radarr = ?radarr and w = start
         and sonarr = ?sonarr and a = alien_entry and b = aliens_entry] la lb a b catalog
    by simp
  have upper: "fst (find_movie_by_title demo ?radarr ''ALIEN'' start) = Some alien_entry"
    by code_simp
  have longer: "fst (find_movie_by_title demo ?radarr ''ALIEN 3'' start) = Some alien_entry"
    by code_simp
  have shorter: "fst (find_movie_by_title demo ?radarr ''LIENS'' start) = Some aliens_entry"
    by code_simp
  have both: "fst (find_movie_by_title demo ?radarr ''lien'' start) = Some aliens_entry"
    by code_simp
  have missing: "fst (find_movie_by_title demo ?radarr ''Zardoz'' start) = None"
    by code_simp
  have fargo: "fst (find_series_by_title demo ?sonarr ''fargo'' start) = Some fargo_entry"
    by code_simp
  have spec: "spec_find_by_title demo name (fst (get_all_movies demo ?radarr start))
       (fst (find_movie_by_title demo ?radarr name start))
     \<and> spec_find_by_title demo name (fst (get_all_series demo ?sonarr start))
       (fst (find_series_by_title demo ?sonarr name start))" for name
    using find_by_title_exact_before_containment
      [where env = demo and name = name and radarr = ?radarr and w = start
         and sonarr = ?sonarr and a = alien_entry and b = aliens_entry]
    by (elim conjE) (intro conjI)
  show ?thesis
    using spec [of "''Alien''"] spec [of "''ALIEN 3''"] spec [of "''LIENS''"]
      spec [of "''Zardoz''"] spec [of "''fargo''"]
      catalog series found upper longer shorter both missing fargo
    by simp
qed

section \<open>Dry run\<close>

lemma only_gets_Nil: "only_gets []"
  by (simp add: only_gets_def)

lemma only_gets_append: "only_gets (a @ b) = (only_gets a \<and> only_gets b)"
  by (simp add: only_gets_def)

lemma only_gets_fetch: "verb req = GET \<Longrightarrow> only_gets (snd (fetch respond req))"
  by (simp add: fetch_def only_gets_def split: option.splits)

lemma delete_calls_issue: "only_gets rs \<Longrightarrow> delete_calls (issue rs w) = delete_calls w"
  by (simp add: delete_calls_def issue_def only_gets_def)

lemma delete_calls_same_log: "http_log w' = http_log w \<Longrightarrow> delete_calls w' = delete_calls w"
  by (simp add: delete_calls_def)

lemma reads_only_slots:
  assumes "reads_only self"
  shows "only_gets (snd (get_libraries self))" "only_gets (snd (get_users self))"
    "only_gets (snd (get_items_by_library self l))"
    "only_gets (snd (get_user_items_by_library self u l))"
    "only_gets (snd (get_episodes_by_series self s))"
    "only_gets (snd (get_user_episodes_by_series self u s))"
  using assms by (simp_all add: reads_only_def)

lemma user_items_loop_gets:
  "reads_only self \<Longrightarrow> only_gets (snd (user_items_loop self cutoff uid items s))"
  by (induction items arbitrary: s)
     (simp_all add: case_prod_beta only_gets_append only_gets_Nil reads_only_slots)

lemma users_loop_gets:
  "reads_only self \<Longrightarrow> only_gets (snd (users_loop self cutoff library_id uids s))"
  by (induction uids arbitrary: s)
     (simp_all add: case_prod_beta only_gets_append only_gets_Nil reads_only_slots
        user_items_loop_gets)

lemma whitelist_pass_gets:
  "reads_only self \<Longrightarrow> only_gets (snd (whitelist_pass self cutoff uids libs s))"
  by (induction libs arbitrary: s)
     (simp_all add: case_prod_beta only_gets_append only_gets_Nil users_loop_gets)

lemma items_loop_gets:
  "reads_only self \<Longrightarrow> only_gets (snd (items_loop self cutoff s name items))"
  by (induction items)
     (simp_all add: case_prod_beta only_gets_append only_gets_Nil reads_only_slots)

lemma unwatched_pass_gets:
  "reads_only self \<Longrightarrow> only_gets (snd (unwatched_pass self cutoff s libs))"
  by (induction libs)
     (simp_all add: case_prod_beta only_gets_append only_gets_Nil reads_only_slots
        items_loop_gets)

lemma unwatched_since_gets:
  "reads_only self \<Longrightarrow> only_gets (snd (unwatched_since env self cutoff names))"
  by (simp add: unwatched_since_def case_prod_beta Let_def only_gets_append only_gets_Nil
        reads_only_slots whitelist_pass_gets unwatched_pass_gets)

lemma recently_updated_loop_gets:
  "reads_only self \<Longrightarrow> only_gets (snd (recently_updated_loop self cutoff items))"
  by (induction items)
     (simp_all add: case_prod_beta only_gets_append only_gets_Nil reads_only_slots)

lemma reads_only_EmbyClient: "reads_only (EmbyClient env s k wl)"
  by (simp add: reads_only_def EmbyClient_def Let_def only_gets_fetch
        emby_get_libraries_def emby_get_items_by_library_def emby_get_users_def
        emby_get_user_items_by_library_def emby_get_episodes_by_series_def
        emby_get_user_episodes_by_series_def)

lemma reads_only_configure_client: "reads_only (configure_client env args)"
  using reads_only_EmbyClient [of env "server args" "api_key args"
      "comma_separated env (whitelist args)"]
  by (simp add: configure_client_def Let_def reads_only_def updated_get_items_def
        only_gets_fetch only_gets_Nil)

lemma delete_calls_clock: "delete_calls (w\<lparr>clock_reads := n\<rparr>) = delete_calls w"
  by (simp add: delete_calls_def)

lemma get_unwatched_items_deletes:
  "reads_only self \<Longrightarrow>
     delete_calls (snd (get_unwatched_items env self d names w)) = delete_calls w"
  by (simp add: get_unwatched_items_def datetime_now_def case_prod_beta
        delete_calls_issue unwatched_since_gets delete_calls_clock split: sum.splits)

lemma get_all_movies_deletes:
  "delete_calls (snd (get_all_movies env self w)) = delete_calls w"
  by (simp add: get_all_movies_def Let_def delete_calls_def issue_def split: option.splits)

lemma get_all_series_deletes:
  "delete_calls (snd (get_all_series env self w)) = delete_calls w"
  by (simp add: get_all_series_def Let_def delete_calls_def issue_def split: option.splits)

lemma lookup_movie_deletes:
  "delete_calls (snd (lookup_movie env client name w)) = delete_calls w"
  by (simp add: lookup_movie_def find_movie_by_title_def case_prod_beta
        get_all_movies_deletes split: option.splits)

lemma lookup_series_deletes:
  "delete_calls (snd (lookup_series env client name w)) = delete_calls w"
  by (simp add: lookup_series_def find_series_by_title_def case_prod_beta
        get_all_series_deletes split: option.splits)

lemma correlate_loop_deletes:
  "delete_calls (snd (correlate_loop env radarr sonarr recent items w)) = delete_calls w"
  by (induction items arbitrary: w)
     (simp_all add: case_prod_beta lookup_movie_deletes lookup_series_deletes)

lemma prompt_for_deletion_log: "http_log (snd (prompt_for_deletion env w)) = http_log w"
  by (simp add: prompt_for_deletion_def case_prod_beta)

lemma should_delete_log: "http_log (snd (should_delete env args w)) = http_log w"
proof (cases "delete_mode args")
  case Interactive
  show ?thesis
    using prompt_for_deletion_log [of env w]
    by (cases "prompt_for_deletion env w"; cases "fst (prompt_for_deletion env w)")
       (simp_all add: should_delete_def Interactive)
qed (simp_all add: should_delete_def)

lemma delete_confirmed_dry_run:
  "dry_run args \<Longrightarrow>
     delete_confirmed delete args entry (freed, n) w
       = (Return (freed + m_size entry, n + 1), w)"
  by (simp add: delete_confirmed_def)

lemma deletion_loop_dry_run_log:
  "dry_run args \<Longrightarrow>
     http_log (snd (deletion_loop env delete args entries tally w)) = http_log w"
proof (induction entries arbitrary: tally w)
  case Nil
  show ?case by simp
next
  case (Cons entry entries)
  obtain r w1 where sd: "should_delete env args w = (r, w1)"
    by (cases "should_delete env args w")
  have log1: "http_log w1 = http_log w"
    using should_delete_log [of env args w] sd by simp
  obtain freed n where tally: "tally = (freed, n)"
    by (cases tally)
  show ?case
    using Cons.IH [OF Cons.prems] Cons.prems sd log1 tally
    by (simp add: delete_confirmed_dry_run split: result.splits option.splits bool.splits)
qed

lemma deletion_loop_dry_run_all:
  "dry_run args \<Longrightarrow> delete_mode args = DeleteAll \<Longrightarrow>
     deletion_loop env delete args entries (freed, n) w
       = (Return (freed + sum_list (map m_size (correlated entries)),
                  n + int (length (correlated entries))), w)"
  by (induction entries arbitrary: freed n)
     (simp_all add: correlated_def should_delete_def delete_confirmed_dry_run)

lemma deletion_phase_dry_run_log:
  "dry_run args \<Longrightarrow>
     http_log (snd (deletion_phase env args radarr sonarr ms ss w)) = http_log w"
proof -
  assume dry: "dry_run args"
  let ?m = "case radarr of None \<Rightarrow> (Return (0, 0), w)
            | Some client \<Rightarrow> deletion_loop env (delete_movie env client) args ms (0, 0) w"
  have m: "http_log (snd ?m) = http_log w"
    using deletion_loop_dry_run_log [OF dry] by (simp split: option.splits)
  have s: "\<And>w1. http_log (snd (case sonarr of None \<Rightarrow> (Return (0, 0), w1)
            | Some client \<Rightarrow> deletion_loop env (delete_series env client) args ss (0, 0) w1))
        = http_log w1"
    using deletion_loop_dry_run_log [OF dry] by (simp split: option.splits)
  show ?thesis
  proof (cases "delete_mode args = DeleteNone")
    case True
    then show ?thesis by (simp add: deletion_phase_def)
  next
    case False
    obtain r w1 where em: "?m = (r, w1)"
      by (cases ?m)
    have w1: "http_log w1 = http_log w"
      using m em by simp
    show ?thesis
    proof (cases r)
      case (Return t)
      obtain a b where t: "t = (a, b)" by (cases t)
      let ?s = "case sonarr of None \<Rightarrow> (Return (0, 0), w1)
            | Some client \<Rightarrow> deletion_loop env (delete_series env client) args ss (0, 0) w1"
      obtain r2 w2 where es: "?s = (r2, w2)"
        by (cases ?s)
      have w2: "http_log w2 = http_log w"
        using s [of w1] es w1 by simp
      show ?thesis
        using False em Return t es w2
        by (cases r2) (simp_all add: deletion_phase_def split: prod.splits)
    next
      case (Raise e)
      then show ?thesis using False em w1 by (simp add: deletion_phase_def)
    next
      case (SysExit c)
      then show ?thesis using False em w1 by (simp add: deletion_phase_def)
    qed
  qed
qed

lemma datetime_now_deletes: "delete_calls (snd (datetime_now env w)) = delete_calls w"
  by (simp add: datetime_now_def delete_calls_def)

text \<open>The world after a call whose result is passed on as it is unless the call returned.\<close>

lemma snd_result_cases:
  "snd (case x of (Return s, w5) \<Rightarrow> (f s w5, g w5)
        | (Raise e, w5) \<Rightarrow> (Raise e, w5)
        | (SysExit c, w5) \<Rightarrow> (SysExit c, w5))
     = (case fst x of Return s \<Rightarrow> g (snd x) | Raise e \<Rightarrow> snd x | SysExit c \<Rightarrow> snd x)"
  by (cases x; cases "fst x") simp_all

lemma report_phase_dry_run:
  assumes dry: "dry_run args" and client: "reads_only client"
  shows "delete_calls (snd (report_phase env args client radarr sonarr cutoff items w2))
           = delete_calls w2"
proof -
  obtain ids rs where r: "(if \<not> ignore_recent_episodes args
                 then recently_updated_loop client cutoff items else ({}, [])) = (ids, rs)"
    by (cases "if \<not> ignore_recent_episodes args
                 then recently_updated_loop client cutoff items else ({}, [])")
  have "only_gets (snd (if \<not> ignore_recent_episodes args
                 then recently_updated_loop client cutoff items else ({}, [])))"
    by (simp add: recently_updated_loop_gets client only_gets_Nil)
  then have rs: "only_gets rs"
    unfolding r by simp
  obtain ms ss w3 where c:
    "correlate_loop env radarr sonarr ids items (issue rs w2) = ((ms, ss), w3)"
    by (cases "correlate_loop env radarr sonarr ids items (issue rs w2)") auto
  have w3: "delete_calls w3 = delete_calls w2"
    using correlate_loop_deletes [of env radarr sonarr ids items "issue rs w2"]
      delete_calls_issue [OF rs, of w2] c
    by simp
  define m1 where "m1 = (if sort_by_size args then sort_by_size_desc ms else ms)"
  define s1 where "s1 = (if sort_by_size args then sort_by_size_desc ss else ss)"
  obtain rd w5 where d:
    "deletion_phase env args radarr sonarr m1 s1 (snd (datetime_now env w3)) = (rd, w5)"
    by (cases "deletion_phase env args radarr sonarr m1 s1 (snd (datetime_now env w3))")
  have "http_log w5 = http_log (snd (datetime_now env w3))"
    using deletion_phase_dry_run_log [OF dry, of env radarr sonarr m1 s1
        "snd (datetime_now env w3)"] d
    by simp
  then have w5: "delete_calls w5 = delete_calls w2"
    using delete_calls_same_log [of w5 "snd (datetime_now env w3)"]
      datetime_now_deletes [of env w3] w3
    by simp
  have body: "report_phase env args client radarr sonarr cutoff items w2 =
      (case (rd, w5) of
         (Raise e, w5) \<Rightarrow> (Raise e, w5)
       | (SysExit c, w5) \<Rightarrow> (SysExit c, w5)
       | (Return s, w5) \<Rightarrow>
           (Return \<lparr>report_time = fst (datetime_now env w3),
                    report_movies = m1, report_shows = s1,
                    total_movie_size = sum_list (map m_size ms),
                    total_show_size = sum_list (map m_size ss),
                    deletion_summary = s,
                    end_of_run = (if truthy_int (interval args)
                                  then Some (fst (datetime_now env w5)) else None)\<rparr>,
            if truthy_int (interval args) then snd (datetime_now env w5) else w5))"
    unfolding report_phase_def r Let_def prod.case c m1_def [symmetric] s1_def [symmetric] d
    by (rule refl)
  show ?thesis
    unfolding body using w5 by (cases rd) (simp_all add: datetime_now_deletes)
qed

lemma process_body_dry_run:
  assumes dry: "dry_run args"
  shows "delete_calls (snd (process_body env args w)) = delete_calls w"
proof -
  let ?client = "configure_client env args"
  let ?w0 = "w\<lparr>movies_cache := None, series_cache := None\<rparr>"
  let ?g = "get_unwatched_items env ?client (days args) (libraries_to_check env args) ?w0"
  have w0: "delete_calls ?w0 = delete_calls w"
    by (simp add: delete_calls_def)
  have w1: "delete_calls (snd ?g) = delete_calls w"
    using get_unwatched_items_deletes
        [where self = ?client and env = env and d = "days args"
           and names = "libraries_to_check env args" and w = ?w0,
         OF reads_only_configure_client] w0
    by simp
  have w2: "delete_calls (snd (datetime_now env (snd ?g))) = delete_calls w"
    using datetime_now_deletes [of env "snd ?g"] w1 by simp
  have rest: "\<And>radarr sonarr cutoff items.
      delete_calls (snd (report_phase env args ?client radarr sonarr cutoff items
                           (snd (datetime_now env (snd ?g))))) = delete_calls w"
    using report_phase_dry_run [OF dry reads_only_configure_client] w2 by simp
  show ?thesis
    unfolding process_body_def case_prod_beta
    using w1 w2 rest by (simp split: sum.splits)
qed

lemma process_unwatched_media_dry_run:
  "dry_run args \<Longrightarrow>
     delete_calls (snd (process_unwatched_media env args w)) = delete_calls w"
  using process_body_dry_run [of args env w]
  by (cases "process_body env args w"; cases "fst (process_body env args w)")
     (simp_all add: process_unwatched_media_def)

text \<open>The scheduler and \<open>main\<close> add no delete call of their own.\<close>

lemma tick_dry_run:
  assumes dry: "dry_run args"
  shows "delete_calls (snd (snd (tick env args h now st w))) = delete_calls w"
proof (cases "last_run st")
  case None
  then show ?thesis by (simp add: tick_def)
next
  case (Some previous)
  obtain r w1 where p: "process_unwatched_media env args w = (r, w1)"
    by (cases "process_unwatched_media env args w")
  have w1: "delete_calls w1 = delete_calls w"
    using process_unwatched_media_dry_run [OF dry, of env w] p by simp
  show ?thesis
    using Some p w1
    by (cases r) (simp_all add: tick_def split: sum.splits)
qed

lemma scheduler_loop_dry_run:
  assumes dry: "dry_run args"
  shows "delete_calls (snd (snd (scheduler_loop env args h fuel i st w))) = delete_calls w"
proof (induction fuel arbitrary: i st w)
  case 0
  show ?case by simp
next
  case (Suc fuel)
  obtain now w1 where n: "datetime_now env w = (now, w1)"
    by (cases "datetime_now env w")
  have w1: "delete_calls w1 = delete_calls w"
    using datetime_now_deletes [of env w] n by simp
  obtain r st1 w2 where t: "tick env args h now st w1 = (r, st1, w2)"
    by (cases "tick env args h now st w1")
  have w2: "delete_calls w2 = delete_calls w"
    using tick_dry_run [OF dry, of env h now st w1] t w1 by simp
  show ?case
    using n t w2 Suc.IH [of "Suc i" st1 w2]
    by (cases r) (simp_all split: option.splits)
qed

lemma run_scheduled_dry_run:
  assumes dry: "dry_run args"
  shows "delete_calls (snd (snd (run_scheduled env args h fuel w))) = delete_calls w"
proof (cases "run_at_start args")
  case False
  then show ?thesis
    using scheduler_loop_dry_run [OF dry] by (simp add: run_scheduled_def)
next
  case True
  obtain r w1 where p: "process_unwatched_media env args w = (r, w1)"
    by (cases "process_unwatched_media env args w")
  have w1: "delete_calls w1 = delete_calls w"
    using process_unwatched_media_dry_run [OF dry, of env w] p by simp
  obtain now w2 where n: "datetime_now env w1 = (now, w2)"
    by (cases "datetime_now env w1")
  have w2: "delete_calls w2 = delete_calls w"
    using datetime_now_deletes [of env w1] n w1 by simp
  show ?thesis
    using True p n w1 w2 scheduler_loop_dry_run [OF dry, of env h fuel 0 _ w2]
    by (cases r) (simp_all add: run_scheduled_def split: sum.splits)
qed

lemma main_dry_run:
  assumes dry: "dry_run args"
  shows "delete_calls (snd (main env args fuel w)) = delete_calls w"
proof -
  let ?args = "if delete_mode args = Interactive then args\<lparr>delete_mode := DeleteNone\<rparr> else args"
  have dry': "dry_run ?args"
    using dry by simp
  have listing: "delete_calls (issue (snd (get_libraries (EmbyClient env s k []))) w)
      = delete_calls w" for s k
    using reads_only_slots(1) [OF reads_only_EmbyClient, of env s k "[]"]
    by (simp add: delete_calls_issue)
  obtain r st w1 where rs: "run_scheduled env ?args (the (interval args)) fuel w = (r, st, w1)"
    by (cases "run_scheduled env ?args (the (interval args)) fuel w")
  have w1: "delete_calls w1 = delete_calls w"
    using run_scheduled_dry_run [OF dry', of env "the (interval args)" fuel w] rs by simp
  obtain r2 w2 where p: "process_unwatched_media env args w = (r2, w2)"
    by (cases "process_unwatched_media env args w")
  have w2: "delete_calls w2 = delete_calls w"
    using process_unwatched_media_dry_run [OF dry, of env w] p by simp
  show ?thesis
  proof (cases "list_libraries args")
    case True
    then show ?thesis
      using listing by (simp add: main_def case_prod_beta)
  next
    case False
    note not_listing = False
    show ?thesis
    proof (cases "truthy_int (interval args)")
      case True
      show ?thesis
      proof (cases "the (interval args) \<le> 0")
        case True
        then show ?thesis
          using not_listing \<open>truthy_int (interval args)\<close> by (simp add: main_def)
      next
        case False
        have m: "main env args fuel w =
            (case (r, st, w1) of
               (None, st, w1) \<Rightarrow> (None, w1)
             | (Some (SysExit c), st, w1) \<Rightarrow> (Some c, w1)
             | (Some (Raise e), st, w1) \<Rightarrow> (Some 1, w1)
             | (Some (Return u), st, w1) \<Rightarrow> (Some 0, w1))"
          unfolding main_def rs [symmetric]
          using not_listing \<open>truthy_int (interval args)\<close> False by simp
        show ?thesis
          unfolding m using w1 by (simp split: option.splits result.splits)
      qed
    next
      case False
      then show ?thesis
        using not_listing p w2 by (cases r2) (simp_all add: main_def)
    qed
  qed
qed

text \<open>
  The tally of a deletion loop under dry-run, against the entries that are confirmed: the
  loop that returns has added the size of each confirmed entry and counted it, and has read
  the input that the decisions read.
\<close>

lemma deletion_loop_dry_run_confirmed:
  assumes dry: "dry_run args"
  shows "deletion_loop env delete args entries (freed, n) w = (Return t, w') \<Longrightarrow>
     t = (freed + sum_list (map m_size (fst (confirmed env args entries (stdin w)))),
          n + int (length (fst (confirmed env args entries (stdin w)))))
     \<and> stdin w' = snd (confirmed env args entries (stdin w))"
proof (induction entries arbitrary: freed n w)
  case Nil
  then show ?case by simp
next
  case (Cons entry entries)
  note run = Cons.prems
  show ?case
  proof (cases "m_id entry = None")
    case True
    then show ?thesis
      using Cons.IH [of freed n w] run by simp
  next
    case False
    then have has_id: "(m_id entry = None) = False"
      by simp
    show ?thesis
    proof (cases "delete_mode args")
      case DeleteAll
      have "deletion_loop env delete args entries (freed + m_size entry, n + 1) w
              = (Return t, w')"
        using run DeleteAll dry by (simp add: has_id should_delete_def delete_confirmed_def)
      from Cons.IH [OF this] show ?thesis
        using DeleteAll by (simp add: has_id case_prod_beta)
    next
      case DeleteNone
      have "deletion_loop env delete args entries (freed, n) w = (Return t, w')"
        using run DeleteNone by (simp add: has_id should_delete_def)
      from Cons.IH [OF this] show ?thesis
        using DeleteNone by (simp add: has_id)
    next
      case Interactive
      show ?thesis
      proof (cases "truthy_int (interval args)")
        case True
        have "deletion_loop env delete args entries (freed, n) w = (Return t, w')"
          using run Interactive True by (simp add: has_id should_delete_def)
        from Cons.IH [OF this] show ?thesis
          using Interactive True by (simp add: has_id)
      next
        case False
        obtain r rest where p: "prompt_loop env (stdin w) = (r, rest)"
          by (cases "prompt_loop env (stdin w)")
        show ?thesis
        proof (cases r)
          case (Return b)
          show ?thesis
          proof (cases b)
            case True
            have "deletion_loop env delete args entries (freed + m_size entry, n + 1)
                    (w\<lparr>stdin := rest\<rparr>) = (Return t, w')"
              using run Interactive False p Return True dry
              by (simp add: has_id should_delete_def prompt_for_deletion_def
                    delete_confirmed_def)
            from Cons.IH [OF this] show ?thesis
              using Interactive False p Return True by (simp add: has_id case_prod_beta)
          next
            case False
            have "deletion_loop env delete args entries (freed, n) (w\<lparr>stdin := rest\<rparr>)
                    = (Return t, w')"
              using run Interactive \<open>\<not> truthy_int (interval args)\<close> p Return False
              by (simp add: has_id should_delete_def prompt_for_deletion_def)
            from Cons.IH [OF this] show ?thesis
              using Interactive \<open>\<not> truthy_int (interval args)\<close> p Return False
              by (simp add: has_id)
          qed
        next
          case (Raise e)
          then show ?thesis
            using run Interactive False p
            by (simp add: has_id should_delete_def prompt_for_deletion_def)
        next
          case (SysExit c)
          then show ?thesis
            using run Interactive False p
            by (simp add: has_id should_delete_def prompt_for_deletion_def)
        qed
      qed
    qed
  qed
qed

text \<open>The summary of a deletion phase under dry-run, against the expected one.\<close>

lemma deletion_phase_dry_run_summary:
  assumes dry: "dry_run args"
    and run: "deletion_phase env args radarr sonarr ms ss w = (Return s, w')"
  shows "s = expected_summary env args radarr sonarr ms ss (stdin w)"
proof (cases "delete_mode args = DeleteNone")
  case True
  then show ?thesis
    using run by (simp add: deletion_phase_def expected_summary_def)
next
  case False
  let ?m = "case radarr of None \<Rightarrow> (Return (0, 0), w)
            | Some client \<Rightarrow> deletion_loop env (delete_movie env client) args ms (0, 0) w"
  obtain r1 w1 where m: "?m = (r1, w1)"
    by (cases ?m)
  obtain a b where r1: "r1 = Return (a, b)"
    using run False m by (cases r1) (auto simp: deletion_phase_def)
  let ?s = "case sonarr of None \<Rightarrow> (Return (0, 0), w1)
            | Some client \<Rightarrow> deletion_loop env (delete_series env client) args ss (0, 0) w1"
  obtain r2 w2 where s2: "?s = (r2, w2)"
    by (cases ?s)
  obtain c d where r2: "r2 = Return (c, d)"
    using run False m r1 s2 by (cases r2) (auto simp: deletion_phase_def)
  have s: "s = Some \<lparr>deleted_movie_count = b, deleted_movie_size = a,
                     deleted_show_count = d, deleted_show_size = c\<rparr>"
    using run False m r1 s2 r2 by (simp add: deletion_phase_def)
  have movies: "(a, b) = (sum_list (map m_size
                    (fst (if radarr = None then ([], stdin w)
                          else confirmed env args ms (stdin w)))),
                  int (length (fst (if radarr = None then ([], stdin w)
                                    else confirmed env args ms (stdin w)))))
      \<and> stdin w1 = snd (if radarr = None then ([], stdin w)
                         else confirmed env args ms (stdin w))"
  proof (cases radarr)
    case None
    then show ?thesis using m r1 by simp
  next
    case (Some client)
    then have "deletion_loop env (delete_movie env client) args ms (0, 0) w
                 = (Return (a, b), w1)"
      using m r1 by simp
    from deletion_loop_dry_run_confirmed [OF dry this] show ?thesis
      using Some by simp
  qed
  have shows_tally: "(c, d) = (sum_list (map m_size
                    (if sonarr = None then []
                     else fst (confirmed env args ss (stdin w1)))),
                  int (length (if sonarr = None then []
                               else fst (confirmed env args ss (stdin w1)))))"
  proof (cases sonarr)
    case None
    then show ?thesis using s2 r2 by simp
  next
    case (Some client)
    then have "deletion_loop env (delete_series env client) args ss (0, 0) w1
                 = (Return (c, d), w2)"
      using s2 r2 by simp
    from deletion_loop_dry_run_confirmed [OF dry this] show ?thesis
      using Some by simp
  qed
  show ?thesis
    using False s movies shows_tally by (simp add: expected_summary_def Let_def)
qed

text \<open>Nothing before the deletion phase reads the input.\<close>

lemma stdin_issue: "stdin (issue rs w) = stdin w"
  by (simp add: issue_def)

lemma stdin_datetime_now: "stdin (snd (datetime_now env w)) = stdin w"
  by (simp add: datetime_now_def)

lemma stdin_get_unwatched_items:
  "stdin (snd (get_unwatched_items env self d names w)) = stdin w"
  by (simp add: get_unwatched_items_def datetime_now_def issue_def case_prod_beta
        split: sum.splits)

lemma stdin_get_all:
  "stdin (snd (get_all_movies env self w)) = stdin w"
  "stdin (snd (get_all_series env self w)) = stdin w"
  by (simp_all add: get_all_movies_def get_all_series_def Let_def issue_def
        split: option.splits)

lemma stdin_lookup:
  "stdin (snd (lookup_movie env client name w)) = stdin w"
  "stdin (snd (lookup_series env client name w)) = stdin w"
  by (simp_all add: lookup_movie_def lookup_series_def find_movie_by_title_def
        find_series_by_title_def case_prod_beta stdin_get_all split: option.splits)

lemma stdin_correlate_loop:
  "stdin (snd (correlate_loop env radarr sonarr recent items w)) = stdin w"
  by (induction items arbitrary: w) (simp_all add: case_prod_beta stdin_lookup)

lemma process_dry_run_summary:
  assumes dry: "dry_run args"
    and run: "process_unwatched_media env args w = (Return (Some rep), w')"
  shows "deletion_summary rep
           = expected_summary env args (radarr_client_of args) (sonarr_client_of args)
               (report_movies rep) (report_shows rep) (stdin w)"
proof -
  from process_unwatched_media_Return [OF run] obtain out w1 cutoff where
    g: "get_unwatched_items env (configure_client env args) (days args)
       (libraries_to_check env args) (w\<lparr>movies_cache := None, series_cache := None\<rparr>)
       = (Inr out, w1)"
    and r: "report_phase env args (configure_client env args) (radarr_client_of args)
           (sonarr_client_of args) cutoff out (snd (datetime_now env w1)) = (Return rep, w')"
    by (rule process_body_Return)
  have w1: "stdin w1 = stdin w"
    using stdin_get_unwatched_items
      [of env "configure_client env args" "days args" "libraries_to_check env args"
          "w\<lparr>movies_cache := None, series_cache := None\<rparr>"] g
    by simp
  from r obtain ids rs ms ss w3 where
    c: "correlate_loop env (radarr_client_of args) (sonarr_client_of args) ids out
          (issue rs (snd (datetime_now env w1))) = ((ms, ss), w3)"
    and d: "fst (deletion_phase env args (radarr_client_of args) (sonarr_client_of args)
                (report_movies rep) (report_shows rep) (snd (datetime_now env w3)))
              = Return (deletion_summary rep)"
    by (rule report_phase_Return)
  have w3: "stdin w3 = stdin w"
    using stdin_correlate_loop
      [of env "radarr_client_of args" "sonarr_client_of args" ids out
          "issue rs (snd (datetime_now env w1))"] c w1
    by (simp add: stdin_issue stdin_datetime_now)
  obtain w5 where "deletion_phase env args (radarr_client_of args) (sonarr_client_of args)
                (report_movies rep) (report_shows rep) (snd (datetime_now env w3))
              = (Return (deletion_summary rep), w5)"
    using d by (cases "deletion_phase env args (radarr_client_of args) (sonarr_client_of args)
                (report_movies rep) (report_shows rep) (snd (datetime_now env w3))") simp
  from deletion_phase_dry_run_summary [OF dry this] show ?thesis
    using w3 by (simp add: stdin_datetime_now)
qed

text \<open>
  Claim C2. Under dry-run no delete call is ever issued to either catalog gateway: the
  delete calls in the log after a run are those before it, whatever the deletion mode and
  however the run ends, and the same holds of the whole process, scheduled or not. For
  every item confirmed for deletion (the code reaches line 949 or 983 with
  \<open>should_delete\<close> true) the loop adds the size of the item to the freed size and one to
  the count, and changes nothing else. With the mode \<open>all\<close>, which confirms every item that
  has a catalog identifier, the loop ends with the sum of their sizes and their number. In
  every mode a loop that returns has added to the freed size the sizes of the confirmed
  items and to the count their number; the summary of a deletion phase that returns, and so
  the summary in the report of a run that completes, counts the confirmed movies with
  their sizes and the confirmed shows with theirs (none of a list whose catalog client is
  missing), and is absent with the mode \<open>none\<close>.
\<close>

theorem dry_run_issues_no_delete_and_tallies:
  assumes "dry_run args"
  shows "delete_calls (snd (process_unwatched_media env args w)) = delete_calls w
    \<and> delete_calls (snd (main env args fuel w)) = delete_calls w
    \<and> delete_confirmed delete args entry (freed, n) w'
        = (Return (freed + m_size entry, n + 1), w')
    \<and> (delete_mode args = DeleteAll \<longrightarrow>
         deletion_loop env delete args entries (0, 0) w'
           = (Return (sum_list (map m_size (correlated entries)),
                      int (length (correlated entries))), w'))
    \<and> (deletion_loop env delete args entries (freed, n) w' = (Return tally, w'') \<longrightarrow>
         tally = (freed + sum_list (map m_size (fst (confirmed env args entries (stdin w')))),
                  n + int (length (fst (confirmed env args entries (stdin w'))))))
    \<and> (deletion_phase env args radarr sonarr movie_list show_list w' = (Return s, w'') \<longrightarrow>
         s = expected_summary env args radarr sonarr movie_list show_list (stdin w'))
    \<and> (process_unwatched_media env args w = (Return (Some rep), w1) \<longrightarrow>
         deletion_summary rep
           = expected_summary env args (radarr_client_of args) (sonarr_client_of args)
               (report_movies rep) (report_shows rep) (stdin w))"
  using assms process_unwatched_media_dry_run [of args env w]
    main_dry_run [of args env fuel w]
    delete_confirmed_dry_run [of args delete entry freed n w']
    deletion_loop_dry_run_all [of args env delete entries 0 0 w']
    deletion_loop_dry_run_confirmed [of args env delete entries freed n w' tally w'']
    deletion_phase_dry_run_summary [of args env radarr sonarr movie_list show_list w' s w'']
    process_dry_run_summary [of args env w rep w1]
  by simp

text \<open>
  The run of the example, \<open>--delete-mode all --dry-run\<close>: no delete call, and the summary
  counts the movie Alien and the series Fargo with their sizes. The same run without
  \<open>--dry-run\<close> issues the two delete calls. With \<open>--delete-mode interactive\<close> and the
  answers \<open>Y\<close> for Alien, then \<open>maybe\<close> and \<open>no\<close> for Fargo, the summary counts Alien alone;
  without the Radarr options it counts Fargo alone.
\<close>

theorem dry_run_issues_no_delete_and_tallies_witness:
  "delete_calls (snd (process_unwatched_media demo demo_args start)) = []
   \<and> (case fst (process_unwatched_media demo demo_args start) of
         Return (Some r) \<Rightarrow> deletion_summary r | _ \<Rightarrow> None)
       = Some \<lparr>deleted_movie_count = 1, deleted_movie_size = 2147483648,
               deleted_show_count = 1, deleted_show_size = 1000\<rparr>
   \<and> map url (delete_calls (snd (process_unwatched_media demo
                                   (demo_args\<lparr>dry_run := False\<rparr>) start)))
       = [''http://radarr/api/v3/movie/1'', ''http://sonarr/api/v3/series/7'']
   \<and> (case fst (process_unwatched_media demo (demo_args\<lparr>delete_mode := Interactive\<rparr>)
                  (start\<lparr>stdin := [''Y'', ''maybe'', ''no'']\<rparr>)) of
         Return (Some r) \<Rightarrow> deletion_summary r | _ \<Rightarrow> None)
       = Some \<lparr>deleted_movie_count = 1, deleted_movie_size = 2147483648,
               deleted_show_count = 0, deleted_show_size = 0\<rparr>
   \<and> delete_calls (snd (process_unwatched_media demo (demo_args\<lparr>delete_mode := Interactive\<rparr>)
                           (start\<lparr>stdin := [''Y'', ''maybe'', ''no'']\<rparr>))) = []
   \<and> (case fst (process_unwatched_media demo (demo_args\<lparr>radarr_url := None\<rparr>) start) of
         Return (Some r) \<Rightarrow> deletion_summary r | _ \<Rightarrow> None)
       = Some \<lparr>deleted_movie_count = 0, deleted_movie_size = 0,
               deleted_show_count = 1, deleted_show_size = 1000\<rparr>"
proof -
  let ?asked = "demo_args\<lparr>delete_mode := Interactive\<rparr>"
  let ?answers = "start\<lparr>stdin := [''Y'', ''maybe'', ''no'']\<rparr>"
  have dry: "dry_run demo_args"
    by (simp add: demo_args_def)
  have dry': "dry_run ?asked"
    by (simp add: demo_args_def)
  have none: "delete_calls start = []"
    by (simp add: delete_calls_def start_def)
  have none': "delete_calls ?answers = []"
    by (simp add: delete_calls_def start_def)
  have summary: "(case fst (process_unwatched_media demo demo_args start) of
         Return (Some r) \<Rightarrow> deletion_summary r | _ \<Rightarrow> None)
       = Some \<lparr>deleted_movie_count = 1, deleted_movie_size = 2147483648,
               deleted_show_count = 1, deleted_show_size = 1000\<rparr>"
    by code_simp
  have live: "map url (delete_calls (snd (process_unwatched_media demo
                                   (demo_args\<lparr>dry_run := False\<rparr>) start)))
       = [''http://radarr/api/v3/movie/1'', ''http://sonarr/api/v3/series/7'']"
    by code_simp
  have completes: "case fst (process_unwatched_media demo ?asked ?answers) of
         Return (Some r) \<Rightarrow> True | _ \<Rightarrow> False"
    by code_simp
  then obtain rep w1 where
    run: "process_unwatched_media demo ?asked ?answers = (Return (Some rep), w1)"
    by (cases "process_unwatched_media demo ?asked ?answers")
       (auto split: result.splits option.splits)
  have expected: "(case fst (process_unwatched_media demo ?asked ?answers) of
         Return (Some r) \<Rightarrow>
           expected_summary demo ?asked (radarr_client_of ?asked) (sonarr_client_of ?asked)
             (report_movies r) (report_shows r) (stdin ?answers)
       | _ \<Rightarrow> None)
       = Some \<lparr>deleted_movie_count = 1, deleted_movie_size = 2147483648,
               deleted_show_count = 0, deleted_show_size = 0\<rparr>"
    by code_simp
  have asked: "deletion_summary rep
       = Some \<lparr>deleted_movie_count = 1, deleted_movie_size = 2147483648,
               deleted_show_count = 0, deleted_show_size = 0\<rparr>"
    using dry_run_issues_no_delete_and_tallies
      [OF dry', where env = demo and w = ?answers and rep = rep and ?w1.0 = w1]
      run expected
    by simp
  have no_radarr: "(case fst (process_unwatched_media demo (demo_args\<lparr>radarr_url := None\<rparr>)
                           start) of
         Return (Some r) \<Rightarrow> deletion_summary r | _ \<Rightarrow> None)
       = Some \<lparr>deleted_movie_count = 0, deleted_movie_size = 0,
               deleted_show_count = 1, deleted_show_size = 1000\<rparr>"
    by code_simp
  show ?thesis
    using dry_run_issues_no_delete_and_tallies [OF dry, of demo start]
      dry_run_issues_no_delete_and_tallies [OF dry', of demo ?answers]
      none none' summary live run asked no_radarr
    by simp
qed

section \<open>The option \<open>--include-recent\<close>\<close>

lemma updated_get_items_same:
  "server_url client = server_url (EmbyClient env s k wl)
   \<Longrightarrow> headers client = headers (EmbyClient env s k wl)
   \<Longrightarrow> updated_get_items env client = get_items_by_library (EmbyClient env s k wl)"
  by (rule ext)
     (simp add: updated_get_items_def EmbyClient_def Let_def emby_get_items_by_library_def)

text \<open>The client of a run does not depend on the flag: the method that the run installs
  when the flag is unset is the method the client already has.\<close>

lemma configure_client_unpatched:
  "configure_client env args =
     (if ignore_episodes args
      then (EmbyClient env (server args) (api_key args) (comma_separated env (whitelist args)))
             \<lparr>get_episodes_by_series := (\<lambda>series_id. ([], [])),
              get_user_episodes_by_series := (\<lambda>uid series_id. ([], []))\<rparr>
      else EmbyClient env (server args) (api_key args) (comma_separated env (whitelist args)))"
proof -
  let ?c = "EmbyClient env (server args) (api_key args) (comma_separated env (whitelist args))"
  let ?p = "?c\<lparr>get_episodes_by_series := (\<lambda>series_id. ([], [])),
               get_user_episodes_by_series := (\<lambda>uid series_id. ([], []))\<rparr>"
  have a: "updated_get_items env ?c = get_items_by_library ?c"
    by (rule updated_get_items_same) simp_all
  have b: "updated_get_items env ?p = get_items_by_library ?p"
    using updated_get_items_same [of ?p env "server args" "api_key args"
        "comma_separated env (whitelist args)"]
    by simp
  have a': "?c\<lparr>get_items_by_library := updated_get_items env ?c\<rparr> = ?c"
    unfolding a by simp
  have b': "?p\<lparr>get_items_by_library := updated_get_items env ?p\<rparr> = ?p"
    unfolding b by simp
  show ?thesis
    unfolding configure_client_def Let_def using a' b' by simp
qed

lemma configure_client_flag:
  "configure_client env (args\<lparr>include_recent := b\<rparr>) = configure_client env args"
  by (simp add: configure_client_unpatched)

lemma should_delete_flag: "should_delete env (args\<lparr>include_recent := b\<rparr>) = should_delete env args"
  by (rule ext) (simp add: should_delete_def)

lemma delete_confirmed_flag:
  "delete_confirmed delete (args\<lparr>include_recent := b\<rparr>) = delete_confirmed delete args"
  by (intro ext) (simp add: delete_confirmed_def cong: prod.case_cong if_cong)

lemma deletion_loop_flag:
  "deletion_loop env delete (args\<lparr>include_recent := b\<rparr>) entries tally w
     = deletion_loop env delete args entries tally w"
  by (induction entries arbitrary: tally w)
     (simp_all add: should_delete_flag delete_confirmed_flag
        split: prod.splits result.splits option.splits bool.splits)

lemma deletion_phase_flag:
  "deletion_phase env (args\<lparr>include_recent := b\<rparr>) = deletion_phase env args"
  by (intro ext)
     (simp add: deletion_phase_def deletion_loop_flag
        cong: option.case_cong prod.case_cong result.case_cong if_cong)

lemma report_phase_flag:
  "report_phase env (args\<lparr>include_recent := b\<rparr>) = report_phase env args"
  by (intro ext)
     (simp add: report_phase_def deletion_phase_flag
        cong: option.case_cong prod.case_cong result.case_cong if_cong)

lemma process_body_flag:
  "process_body env (args\<lparr>include_recent := b\<rparr>) w = process_body env args w"
  by (simp add: process_body_def configure_client_flag report_phase_flag
        libraries_to_check_def radarr_client_of_def sonarr_client_of_def
        cong: sum.case_cong prod.case_cong if_cong)

lemma process_unwatched_media_flag:
  "process_unwatched_media env (args\<lparr>include_recent := b\<rparr>) w
     = process_unwatched_media env args w"
  by (simp add: process_unwatched_media_def process_body_flag)

lemma listed_not_recent:
  assumes run: "get_unwatched_items env self d names w = (Inr out, w')"
    and cutoff: "cutoff_date (clock env (clock_reads w)) d = Inr cutoff"
  shows "list_all (\<lambda>x. \<not> after (date_created x) cutoff) out"
proof -
  have out: "\<And>x. x \<in> set out = (\<exists>l it. x = set_library_name (lib_name l) it
        \<and> l \<in> set (active_libraries self names) \<and> truthy (lib_item_id l)
        \<and> it \<in> set (fst (get_items_by_library self (the (lib_item_id l))))
        \<and> keeps self cutoff (exclusion_set env self cutoff names) it)"
    using get_unwatched_items_Inr [OF run cutoff] fst_unwatched_since in_unwatched_pass by simp
  have "\<not> after (date_created x) cutoff" if mem: "x \<in> set out" for x
  proof -
    from mem obtain l :: library and it :: item
      where x: "x = set_library_name (lib_name l) it"
        and k: "keeps self cutoff (exclusion_set env self cutoff names) it"
      unfolding out by (elim exE conjE)
    show ?thesis
      using k by (simp add: x keeps_def set_library_name_def)
  qed
  then show ?thesis
    by (simp add: list_all_iff)
qed

text \<open>
  Claim C10. The function that the run installs on the client when \<open>--include-recent\<close> is
  not given issues the request of the method it replaces, so the resolver returns the same
  items and issues the same requests with the flag as without it, and so does the whole
  run. Whatever the flag, no item of the resolver's output has a creation timestamp after
  the cutoff.
\<close>

theorem include_recent_changes_nothing:
  "updated_get_items env (EmbyClient env s k wl) = get_items_by_library (EmbyClient env s k wl)
   \<and> get_unwatched_items env (configure_client env (args\<lparr>include_recent := True\<rparr>)) d names w
       = get_unwatched_items env (configure_client env (args\<lparr>include_recent := False\<rparr>))
           d names w
   \<and> process_unwatched_media env (args\<lparr>include_recent := True\<rparr>) w
       = process_unwatched_media env (args\<lparr>include_recent := False\<rparr>) w
   \<and> (get_unwatched_items env (configure_client env (args\<lparr>include_recent := True\<rparr>))
          d names w = (Inr out, w')
        \<longrightarrow> cutoff_date (clock env (clock_reads w)) d = Inr cutoff
        \<longrightarrow> list_all (\<lambda>x. \<not> after (date_created x) cutoff) out)"
proof (intro conjI impI)
  show "updated_get_items env (EmbyClient env s k wl)
      = get_items_by_library (EmbyClient env s k wl)"
    by (rule updated_get_items_same) simp_all
  show "get_unwatched_items env (configure_client env (args\<lparr>include_recent := True\<rparr>)) d names w
       = get_unwatched_items env (configure_client env (args\<lparr>include_recent := False\<rparr>))
           d names w"
    by (simp add: configure_client_flag)
  show "process_unwatched_media env (args\<lparr>include_recent := True\<rparr>) w
       = process_unwatched_media env (args\<lparr>include_recent := False\<rparr>) w"
    by (simp add: process_unwatched_media_flag)
next
  assume "get_unwatched_items env (configure_client env (args\<lparr>include_recent := True\<rparr>))
          d names w = (Inr out, w')"
    and "cutoff_date (clock env (clock_reads w)) d = Inr cutoff"
  then show "list_all (\<lambda>x. \<not> after (date_created x) cutoff) out"
    by (rule listed_not_recent)
qed

text \<open>
  The example with \<open>--include-recent\<close>: the output is the one without the flag, and the
  movie Dune, created five days before the run, is not in it.
\<close>

theorem include_recent_changes_nothing_witness:
  "fst (get_unwatched_items demo (configure_client demo (demo_args\<lparr>include_recent := True\<rparr>))
          90 [] start) = Inr demo_unwatched
   \<and> list_all (\<lambda>x. \<not> after (date_created x) ''2024-01-02T00:00:00'') demo_unwatched
   \<and> after (date_created (demo_movies ! 3)) ''2024-01-02T00:00:00''"
proof -
  have same: "demo_args\<lparr>include_recent := False\<rparr> = demo_args"
    by (simp add: demo_args_def)
  have dune: "after (date_created (demo_movies ! 3)) ''2024-01-02T00:00:00''"
    by code_simp
  note inst = include_recent_changes_nothing
    [of demo "server demo_args" "api_key demo_args" "[]" demo_args 90 "[]" start
        demo_unwatched "snd (get_unwatched_items demo demo_client 90 [] start)"
        "''2024-01-02T00:00:00''"]
  have eq: "get_unwatched_items demo
        (configure_client demo (demo_args\<lparr>include_recent := True\<rparr>)) 90 [] start
      = get_unwatched_items demo
          (configure_client demo (demo_args\<lparr>include_recent := False\<rparr>)) 90 [] start"
    using inst by (elim conjE)
  have run: "get_unwatched_items demo
        (configure_client demo (demo_args\<lparr>include_recent := True\<rparr>)) 90 [] start
      = (Inr demo_unwatched, snd (get_unwatched_items demo demo_client 90 [] start))"
    unfolding eq same demo_client_def [symmetric] by (rule demo_run)
  have old: "list_all (\<lambda>x. \<not> after (date_created x) ''2024-01-02T00:00:00'') demo_unwatched"
    using inst [THEN conjunct2, THEN conjunct2, THEN conjunct2, rule_format, OF run demo_cutoff] .
  show ?thesis
    using run old dune by simp
qed

section \<open>The cutoff and the clock\<close>

text \<open>The tests of the resolver are the tests of the specification, against the cutoff
  that the resolver passes to them.\<close>

lemma watched_spec: "watched cutoff (user_data item) = spec_watched cutoff item"
  by (cases "user_data item")
     (auto simp: watched_def spec_watched_def Let_def split: option.splits)

lemma after_created_spec: "after (date_created item) cutoff = spec_recently_added cutoff item"
  by (cases "date_created item") (simp_all add: spec_recently_added_def)

lemma stale_spec: "stale (date_last_played item) cutoff = spec_not_played_since cutoff item"
  by (cases "date_last_played item") (simp_all add: spec_not_played_since_def)

lemma episodes_loop_spec:
  "episodes_loop cutoff episodes =
     list_ex (\<lambda>episode. case date_last_played episode of
                          None \<Rightarrow> False | Some t \<Rightarrow> t \<noteq> [] \<and> cutoff < t) episodes"
proof (induction episodes)
  case Nil
  show ?case by simp
next
  case (Cons episode episodes)
  then show ?case
    by (cases "date_last_played episode") simp_all
qed

lemma recency_veto_spec: "recency_veto self cutoff item = spec_vetoed self cutoff item"
  by (simp add: recency_veto_def spec_vetoed_def episodes_loop_spec)

lemma recent_episode_loop_spec:
  "recent_episode_loop cutoff episodes = list_ex (spec_recently_added cutoff) episodes"
  by (induction episodes) (simp_all add: after_created_spec)

text \<open>The set that the whitelist pass collects.\<close>

lemma fst_user_items_loop:
  "fst (user_items_loop self cutoff uid items s) =
     s \<union> set [item_id item. item \<leftarrow> items, spec_watched cutoff item]"
  by (induction items arbitrary: s) (auto simp: case_prod_beta watched_spec)

lemma fst_users_loop:
  "fst (users_loop self cutoff library_id uids s) =
     s \<union> set [item_id item. uid \<leftarrow> uids,
                item \<leftarrow> fst (get_user_items_by_library self uid library_id),
                spec_watched cutoff item]"
proof (induction uids arbitrary: s)
  case Nil
  show ?case by simp
next
  case (Cons uid uids)
  show ?case
    by (simp add: case_prod_beta Cons.IH fst_user_items_loop Un_assoc)
qed

lemma fst_whitelist_pass:
  "fst (whitelist_pass self cutoff uids libs s) =
     s \<union> set [item_id item. lib \<leftarrow> libs, truthy (lib_item_id lib), uid \<leftarrow> uids,
                item \<leftarrow> fst (get_user_items_by_library self uid (the (lib_item_id lib))),
                spec_watched cutoff item]"
proof (induction libs arbitrary: s)
  case Nil
  show ?case by simp
next
  case (Cons lib libs)
  show ?case
    by (auto simp add: case_prod_beta Cons.IH fst_users_loop)
qed

lemma exclusion_set_spec:
  "exclusion_set env self cutoff names = set (spec_excluded env self cutoff names)"
  by (simp add: exclusion_set_def spec_excluded_def fst_whitelist_pass)

text \<open>The list that the global pass builds.\<close>

lemma concat_map_if:
  "concat (map (\<lambda>x. if P x then [f x] else []) xs) = map f (filter P xs)"
  by (induction xs) simp_all

lemma fst_unwatched_pass:
  "fst (unwatched_pass self cutoff s libs) =
     [set_library_name (lib_name lib) item.
        lib \<leftarrow> libs, truthy (lib_item_id lib),
        item \<leftarrow> fst (get_items_by_library self (the (lib_item_id lib))),
        keeps self cutoff s item]"
proof (induction libs)
  case Nil
  show ?case by simp
next
  case (Cons lib libs)
  show ?case
    by (simp add: case_prod_beta Cons.IH fst_items_loop concat_map_if)
qed

lemma keeps_spec:
  "keeps self cutoff s item =
     (item_id item \<notin> s \<and> \<not> spec_vetoed self cutoff item
      \<and> \<not> spec_recently_added cutoff item \<and> spec_not_played_since cutoff item)"
  by (simp add: keeps_def recency_veto_spec after_created_spec stale_spec)

lemma four_tests:
  "(if a then if b then if c then if d then [x] else [] else [] else [] else [])
     = (if a \<and> b \<and> c \<and> d then [x] else [])"
  by simp

lemma unwatched_since_spec:
  "fst (unwatched_since env self cutoff names) = spec_unwatched env self cutoff names"
  unfolding fst_unwatched_since fst_unwatched_pass exclusion_set_spec spec_unwatched_def
    keeps_spec four_tests
  by (rule refl)

text \<open>The resolver reads the clock once, and the clock matters to it through the cutoff
  of that reading only.\<close>

lemma get_unwatched_items_reads_once:
  "clock_reads (snd (get_unwatched_items env self d names w)) = Suc (clock_reads w)"
  by (simp add: get_unwatched_items_def datetime_now_def issue_def case_prod_beta
        split: sum.splits)

lemma is_whitelisted_clock: "is_whitelisted (env\<lparr>clock := c\<rparr>) = is_whitelisted env"
  by (intro ext) (simp add: is_whitelisted_def)

lemma whitelisted_user_ids_clock:
  "whitelisted_user_ids (env\<lparr>clock := c\<rparr>) = whitelisted_user_ids env"
  by (intro ext) (simp add: whitelisted_user_ids_def is_whitelisted_clock)

lemma unwatched_since_clock:
  "unwatched_since (env\<lparr>clock := c\<rparr>) self cutoff names = unwatched_since env self cutoff names"
  by (simp add: unwatched_since_def case_prod_beta Let_def whitelisted_user_ids_clock)

lemma get_unwatched_items_clock:
  "cutoff_date (c (clock_reads w)) d = cutoff_date (clock env (clock_reads w)) d
   \<Longrightarrow> get_unwatched_items (env\<lparr>clock := c\<rparr>) self d names w
         = get_unwatched_items env self d names w"
  by (simp add: get_unwatched_items_def datetime_now_def unwatched_since_clock
        split: sum.splits)

lemma get_unwatched_items_spec:
  "cutoff_date (clock env (clock_reads w)) d = Inr cutoff
   \<Longrightarrow> fst (get_unwatched_items env self d names w)
         = Inr (spec_unwatched env self cutoff names)"
  by (simp add: get_unwatched_items_def datetime_now_def case_prod_beta
        unwatched_since_spec)

text \<open>The series that the check for recently added episodes collects, and the names that
  the correlation lists.\<close>

lemma fst_recently_updated_loop:
  "fst (recently_updated_loop client cutoff items) =
     item_id ` {item \<in> set items. item_type item = Some ''Series''
                  \<and> list_ex (spec_recently_added cutoff)
                       (fst (get_episodes_by_series client (item_id item)))}"
  by (induction items) (auto simp: case_prod_beta recent_episode_loop_spec)

lemma recently_updated_ids:
  assumes "item \<in> set items" and "item_type item = Some ''Series''"
  shows "(item_id item \<in> fst (if \<not> ignore_recent_episodes args
                                 then recently_updated_loop client cutoff items
                                 else ({}, [])))
          = spec_recently_updated args client cutoff item"
proof (cases "ignore_recent_episodes args")
  case True
  then show ?thesis by (simp add: spec_recently_updated_def)
next
  case False
  have "(item_id item \<in> fst (recently_updated_loop client cutoff items))
      = list_ex (spec_recently_added cutoff)
          (fst (get_episodes_by_series client (item_id item)))"
  proof
    assume "item_id item \<in> fst (recently_updated_loop client cutoff items)"
    then obtain other :: item where "item_id item = item_id other"
      and "list_ex (spec_recently_added cutoff)
             (fst (get_episodes_by_series client (item_id other)))"
      unfolding fst_recently_updated_loop by auto
    then show "list_ex (spec_recently_added cutoff)
             (fst (get_episodes_by_series client (item_id item)))"
      by simp
  next
    assume "list_ex (spec_recently_added cutoff)
             (fst (get_episodes_by_series client (item_id item)))"
    then show "item_id item \<in> fst (recently_updated_loop client cutoff items)"
      unfolding fst_recently_updated_loop using assms by auto
  qed
  then show ?thesis
    using False assms by (simp add: spec_recently_updated_def)
qed

lemma correlate_loop_movies:
  "map m_name (fst (fst (correlate_loop env radarr sonarr recent items w))) =
     map name_of (filter (\<lambda>item. item_type item = Some ''Movie'') items)"
  by (induction items arbitrary: w) (simp_all add: case_prod_beta media_entry_def)

lemma correlate_loop_shows:
  "map m_name (snd (fst (correlate_loop env radarr sonarr recent items w))) =
     map name_of (filter (\<lambda>item. item_type item = Some ''Series'' \<and> item_id item \<notin> recent)
                    items)"
  by (induction items arbitrary: w) (simp_all add: case_prod_beta media_entry_def)

lemma mset_sort_by_size_desc: "mset (map m_name (sort_by_size_desc xs)) = mset (map m_name xs)"
proof -
  have "mset (sort_by_size_desc xs) = mset xs"
    by (simp add: sort_by_size_desc_def)
  then have "image_mset m_name (mset (sort_by_size_desc xs)) = image_mset m_name (mset xs)"
    by simp
  then show ?thesis by simp
qed

text \<open>
  The lists of a completed run: the movies of the resolver's output, and its series
  without those that have an episode created after the cutoff of the second reading.
\<close>

lemma process_lists:
  assumes run: "process_unwatched_media env args w = (Return (Some rep), w')"
    and first: "cutoff_date (clock env (clock_reads w)) (days args) = Inr cutoff"
    and second: "cutoff_date (clock env (Suc (clock_reads w))) (days args) = Inr next_cutoff"
  shows "listed_movies rep =
           mset (map name_of
             [item \<leftarrow> spec_unwatched env (configure_client env args) cutoff
                         (libraries_to_check env args).
              item_type item = Some ''Movie''])"
    and "listed_shows rep =
           mset (map name_of
             [item \<leftarrow> spec_unwatched env (configure_client env args) cutoff
                         (libraries_to_check env args).
              item_type item = Some ''Series''
              \<and> \<not> spec_recently_updated args (configure_client env args) next_cutoff item])"
proof -
  let ?client = "configure_client env args"
  let ?w0 = "w\<lparr>movies_cache := None, series_cache := None\<rparr>"
  let ?out = "spec_unwatched env ?client cutoff (libraries_to_check env args)"
  from process_unwatched_media_Return [OF run] obtain out w1 cutoff2 where
    g: "get_unwatched_items env ?client (days args) (libraries_to_check env args) ?w0
          = (Inr out, w1)"
    and c2: "cutoff_date (clock env (clock_reads w1)) (days args) = Inr cutoff2"
    and r: "report_phase env args ?client (radarr_client_of args) (sonarr_client_of args)
              cutoff2 out (snd (datetime_now env w1)) = (Return rep, w')"
    by (rule process_body_Return)
  have out: "out = ?out"
    using get_unwatched_items_spec
      [of env ?w0 "days args" cutoff ?client "libraries_to_check env args"] first g
    by simp
  have "clock_reads w1 = Suc (clock_reads w)"
    using get_unwatched_items_reads_once
      [of env ?client "days args" "libraries_to_check env args" ?w0] g
    by simp
  then have cutoff2: "cutoff2 = next_cutoff"
    using c2 second by simp
  from r obtain ids rs ms ss w3 where
    ids: "(if \<not> ignore_recent_episodes args
           then recently_updated_loop ?client cutoff2 out else ({}, [])) = (ids, rs)"
    and c: "correlate_loop env (radarr_client_of args) (sonarr_client_of args) ids out
              (issue rs (snd (datetime_now env w1))) = ((ms, ss), w3)"
    and m: "report_movies rep = (if sort_by_size args then sort_by_size_desc ms else ms)"
    and sh: "report_shows rep = (if sort_by_size args then sort_by_size_desc ss else ss)"
    by (rule report_phase_Return)
  have ms: "map m_name ms = map name_of (filter (\<lambda>item. item_type item = Some ''Movie'') out)"
    using correlate_loop_movies
      [of env "radarr_client_of args" "sonarr_client_of args" ids out
          "issue rs (snd (datetime_now env w1))"] c
    by simp
  have ss: "map m_name ss =
      map name_of (filter (\<lambda>item. item_type item = Some ''Series'' \<and> item_id item \<notin> ids) out)"
    using correlate_loop_shows
      [of env "radarr_client_of args" "sonarr_client_of args" ids out
          "issue rs (snd (datetime_now env w1))"] c
    by simp
  have "filter (\<lambda>item. item_type item = Some ''Series'' \<and> item_id item \<notin> ids) out
      = filter (\<lambda>item. item_type item = Some ''Series''
                  \<and> \<not> spec_recently_updated args ?client cutoff2 item) out"
  proof (rule filter_cong [OF refl])
    fix item :: item
    assume "item \<in> set out"
    then show "(item_type item = Some ''Series'' \<and> item_id item \<notin> ids)
        = (item_type item = Some ''Series''
             \<and> \<not> spec_recently_updated args ?client cutoff2 item)"
      using recently_updated_ids [of item out args ?client cutoff2] ids by auto
  qed
  then have ss': "map m_name ss =
      map name_of (filter (\<lambda>item. item_type item = Some ''Series''
                  \<and> \<not> spec_recently_updated args ?client next_cutoff item) ?out)"
    using ss out cutoff2 by simp
  show "listed_movies rep =
           mset (map name_of
             [item \<leftarrow> ?out. item_type item = Some ''Movie''])"
    unfolding listed_movies_def m using ms out
    by (simp add: mset_sort_by_size_desc del: mset_map)
  show "listed_shows rep =
           mset (map name_of
             [item \<leftarrow> ?out.
              item_type item = Some ''Series''
              \<and> \<not> spec_recently_updated args ?client next_cutoff item])"
    unfolding listed_shows_def sh using ss'
    by (simp add: mset_sort_by_size_desc del: mset_map)
qed

text \<open>
  Claim C6, as the code has it. The claim says that the cutoff is computed once at the start
  of a run and that the exclusion of series with recently added episodes compares against
  that same value. Line 793 computes the cutoff again, from the clock as it reads after the
  resolver has returned. In the example the clock reads 00:00:00 at line 200 and 00:00:05 at
  line 793, and the episode of Fargo was created three seconds after the first cutoff: the
  run reports Fargo, while with the clock standing still at its first reading (one cutoff
  for the whole run) Fargo is excluded.
\<close>

theorem cutoff_recomputed_after_resolver:
  "cutoff_date (clock demo 0) (days demo_args) = Inr ''2024-01-02T00:00:00''
   \<and> cutoff_date (clock demo 1) (days demo_args) = Inr ''2024-01-02T00:00:05''
   \<and> date_created demo_episode = Some ''2024-01-02T00:00:03.0000000Z''
   \<and> reported_shows (fst (process_unwatched_media demo demo_args start)) = [''Fargo'']
   \<and> reported_shows (fst (process_unwatched_media (demo\<lparr>clock := frozen_clock\<rparr>)
                              demo_args start)) = []"
  by code_simp

text \<open>
  Claim C6, amended. A run computes the cutoff twice, each time as the clock's reading
  minus the lookback days. The resolver reads the clock exactly once, at its start, and
  every membership decision of the resolver compares against the cutoff of that reading:
  its output is the list of the items that no whitelisted user has watched since that
  cutoff, that have no episode played after it, that were not created after it, and that
  were never played or last played before it; no other reading of the clock changes
  what the resolver returns. The exclusion of the series with recently added episodes
  compares against a second cutoff, the one of the next reading of the clock, taken after
  the resolver has returned: the report of a completed run lists the movies of the
  resolver's output, and its series without those that have an episode created after that
  second cutoff.
\<close>

theorem cutoff_fixed_within_resolver_and_within_report:
  "clock_reads (snd (get_unwatched_items env self d names w)) = Suc (clock_reads w)
   \<and> (cutoff_date (clock env (clock_reads w)) d = Inr cutoff
        \<longrightarrow> fst (get_unwatched_items env self d names w)
              = Inr (spec_unwatched env self cutoff names))
   \<and> (cutoff_date (c (clock_reads w)) d = cutoff_date (clock env (clock_reads w)) d
        \<longrightarrow> get_unwatched_items (env\<lparr>clock := c\<rparr>) self d names w
              = get_unwatched_items env self d names w)
   \<and> (process_unwatched_media env args w = (Return (Some rep), w')
        \<longrightarrow> cutoff_date (clock env (clock_reads w)) (days args) = Inr cutoff
        \<longrightarrow> cutoff_date (clock env (Suc (clock_reads w))) (days args) = Inr next_cutoff
        \<longrightarrow> listed_movies rep =
               mset (map name_of
                 [item \<leftarrow> spec_unwatched env (configure_client env args) cutoff
                             (libraries_to_check env args).
                  item_type item = Some ''Movie''])
            \<and> listed_shows rep =
               mset (map name_of
                 [item \<leftarrow> spec_unwatched env (configure_client env args) cutoff
                             (libraries_to_check env args).
                  item_type item = Some ''Series''
                  \<and> \<not> spec_recently_updated args (configure_client env args)
                         next_cutoff item]))"
  using get_unwatched_items_reads_once [of env self d names w]
    get_unwatched_items_spec [of env w d cutoff self names]
    get_unwatched_items_clock [of c w d env self names]
    process_lists [of env args w rep w' cutoff next_cutoff]
  by simp

text \<open>
  In the example the resolver's cutoff is 2024-01-02T00:00:00 and lists Alien, Charade,
  Eraserhead and Fargo; the second cutoff is 2024-01-02T00:00:05, the episode of Fargo
  was created before it, and the report lists the three movies and Fargo. Against the
  first cutoff Fargo would be excluded. A clock that agrees with the clock of the example
  at its first reading only gives the same resolver output.
\<close>

theorem cutoff_fixed_within_resolver_and_within_report_witness:
  "fst (get_unwatched_items demo demo_client 90 [] start) = Inr demo_unwatched
   \<and> spec_unwatched demo demo_client ''2024-01-02T00:00:00'' [] = demo_unwatched
   \<and> (case fst (process_unwatched_media demo demo_args start) of
         Return (Some rep) \<Rightarrow> listed_shows rep | _ \<Rightarrow> {#}) = {#''Fargo''#}
   \<and> (case fst (process_unwatched_media demo demo_args start) of
         Return (Some rep) \<Rightarrow> listed_movies rep | _ \<Rightarrow> {#})
       = mset [''Alien'', ''Charade'', ''Eraserhead'']
   \<and> [item \<leftarrow> demo_unwatched. item_type item = Some ''Series''
         \<and> \<not> spec_recently_updated demo_args demo_client ''2024-01-02T00:00:05'' item]
       = [set_library_name (Some ''TV'') demo_series]
   \<and> [item \<leftarrow> demo_unwatched. item_type item = Some ''Series''
         \<and> \<not> spec_recently_updated demo_args demo_client ''2024-01-02T00:00:00'' item] = []
   \<and> get_unwatched_items (demo\<lparr>clock := frozen_clock\<rparr>) demo_client 90 [] start
       = get_unwatched_items demo demo_client 90 [] start
   \<and> frozen_clock 1 \<noteq> clock demo 1"
proof -
  have first: "cutoff_date (clock demo (clock_reads start)) (days demo_args)
      = Inr ''2024-01-02T00:00:00''"
    by code_simp
  have second: "cutoff_date (clock demo (Suc (clock_reads start))) (days demo_args)
      = Inr ''2024-01-02T00:00:05''"
    by code_simp
  have first': "cutoff_date (clock demo (clock_reads start)) 90 = Inr ''2024-01-02T00:00:00''"
    by code_simp
  have frozen: "cutoff_date (frozen_clock (clock_reads start)) 90
      = cutoff_date (clock demo (clock_reads start)) 90"
    by code_simp
  have differs: "frozen_clock 1 \<noteq> clock demo 1"
    by code_simp
  have client: "configure_client demo demo_args = demo_client"
    by (simp add: demo_client_def)
  have names: "libraries_to_check demo demo_args = []"
    by code_simp
  have spec: "spec_unwatched demo demo_client ''2024-01-02T00:00:00'' [] = demo_unwatched"
    by code_simp
  have kept: "[item \<leftarrow> demo_unwatched. item_type item = Some ''Series''
         \<and> \<not> spec_recently_updated demo_args demo_client ''2024-01-02T00:00:05'' item]
       = [set_library_name (Some ''TV'') demo_series]"
    by code_simp
  have dropped: "[item \<leftarrow> demo_unwatched. item_type item = Some ''Series''
         \<and> \<not> spec_recently_updated demo_args demo_client ''2024-01-02T00:00:00'' item] = []"
    by code_simp
  have movies: "map name_of [item \<leftarrow> demo_unwatched. item_type item = Some ''Movie'']
      = [''Alien'', ''Charade'', ''Eraserhead'']"
    by code_simp
  have fargo: "name_of (set_library_name (Some ''TV'') demo_series) = ''Fargo''"
    by code_simp
  have completes: "case fst (process_unwatched_media demo demo_args start) of
         Return (Some rep) \<Rightarrow> True | _ \<Rightarrow> False"
    by code_simp
  then obtain rep w1 where
    run: "process_unwatched_media demo demo_args start = (Return (Some rep), w1)"
    by (cases "process_unwatched_media demo demo_args start")
       (auto split: result.splits option.splits)
  note resolver = cutoff_fixed_within_resolver_and_within_report
    [where env = demo and self = demo_client and d = 90 and names = "[]" and w = start
       and cutoff = "''2024-01-02T00:00:00''" and c = frozen_clock and args = demo_args
       and rep = rep and w' = w1 and next_cutoff = "''2024-01-02T00:00:05''"]
  show ?thesis
    using resolver first second first' frozen differs client names spec kept dropped
      movies fargo run
    by simp
qed

section \<open>Invalid configuration\<close>

lemma unwatched_since_no_library:
  "names \<noteq> [] \<Longrightarrow> filtered_libraries names (fst (get_libraries self)) = []
   \<Longrightarrow> unwatched_since env self cutoff names
         = ([], snd (get_users self) @ snd (get_libraries self))"
  by (simp add: unwatched_since_def case_prod_beta)

lemma deletion_phase_nothing:
  "deletion_phase env args radarr sonarr [] [] w
     = (if delete_mode args = DeleteNone then Return None
        else Return (Some \<lparr>deleted_movie_count = 0, deleted_movie_size = 0,
                            deleted_show_count = 0, deleted_show_size = 0\<rparr>), w)"
  by (simp add: deletion_phase_def split: option.splits)

lemma report_phase_nothing_log:
  "http_log (snd (report_phase env args client radarr sonarr cutoff [] w)) = http_log w"
  by (simp add: report_phase_def deletion_phase_nothing sort_by_size_desc_def issue_def
        datetime_now_def)

lemma process_body_no_library:
  assumes names: "libraries_to_check env args \<noteq> []"
    and none: "filtered_libraries (libraries_to_check env args)
                 (fst (get_libraries (configure_client env args))) = []"
    and cutoff: "cutoff_date (clock env (clock_reads w)) (days args) = Inr cutoff"
  shows "http_log (snd (process_body env args w))
           = http_log w @ snd (get_users (configure_client env args))
               @ snd (get_libraries (configure_client env args))"
proof -
  let ?client = "configure_client env args"
  let ?w0 = "w\<lparr>movies_cache := None, series_cache := None\<rparr>"
  let ?w1 = "issue (snd (get_users ?client) @ snd (get_libraries ?client))
               (?w0\<lparr>clock_reads := Suc (clock_reads w)\<rparr>)"
  have g: "get_unwatched_items env ?client (days args) (libraries_to_check env args) ?w0
      = (Inr [], ?w1)"
    using cutoff unwatched_since_no_library [OF names none, where cutoff = cutoff and env = env]
    by (simp add: get_unwatched_items_def datetime_now_def)
  have log: "http_log ?w1 = http_log w @ snd (get_users ?client) @ snd (get_libraries ?client)"
    by (simp add: issue_def)
  show ?thesis
    unfolding process_body_def g
    using log
    by (cases "cutoff_date (clock env (clock_reads ?w1)) (days args)")
       (simp_all add: datetime_now_def report_phase_nothing_log)
qed

lemma process_unwatched_media_no_library:
  assumes "libraries_to_check env args \<noteq> []"
    and "filtered_libraries (libraries_to_check env args)
           (fst (get_libraries (configure_client env args))) = []"
    and "cutoff_date (clock env (clock_reads w)) (days args) = Inr cutoff"
  shows "http_log (snd (process_unwatched_media env args w))
           = http_log w @ snd (get_users (configure_client env args))
               @ snd (get_libraries (configure_client env args))"
  using process_body_no_library [OF assms]
  by (cases "process_body env args w"; cases "fst (process_body env args w)")
     (simp_all add: process_unwatched_media_def)

text \<open>
  Claim C9, as the code has it. The claim says that an invalid configuration aborts the run
  before any gateway call. With the library filter \<open>Nowhere\<close>, which matches neither
  library of the example, the run has asked the media server for its users and for its
  libraries when it finds that out: the filter is compared with the libraries that the
  media server reports.
\<close>

theorem no_matching_library_after_two_calls:
  "libraries_to_check demo (demo_args\<lparr>libraries := Some ''Nowhere''\<rparr>) = [''Nowhere'']
   \<and> filtered_libraries [''Nowhere''] [movies_library, tv_library] = []
   \<and> map url (http_log (snd (main demo (demo_args\<lparr>libraries := Some ''Nowhere''\<rparr>) 0 start)))
       = [''http://emby/emby/Users'', ''http://emby/emby/Library/VirtualFolders'']
   \<and> http_log start = []"
  by code_simp

text \<open>
  Claim C9, amended. A negative recurring interval is reported and \<open>main\<close> returns before
  any gateway call, with exit code 0. A non-empty library filter that matches no available
  library is found out by the resolver once it has fetched the users and the libraries:
  the resolver then returns an empty list having issued those two requests only, and the
  run issues no other request.
\<close>

theorem configuration_failures:
  "(\<not> list_libraries args \<longrightarrow> interval args = Some n \<longrightarrow> n < 0
      \<longrightarrow> main env args fuel w = (Some 0, w))
   \<and> (names \<noteq> [] \<longrightarrow> filtered_libraries names (fst (get_libraries self)) = []
        \<longrightarrow> unwatched_since env self cutoff names
              = ([], snd (get_users self) @ snd (get_libraries self)))
   \<and> (libraries_to_check env args \<noteq> []
        \<longrightarrow> filtered_libraries (libraries_to_check env args)
              (fst (get_libraries (configure_client env args))) = []
        \<longrightarrow> cutoff_date (clock env (clock_reads w)) (days args) = Inr cutoff
        \<longrightarrow> http_log (snd (process_unwatched_media env args w))
              = http_log w @ snd (get_users (configure_client env args))
                  @ snd (get_libraries (configure_client env args)))"
proof (intro conjI impI)
  assume "\<not> list_libraries args" "interval args = Some n" "n < 0"
  then show "main env args fuel w = (Some 0, w)"
    by (simp add: main_def)
next
  assume "names \<noteq> []" "filtered_libraries names (fst (get_libraries self)) = []"
  then show "unwatched_since env self cutoff names
      = ([], snd (get_users self) @ snd (get_libraries self))"
    by (rule unwatched_since_no_library)
next
  assume "libraries_to_check env args \<noteq> []"
    "filtered_libraries (libraries_to_check env args)
       (fst (get_libraries (configure_client env args))) = []"
    "cutoff_date (clock env (clock_reads w)) (days args) = Inr cutoff"
  then show "http_log (snd (process_unwatched_media env args w))
      = http_log w @ snd (get_users (configure_client env args))
          @ snd (get_libraries (configure_client env args))"
    by (rule process_unwatched_media_no_library)
qed

text \<open>
  \<open>--interval -1\<close> ends the process at once with code 0 and no request; with the filter
  \<open>Nowhere\<close> the run issues the two requests of the resolver and no other.
\<close>

theorem configuration_failures_witness:
  "main demo (demo_args\<lparr>interval := Some (- 1)\<rparr>) 5 start = (Some 0, start)
   \<and> map url (http_log (snd (process_unwatched_media demo
                               (demo_args\<lparr>libraries := Some ''Nowhere''\<rparr>) start)))
       = [''http://emby/emby/Users'', ''http://emby/emby/Library/VirtualFolders'']"
proof -
  let ?neg = "demo_args\<lparr>interval := Some (- 1)\<rparr>"
  let ?args = "demo_args\<lparr>libraries := Some ''Nowhere''\<rparr>"
  have a: "\<not> list_libraries ?neg" "interval ?neg = Some (- 1)" "(- 1 :: int) < 0"
    by (simp_all add: demo_args_def)
  have names: "libraries_to_check demo ?args \<noteq> []"
    by code_simp
  have none: "filtered_libraries (libraries_to_check demo ?args)
                (fst (get_libraries (configure_client demo ?args))) = []"
    by code_simp
  have cutoff: "cutoff_date (clock demo (clock_reads start)) (days ?args)
      = Inr ''2024-01-02T00:00:00''"
    by code_simp
  have calls: "map url (http_log start @ snd (get_users (configure_client demo ?args))
                  @ snd (get_libraries (configure_client demo ?args)))
      = [''http://emby/emby/Users'', ''http://emby/emby/Library/VirtualFolders'']"
    by code_simp
  have neg: "main demo ?neg 5 start = (Some 0, start)"
    using configuration_failures
      [where args = ?neg and n = "- 1" and env = demo and fuel = 5 and w = start] a
    by simp
  have log: "http_log (snd (process_unwatched_media demo ?args start))
      = http_log start @ snd (get_users (configure_client demo ?args))
          @ snd (get_libraries (configure_client demo ?args))"
    using configuration_failures
      [where args = ?args and env = demo and w = start
         and cutoff = "''2024-01-02T00:00:00''"] names none cutoff
    by simp
  show ?thesis
    using neg calls unfolding log by simp
qed

section \<open>The scheduler and the exit code\<close>

lemma tick_idle: "last_run st = None \<Longrightarrow> tick env args h now st w = (Return (), st, w)"
  by (simp add: tick_def)

text \<open>What a pass does once \<open>last_run\<close> is set: nothing before the interval has elapsed,
  a run and \<open>last_run = now\<close> from then on.\<close>

lemma tick_not_due:
  "last_run st = Some t \<Longrightarrow> plus_hours t h = Inr next_run \<Longrightarrow> to_microseconds now < next_run
     \<Longrightarrow> tick env args h now st w = (Return (), st, w)"
  by (simp add: tick_def)

lemma tick_due:
  "last_run st = Some t \<Longrightarrow> plus_hours t h = Inr next_run \<Longrightarrow> next_run \<le> to_microseconds now
     \<Longrightarrow> process_unwatched_media env args w = (Return r, w1)
     \<Longrightarrow> plus_hours now h = Inr after_now
     \<Longrightarrow> tick env args h now st w
           = (Return (), st\<lparr>last_run := Some now, runs := Suc (runs st)\<rparr>, w1)"
  by (simp add: tick_def)

lemma idle_loop:
  "last_run st = None \<Longrightarrow>
     fst (snd (scheduler_loop env args h fuel i st w)) = st
     \<and> http_log (snd (snd (scheduler_loop env args h fuel i st w))) = http_log w"
proof (induction fuel arbitrary: i w)
  case 0
  show ?case by simp
next
  case (Suc fuel)
  show ?case
    using Suc.prems Suc.IH [OF Suc.prems, of "Suc i" "snd (datetime_now env w)"]
    by (simp add: tick_idle datetime_now_def split: option.splits)
qed

text \<open>
  Claim C7, on the code. The claim says that in recurring mode a first run eventually
  occurs when \<open>--run-at-start\<close> is not given. Without that option \<open>last_run\<close> starts as
  \<open>None\<close>, line 677 then skips the test of the interval, and nothing else assigns
  \<open>last_run\<close>: after any number of passes of the loop the scheduler has run nothing, holds
  no last run time, and the process has issued no request.
\<close>

theorem scheduler_without_run_at_start_never_runs:
  "fst (snd (run_scheduled env (args\<lparr>run_at_start := False\<rparr>) h fuel w))
     = \<lparr>last_run = None, runs = 0\<rparr>
   \<and> http_log (snd (snd (run_scheduled env (args\<lparr>run_at_start := False\<rparr>) h fuel w)))
       = http_log w
   \<and> (\<not> list_libraries args \<longrightarrow> interval args = Some h \<longrightarrow> 0 < h \<longrightarrow> \<not> run_at_start args
        \<longrightarrow> http_log (snd (main env args fuel w)) = http_log w)"
proof (intro conjI impI)
  have none: "last_run \<lparr>last_run = None, runs = 0\<rparr> = None"
    by simp
  show "fst (snd (run_scheduled env (args\<lparr>run_at_start := False\<rparr>) h fuel w))
     = \<lparr>last_run = None, runs = 0\<rparr>"
    using idle_loop [OF none] by (simp add: run_scheduled_def)
  show "http_log (snd (snd (run_scheduled env (args\<lparr>run_at_start := False\<rparr>) h fuel w)))
       = http_log w"
    using idle_loop [OF none] by (simp add: run_scheduled_def)
next
  assume a: "\<not> list_libraries args" "interval args = Some h" "0 < h" "\<not> run_at_start args"
  have none: "last_run \<lparr>last_run = None, runs = 0\<rparr> = None"
    by simp
  let ?args = "if delete_mode args = Interactive then args\<lparr>delete_mode := DeleteNone\<rparr> else args"
  have "\<not> run_at_start ?args"
    using a by simp
  then have "http_log (snd (snd (run_scheduled env ?args h fuel w))) = http_log w"
    using idle_loop [OF none, of env ?args h fuel 0 w] by (simp add: run_scheduled_def)
  then show "http_log (snd (main env args fuel w)) = http_log w"
    using a by (auto simp: main_def split: prod.splits option.splits result.splits)
qed

text \<open>
  \<open>--interval 1\<close> without \<open>--run-at-start\<close>: after a thousand passes of the loop, each a
  minute long, nothing has run.
\<close>

theorem scheduler_without_run_at_start_never_runs_witness:
  "runs (fst (snd (run_scheduled demo (demo_args\<lparr>interval := Some 1, run_at_start := False\<rparr>)
                     1 1000 start))) = 0
   \<and> http_log (snd (main demo (demo_args\<lparr>interval := Some 1\<rparr>) 1000 start)) = []"
proof -
  have a: "\<not> list_libraries (demo_args\<lparr>interval := Some 1\<rparr>)"
    "interval (demo_args\<lparr>interval := Some 1\<rparr>) = Some 1" "(0::int) < 1"
    "\<not> run_at_start (demo_args\<lparr>interval := Some 1\<rparr>)"
    by (simp_all add: demo_args_def)
  have log: "http_log start = []"
    by (simp add: start_def)
  note inst = scheduler_without_run_at_start_never_runs
    [of demo "demo_args\<lparr>interval := Some 1\<rparr>" 1 1000 start]
  show ?thesis
    using inst a log by simp
qed

text \<open>
  Claim C8, on the code. The claim says that a failure inside a single-shot run ends the
  process with a non-zero exit code. In \<open>process_unwatched_media\<close> the handler of line 1021
  catches every exception of the run and the function returns; \<open>main\<close> then logs that the
  script completed and returns, so the exit code is 0 whatever the exception was.
\<close>

theorem single_shot_failure_exits_zero:
  assumes "\<not> list_libraries args" and "\<not> truthy_int (interval args)"
    and "fst (process_body env args w) = Raise e"
  shows "fst (process_unwatched_media env args w) = Return None
         \<and> fst (main env args fuel w) = Some 0"
  using assms
  by (auto simp: main_def process_unwatched_media_def split: prod.splits result.splits)

text \<open>
  \<open>--days 4000000\<close>: the date 4000000 days before 2024-04-01 is before the year 1, the
  subtraction of line 200 raises \<open>OverflowError\<close>, and the process exits with code 0.
\<close>

theorem single_shot_failure_exits_zero_witness:
  "fst (process_body demo (demo_args\<lparr>days := 4000000\<rparr>) start) = Raise OverflowError
   \<and> fst (main demo (demo_args\<lparr>days := 4000000\<rparr>) 0 start) = Some 0"
proof -
  have a: "\<not> list_libraries (demo_args\<lparr>days := 4000000\<rparr>)"
    "\<not> truthy_int (interval (demo_args\<lparr>days := 4000000\<rparr>))"
    by (simp_all add: demo_args_def)
  have b: "fst (process_body demo (demo_args\<lparr>days := 4000000\<rparr>) start) = Raise OverflowError"
    by code_simp
  show ?thesis
    using single_shot_failure_exits_zero [OF a b, of 0] b by simp
qed

end
